(* ===== verification/Prelude.thy ===== *)
theory Prelude
  imports Main "HOL-Library.Sublist"
begin

text \<open>
  Shared vocabulary of the development: the names of the model's basic types,
  the JSON values of HTTP bodies and the \<open>User\<close> type of the guideline
  samples, the collections of rewrite rules the component theories add to,
  and generic facts about lists that several components use.
\<close>

named_theorems js_simps
  "evaluation rules of the JavaScript built-ins (String, Array) of the model"

named_theorems fs_simps
  "rules for lookup and update in the file-system tree"

type_synonym name = string
type_synonym url = string
type_synonym segs = "string list"

subsection \<open>JSON values\<close>

text \<open>The JSON values of request and response bodies (\<open>res.json\<close>, \<open>req.body\<close>).\<close>

datatype json =
    JNull
  | JBool bool
  | JNum int
  | JStr string
  | JArr "json list"
  | JObj "(string \<times> json) list"

text \<open>The \<open>User\<close> type the TypeScript samples of the guideline documents use.\<close>

record user =
  user_id :: string
  user_name :: string
  user_email :: string

subsection \<open>Windows of a list\<close>

text \<open>
  \<open>take (e - s) (drop s xs)\<close> is what JavaScript's \<open>xs.slice(s, e)\<close> returns
  for \<open>0 \<le> s \<le> e\<close>; these facts describe such windows.
\<close>

lemma take_drop_eq_map_nth:
  "e \<le> length xs \<Longrightarrow> take (e - s) (drop s xs) = map (nth xs) [s..<e]"
proof (induction "e - s" arbitrary: s)
  case 0
  then show ?case by simp
next
  case (Suc k)
  then have se: "s < e" "s < length xs" "e - s = Suc (e - Suc s)" by auto
  have "drop s xs = xs ! s # drop (Suc s) xs"
    using se(2) by (rule Cons_nth_drop_Suc [symmetric])
  then have "take (e - s) (drop s xs) = xs ! s # take (e - Suc s) (drop (Suc s) xs)"
    using se(3) by simp
  also have "take (e - Suc s) (drop (Suc s) xs) = map (nth xs) [Suc s..<e]"
    using Suc by simp
  finally show ?case using se by (simp add: upt_conv_Cons)
qed

subsection \<open>Indexed iteration\<close>

text \<open>
  \<open>xs.forEach((x, i) => ...)\<close> visits the indices \<open>0 .. length xs - 1\<close> in
  order; a recursion that carries the index \<open>i\<close> and the remaining suffix
  \<open>drop i xs\<close> enumerates the same indices, one at a time.
\<close>

lemma filter_upt_Cons:
  "i < n \<Longrightarrow> filter P [i..<n] = (if P i then [i] else []) @ filter P [Suc i..<n]"
  by (simp add: upt_conv_Cons)

end
