(* ===== verification/JsString.thy ===== *)
theory JsString
  imports Prelude
begin

text \<open>
  The JavaScript built-ins the server calls on strings and arrays, as
  executable HOL functions: \<open>startsWith\<close>, \<open>includes\<close>, \<open>toLowerCase\<close>,
  \<open>toUpperCase\<close>, \<open>split\<close> with a one-character separator,
  \<open>Array.prototype.join\<close>, \<open>Array.prototype.slice\<close>, the decimal rendering of a
  number in a template literal, and \<open>parseInt\<close>.  Strings are lists of
  8-bit characters; case mapping is the ASCII part of JavaScript's Unicode
  case mapping.  The lemmas are the facts about these built-ins that the
  component proofs use: the equivalence of the executable substring test with
  \<open>sublist\<close>, the split/join round trip, and the decimal print/parse round trip.
\<close>

subsection \<open>Prefix and substring tests\<close>

fun starts_with :: "string \<Rightarrow> string \<Rightarrow> bool" where
  "starts_with s [] = True"
| "starts_with [] (c # cs) = False"
| "starts_with (x # xs) (c # cs) = (x = c \<and> starts_with xs cs)"

fun str_includes :: "string \<Rightarrow> string \<Rightarrow> bool" where
  "str_includes [] q = (q = [])"
| "str_includes (x # xs) q = (starts_with (x # xs) q \<or> str_includes xs q)"

lemma starts_with_prefix [js_simps]: "starts_with s p \<longleftrightarrow> prefix p s"
  by (induction s p rule: starts_with.induct) auto

lemma str_includes_sublist [js_simps]: "str_includes s q \<longleftrightarrow> sublist q s"
  by (induction s) (auto simp: starts_with_prefix sublist_Cons_right)

lemma str_includes_Nil [simp]: "str_includes s []"
  by (simp add: str_includes_sublist)

subsection \<open>Case mapping\<close>

definition lower_char :: "char \<Rightarrow> char" where
  "lower_char c =
     (let n = of_char c :: nat in if 65 \<le> n \<and> n \<le> 90 then char_of (n + 32) else c)"

definition upper_char :: "char \<Rightarrow> char" where
  "upper_char c =
     (let n = of_char c :: nat in if 97 \<le> n \<and> n \<le> 122 then char_of (n - 32) else c)"

definition to_lower :: "string \<Rightarrow> string" where
  "to_lower s = map lower_char s"

definition to_upper :: "string \<Rightarrow> string" where
  "to_upper s = map upper_char s"

lemma of_char_lower_char:
  "of_char (lower_char c) = (if 65 \<le> (of_char c :: nat) \<and> (of_char c :: nat) \<le> 90
                             then of_char c + 32 else (of_char c :: nat))"
  using nat_of_char_less_256 [of c] by (simp add: lower_char_def Let_def)

lemma lower_char_idem [simp]: "lower_char (lower_char c) = lower_char c"
proof -
  have "of_char (lower_char (lower_char c)) = (of_char (lower_char c) :: nat)"
    by (simp add: of_char_lower_char)
  then show ?thesis by (metis char_of_char)
qed

lemma to_lower_idem [simp]: "to_lower (to_lower s) = to_lower s"
  by (simp add: to_lower_def)

lemma length_to_lower [simp]: "length (to_lower s) = length s"
  by (simp add: to_lower_def)

lemma to_lower_Nil [simp]: "to_lower [] = []"
  by (simp add: to_lower_def)

subsection \<open>Splitting and joining\<close>

text \<open>\<open>s.split(c)\<close> for a one-character separator \<open>c\<close>: never empty.\<close>

fun split_on :: "char \<Rightarrow> string \<Rightarrow> string list" where
  "split_on c [] = [[]]"
| "split_on c (x # xs) =
     (if x = c then [] # split_on c xs
      else (case split_on c xs of w # ws \<Rightarrow> (x # w) # ws | [] \<Rightarrow> [[x]]))"

text \<open>\<open>ws.join(sep)\<close>.\<close>

fun join_with :: "string \<Rightarrow> string list \<Rightarrow> string" where
  "join_with sep [] = []"
| "join_with sep [w] = w"
| "join_with sep (w # v # ws) = w @ sep @ join_with sep (v # ws)"

lemma split_on_not_Nil [simp]: "split_on c s \<noteq> []"
  by (induction s) (auto split: list.splits)

lemma split_on_Cons_other:
  "x \<noteq> c \<Longrightarrow> split_on c (x # xs) = (x # hd (split_on c xs)) # tl (split_on c xs)"
  by (cases "split_on c xs") auto

lemma join_with_Cons_Cons:
  "ws \<noteq> [] \<Longrightarrow> join_with sep (w # ws) = w @ sep @ join_with sep ws"
  by (cases ws) auto

lemma join_with_hd_tl:
  "ws \<noteq> [] \<Longrightarrow> join_with sep ((x # hd ws) # tl ws) = x # join_with sep ws"
  by (cases ws; cases "tl ws") auto

text \<open>Joining the pieces of a split with the separator gives the string back.\<close>

lemma join_split_on [js_simps]: "join_with [c] (split_on c s) = s"
proof (induction s)
  case Nil
  then show ?case by simp
next
  case (Cons x xs)
  show ?case
  proof (cases "x = c")
    case True
    with Cons.IH show ?thesis by (simp add: join_with_Cons_Cons)
  next
    case False
    then have "split_on c (x # xs) = (x # hd (split_on c xs)) # tl (split_on c xs)"
      by (rule split_on_Cons_other)
    with Cons.IH show ?thesis by (simp add: join_with_hd_tl)
  qed
qed

lemma split_on_no_sep: "w \<in> set (split_on c s) \<Longrightarrow> c \<notin> set w"
  by (induction s arbitrary: w) (auto split: if_splits list.splits)

lemma length_split_on: "length (split_on c s) = Suc (count_list s c)"
  by (induction s) (auto split: list.splits)

lemma split_on_append_sep:
  "split_on c (u @ c # v) = split_on c u @ split_on c v"
proof (induction u)
  case Nil
  then show ?case by simp
next
  case (Cons x xs)
  then show ?case
    by (cases "x = c") (auto split: list.splits)
qed

lemma split_on_no_sep_eq: "c \<notin> set s \<Longrightarrow> split_on c s = [s]"
  by (induction s) auto

subsection \<open>Array slices\<close>

text \<open>
  \<open>xs.slice(s, e)\<close> for indices already clipped to \<open>0 \<le> s\<close> and
  \<open>e \<le> xs.length\<close>, which is how the server calls it.
\<close>

definition js_slice :: "'a list \<Rightarrow> nat \<Rightarrow> nat \<Rightarrow> 'a list" where
  "js_slice xs s e = take (e - s) (drop s xs)"

lemma js_slice_map_nth [js_simps]:
  "e \<le> length xs \<Longrightarrow> js_slice xs s e = map (nth xs) [s..<e]"
  by (simp add: js_slice_def take_drop_eq_map_nth)

lemma length_js_slice: "length (js_slice xs s e) = min (e - s) (length xs - s)"
  by (simp add: js_slice_def)

subsection \<open>Decimal numbers in template literals\<close>

definition digit_char :: "nat \<Rightarrow> char" where
  "digit_char d = char_of (48 + d)"

fun show_nat :: "nat \<Rightarrow> string" where
  "show_nat n = (if n < 10 then [digit_char n] else show_nat (n div 10) @ [digit_char (n mod 10)])"

declare show_nat.simps [simp del]

lemma show_nat_not_Nil [simp]: "show_nat n \<noteq> []"
  by (subst show_nat.simps) simp

text \<open>The decimal digits of a number, most significant first.\<close>

fun dec_digits :: "nat \<Rightarrow> nat list" where
  "dec_digits n = (if n < 10 then [n] else dec_digits (n div 10) @ [n mod 10])"

declare dec_digits.simps [simp del]

lemma show_nat_dec_digits: "show_nat n = map digit_char (dec_digits n)"
proof (induction n rule: dec_digits.induct)
  case (1 n)
  then show ?case by (simp add: show_nat.simps [of n] dec_digits.simps [of n])
qed

lemma dec_digits_less: "d \<in> set (dec_digits n) \<Longrightarrow> d < 10"
proof (induction n rule: dec_digits.induct)
  case (1 n)
  then show ?case by (auto simp: dec_digits.simps [of n] split: if_splits)
qed

subsection \<open>\<open>parseInt\<close>\<close>

text \<open>
  \<open>parseInt(s)\<close> without a radix: leading white space is skipped, an optional
  sign is read, a \<open>0x\<close>/\<open>0X\<close> prefix selects radix 16 (otherwise 10), and
  the longest run of digits of the radix is read.  No digit at all gives
  \<open>NaN\<close>, here \<open>None\<close>.  White space is the ASCII part of JavaScript's.
\<close>

definition is_js_space :: "char \<Rightarrow> bool" where
  "is_js_space c = (of_char c = (32::nat) \<or> (9 \<le> (of_char c :: nat) \<and> (of_char c :: nat) \<le> 13))"

definition digit_val :: "char \<Rightarrow> nat option" where
  "digit_val c =
     (let n = of_char c :: nat in
      if 48 \<le> n \<and> n \<le> 57 then Some (n - 48)
      else if 97 \<le> n \<and> n \<le> 122 then Some (n - 87)
      else if 65 \<le> n \<and> n \<le> 90 then Some (n - 55)
      else None)"

fun take_digits :: "nat \<Rightarrow> string \<Rightarrow> nat list" where
  "take_digits r [] = []"
| "take_digits r (c # cs) =
     (case digit_val c of
        Some d \<Rightarrow> if d < r then d # take_digits r cs else []
      | None \<Rightarrow> [])"

definition digits_value :: "nat \<Rightarrow> nat list \<Rightarrow> nat" where
  "digits_value r ds = foldl (\<lambda>acc d. acc * r + d) 0 ds"

definition strip_sign :: "string \<Rightarrow> bool \<times> string" where
  "strip_sign s =
     (case s of
        c # r \<Rightarrow> if c = CHR ''-'' then (True, r) else if c = CHR ''+'' then (False, r) else (False, s)
      | [] \<Rightarrow> (False, []))"

definition radix_prefix :: "string \<Rightarrow> nat \<times> string" where
  "radix_prefix s =
     (if starts_with s ''0x'' \<or> starts_with s ''0X'' then (16, drop 2 s) else (10, s))"

definition parse_int :: "string \<Rightarrow> int option" where
  "parse_int s =
     (let (neg, s2) = strip_sign (dropWhile is_js_space s);
          (radix, s3) = radix_prefix s2;
          ds = take_digits radix s3
      in if ds = [] then None
         else Some ((if neg then -1 else 1) * int (digits_value radix ds)))"

lemma digit_val_digit_char: "d < 10 \<Longrightarrow> digit_val (digit_char d) = Some d"
  by (simp add: digit_val_def digit_char_def)

lemma take_digits_digits:
  "\<forall>d \<in> set ds. d < 10 \<Longrightarrow> take_digits 10 (map digit_char ds) = ds"
  by (induction ds) (auto simp: digit_val_digit_char)

lemma digits_value_dec_digits: "digits_value 10 (dec_digits n) = n"
proof (induction n rule: dec_digits.induct)
  case (1 n)
  then show ?case
    by (simp add: dec_digits.simps [of n] digits_value_def)
qed

lemma dec_digits_not_Nil [simp]: "dec_digits n \<noteq> []"
  by (subst dec_digits.simps) simp

lemma digit_char_of_char: "d < 10 \<Longrightarrow> (of_char (digit_char d) :: nat) = 48 + d"
  by (simp add: digit_char_def)

lemma digit_char_neq:
  assumes "d < 10" and "(of_char c :: nat) < 48 \<or> 57 < (of_char c :: nat)"
  shows "digit_char d \<noteq> c"
proof
  assume "digit_char d = c"
  then have "(of_char c :: nat) = 48 + d" using assms(1) by (simp add: digit_char_of_char [symmetric])
  with assms show False by arith
qed

lemma hd_show_nat:
  "\<exists>d rest. d < 10 \<and> show_nat n = digit_char d # map digit_char rest \<and> (\<forall>e \<in> set rest. e < 10)"
proof -
  obtain d rest where "dec_digits n = d # rest" by (cases "dec_digits n") auto
  moreover from this have "d < 10" and "\<forall>e \<in> set rest. e < 10"
    using dec_digits_less [of _ n] by auto
  ultimately show ?thesis by (auto simp: show_nat_dec_digits)
qed

text \<open>The decimal rendering of a number is read back by \<open>parseInt\<close>.\<close>

lemma parse_int_show_nat [js_simps]: "parse_int (show_nat n) = Some (int n)"
proof -
  obtain d rest where d: "d < 10" and sn: "show_nat n = digit_char d # map digit_char rest"
    and rest: "\<forall>e \<in> set rest. e < 10"
    using hd_show_nat [of n] by blast
  have od: "(of_char (digit_char d) :: nat) = 48 + d" using d by (rule digit_char_of_char)
  have nsp: "\<not> is_js_space (digit_char d)" using od by (simp add: is_js_space_def)
  have nsign: "digit_char d \<noteq> CHR ''-''" "digit_char d \<noteq> CHR ''+''"
    using d by (simp_all add: digit_char_neq)
  have nhex: "\<not> starts_with (show_nat n) ''0x''" "\<not> starts_with (show_nat n) ''0X''"
  proof -
    have "\<forall>e \<in> set rest. digit_char e \<noteq> CHR ''x'' \<and> digit_char e \<noteq> CHR ''X''"
      using rest by (simp add: digit_char_neq)
    then show "\<not> starts_with (show_nat n) ''0x''" "\<not> starts_with (show_nat n) ''0X''"
      unfolding sn by (cases rest; simp)+
  qed
  have digs: "take_digits 10 (show_nat n) = dec_digits n"
    by (simp add: show_nat_dec_digits take_digits_digits dec_digits_less)
  have "dropWhile is_js_space (show_nat n) = show_nat n"
    using nsp by (simp add: sn)
  moreover have "strip_sign (show_nat n) = (False, show_nat n)"
    using nsign by (simp add: strip_sign_def sn)
  moreover have "radix_prefix (show_nat n) = (10, show_nat n)"
    using nhex by (simp add: radix_prefix_def)
  ultimately show ?thesis
    using digs by (simp add: parse_int_def digits_value_dec_digits)
qed

end
