(* ===== verification/NodePath.thy ===== *)
theory NodePath
  imports JsString
begin

text \<open>
  Node's POSIX path functions as the server calls them: \<open>path.join\<close> (join the
  non-empty arguments with \<open>/\<close>, then \<open>path.normalize\<close>) and the resolution of a
  relative path against \<open>process.cwd()\<close> that every \<open>fs\<close> and \<open>git\<close> call
  performs.  \<open>norm_segs\<close> is Node's \<open>normalizeString\<close> at the level of
  segments: empty and \<open>.\<close> segments vanish, \<open>..\<close> removes the previous
  segment, and at the start it is kept for a relative path and dropped for an
  absolute one.  The lemmas compute \<open>path.join\<close> on the paths the server
  builds: clean relative paths (segments that are proper file names) are left
  as they are, and an absolute argument that is not the first does not reset
  the join.
\<close>

fun norm_segs :: "bool \<Rightarrow> string list \<Rightarrow> string list \<Rightarrow> string list" where
  "norm_segs up acc [] = rev acc"
| "norm_segs up acc (s # ss) =
     (if s = [] \<or> s = ''.'' then norm_segs up acc ss
      else if s = ''..'' then
        (case acc of
           t # acc' \<Rightarrow> if t = ''..'' then norm_segs up (s # acc) ss else norm_segs up acc' ss
         | [] \<Rightarrow> if up then norm_segs up [s] ss else norm_segs up [] ss)
      else norm_segs up (s # acc) ss)"

definition is_absolute :: "string \<Rightarrow> bool" where
  "is_absolute p = starts_with p ''/''"

definition normalize_path :: "string \<Rightarrow> string" where
  "normalize_path p =
     (if p = [] then ''.''
      else
        let isabs = is_absolute p;
            trail = (last p = CHR ''/'');
            r = join_with ''/'' (norm_segs (\<not> isabs) [] (split_on CHR ''/'' p))
        in if r = [] then (if isabs then ''/'' else if trail then ''./'' else ''.'')
           else (if isabs then ''/'' else []) @ r @ (if trail then ''/'' else []))"

definition path_join :: "string list \<Rightarrow> string" where
  "path_join args =
     (let ne = filter (\<lambda>a. a \<noteq> []) args
      in if ne = [] then ''.'' else normalize_path (join_with ''/'' ne))"

text \<open>
  The directory an \<open>fs\<close> or \<open>git\<close> call reaches, as the list of names from
  the file-system root: a relative path is taken relative to the (absolute)
  working directory \<open>cwd\<close>.
\<close>

definition resolve_segs :: "string \<Rightarrow> string \<Rightarrow> segs" where
  "resolve_segs cwd p =
     norm_segs False [] (split_on CHR ''/'' (if is_absolute p then p else cwd @ ''/'' @ p))"

lemma is_absolute_hd: "is_absolute p \<longleftrightarrow> p \<noteq> [] \<and> hd p = CHR ''/''"
  by (cases p) (auto simp: is_absolute_def)

subsection \<open>Proper names\<close>

text \<open>A name a directory entry can have: not empty, no \<open>/\<close>, not \<open>.\<close> or \<open>..\<close>.\<close>

definition proper_name :: "string \<Rightarrow> bool" where
  "proper_name n = (n \<noteq> [] \<and> CHR ''/'' \<notin> set n \<and> n \<noteq> ''.'' \<and> n \<noteq> ''..'')"

lemma norm_segs_proper_or_empty:
  "\<forall>s \<in> set ss. s = [] \<or> proper_name s \<Longrightarrow>
   norm_segs b acc ss = rev acc @ filter (\<lambda>s. s \<noteq> []) ss"
  by (induction ss arbitrary: acc) (auto simp: proper_name_def)

lemma norm_segs_proper:
  "\<forall>s \<in> set ss. proper_name s \<Longrightarrow> norm_segs b acc ss = rev acc @ ss"
proof -
  assume "\<forall>s \<in> set ss. proper_name s"
  moreover from this have "filter (\<lambda>s. s \<noteq> []) ss = ss"
    by (auto simp: proper_name_def filter_id_conv)
  ultimately show ?thesis by (simp add: norm_segs_proper_or_empty)
qed

subsection \<open>Splitting joined paths\<close>

lemma split_on_join_with:
  "ws \<noteq> [] \<Longrightarrow> split_on c (join_with [c] ws) = concat (map (split_on c) ws)"
proof (induction ws)
  case Nil
  then show ?case by simp
next
  case (Cons w ws)
  then show ?case
    by (cases "ws = []") (simp_all add: join_with_Cons_Cons split_on_append_sep)
qed

lemma split_on_join_no_sep:
  assumes "ws \<noteq> []" and "\<forall>w \<in> set ws. c \<notin> set w"
  shows "split_on c (join_with [c] ws) = ws"
proof -
  have "concat (map (split_on c) ws) = ws"
    using assms(2) by (induction ws) (simp_all add: split_on_no_sep_eq)
  with assms(1) show ?thesis by (simp add: split_on_join_with)
qed

lemma join_with_Cons_hd:
  "join_with sep (w # ws) = w @ (if ws = [] then [] else sep @ join_with sep ws)"
  by (cases ws) auto

lemma join_with_snoc:
  "join_with sep (ws @ [w]) = (if ws = [] then w else join_with sep ws @ sep @ w)"
  by (induction sep ws rule: join_with.induct) auto

lemma hd_join_with:
  "w \<noteq> [] \<Longrightarrow> hd (join_with sep (w # ws)) = hd w"
  by (simp add: join_with_Cons_hd)

lemma last_join_with:
  "w \<noteq> [] \<Longrightarrow> last (join_with sep (ws @ [w])) = last w"
  by (simp add: join_with_snoc)

lemma join_with_not_Nil:
  "ws \<noteq> [] \<Longrightarrow> hd ws \<noteq> [] \<Longrightarrow> join_with sep ws \<noteq> []"
  by (cases ws) (auto simp: join_with_Cons_hd)

subsection \<open>Clean relative paths\<close>

lemma normalize_clean_rel:
  assumes ne: "ss \<noteq> []" and pr: "\<forall>s \<in> set ss. proper_name s"
  shows "normalize_path (join_with ''/'' ss) = join_with ''/'' ss"
proof -
  let ?p = "join_with ''/'' ss"
  obtain w ws where ss: "ss = w # ws" using ne by (cases ss) auto
  obtain vs v where ss': "ss = vs @ [v]" using ne by (cases ss rule: rev_cases) auto
  have w: "w \<noteq> []" "CHR ''/'' \<notin> set w" using pr ss by (auto simp: proper_name_def)
  have v: "v \<noteq> []" "CHR ''/'' \<notin> set v" using pr ss' by (auto simp: proper_name_def)
  have nonempty: "?p \<noteq> []" using w ss by (simp add: join_with_not_Nil)
  have "hd ?p = hd w" using w ss by (simp add: hd_join_with)
  then have rel: "\<not> is_absolute ?p"
    using w nonempty by (cases ?p) (auto simp: is_absolute_def, cases w, auto)
  have "last ?p = last v" using v ss' by (simp add: last_join_with)
  then have notrail: "last ?p \<noteq> CHR ''/''" using v by (cases v rule: rev_cases) auto
  have "split_on CHR ''/'' ?p = ss"
    using ne pr by (intro split_on_join_no_sep) (auto simp: proper_name_def)
  then have "norm_segs True [] (split_on CHR ''/'' ?p) = ss"
    using pr by (simp add: norm_segs_proper)
  then show ?thesis
    using nonempty rel notrail by (simp add: normalize_path_def Let_def)
qed

lemma path_join_clean_rel:
  "ss \<noteq> [] \<Longrightarrow> \<forall>s \<in> set ss. proper_name s \<Longrightarrow> path_join [join_with ''/'' ss] = join_with ''/'' ss"
  using join_with_not_Nil [of ss] by (auto simp: path_join_def normalize_clean_rel proper_name_def)

text \<open>
  \<open>path.join(prefix, name)\<close> as the directory walk computes it: the prefix is the
  empty string at the top and a clean relative path below it.
\<close>

lemma path_join_prefix_name:
  assumes "\<forall>s \<in> set ss. proper_name s" and "proper_name n"
  shows "path_join [join_with ''/'' ss, n] = join_with ''/'' (ss @ [n])"
proof (cases "ss = []")
  case True
  with assms show ?thesis
    using path_join_clean_rel [of "[n]"] by (simp add: path_join_def proper_name_def)
next
  case False
  then have "join_with ''/'' ss \<noteq> []"
    using assms(1) by (cases ss) (auto simp: join_with_Cons_hd proper_name_def)
  moreover have "n \<noteq> []" using assms(2) by (simp add: proper_name_def)
  moreover have "join_with ''/'' [join_with ''/'' ss, n] = join_with ''/'' (ss @ [n])"
    using False by (simp add: join_with_snoc)
  ultimately show ?thesis
    using assms normalize_clean_rel [of "ss @ [n]"] by (simp add: path_join_def)
qed

subsection \<open>Resolution of joined paths\<close>

text \<open>The segments of a path argument, an empty argument having none.\<close>

definition arg_segs :: "string \<Rightarrow> string list" where
  "arg_segs a = (if a = [] then [] else split_on CHR ''/'' a)"

lemma split_on_join_filter:
  "filter (\<lambda>a. a \<noteq> []) args \<noteq> [] \<Longrightarrow>
   split_on CHR ''/'' (join_with ''/'' (filter (\<lambda>a. a \<noteq> []) args)) = concat (map arg_segs args)"
proof (induction args)
  case Nil
  then show ?case by simp
next
  case (Cons a args)
  show ?case
  proof (cases "a = []")
    case True
    with Cons show ?thesis by (simp add: arg_segs_def)
  next
    case False
    show ?thesis
    proof (cases "filter (\<lambda>a. a \<noteq> []) args = []")
      case True
      then have "concat (map arg_segs args) = []"
        by (auto simp: filter_empty_conv arg_segs_def)
      with False True show ?thesis by (simp add: arg_segs_def)
    next
      case rest: False
      with Cons.IH False show ?thesis
        by (simp add: join_with_Cons_Cons split_on_append_sep arg_segs_def)
    qed
  qed
qed

lemma arg_segs_clean:
  "\<forall>s \<in> set bs. proper_name s \<Longrightarrow> arg_segs (join_with ''/'' bs) = bs"
proof (cases "bs = []")
  case False
  assume pr: "\<forall>s \<in> set bs. proper_name s"
  with False have "join_with ''/'' bs \<noteq> []"
    by (cases bs) (auto simp: join_with_Cons_hd proper_name_def)
  with False pr show ?thesis
    by (simp add: arg_segs_def split_on_join_no_sep proper_name_def)
qed (simp add: arg_segs_def)

lemma arg_segs_abs:
  "\<forall>s \<in> set cs. proper_name s \<Longrightarrow>
   arg_segs (''/'' @ join_with ''/'' cs) = [] # (if cs = [] then [[]] else cs)"
  by (simp add: arg_segs_def) (metis arg_segs_clean arg_segs_def)

text \<open>The names \<open>norm_segs\<close> keeps for an absolute path are proper names.\<close>

lemma norm_segs_abs_proper:
  "\<forall>s \<in> set acc. proper_name s \<Longrightarrow> \<forall>s \<in> set ss. CHR ''/'' \<notin> set s \<Longrightarrow>
   \<forall>s \<in> set (norm_segs False acc ss). proper_name s"
proof (induction ss arbitrary: acc)
  case Nil
  then show ?case by simp
next
  case (Cons s ss)
  have rest: "\<forall>s \<in> set ss. CHR ''/'' \<notin> set s" using Cons.prems(2) by simp
  show ?case
  proof (cases "s = [] \<or> s = ''.''")
    case True
    then have eq: "norm_segs False acc (s # ss) = norm_segs False acc ss" by auto
    show ?thesis unfolding eq using Cons.prems(1) rest by (rule Cons.IH)
  next
    case notdot: False
    show ?thesis
    proof (cases "s = ''..''")
      case True
      have eq: "norm_segs False acc (s # ss) = norm_segs False (tl acc) ss"
        using True Cons.prems(1) by (cases acc) (auto simp: proper_name_def)
      have "\<forall>s \<in> set (tl acc). proper_name s"
        using Cons.prems(1) by (cases acc) auto
      then show ?thesis unfolding eq using rest by (rule Cons.IH)
    next
      case False
      then have eq: "norm_segs False acc (s # ss) = norm_segs False (s # acc) ss"
        using notdot by simp
      have "proper_name s"
        using False notdot Cons.prems(2) by (simp add: proper_name_def)
      then have "\<forall>s \<in> set (s # acc). proper_name s" using Cons.prems(1) by simp
      then show ?thesis unfolding eq using rest by (rule Cons.IH)
    qed
  qed
qed

text \<open>
  Where a joined path lands when its first non-empty argument is absolute: the
  names of all arguments, in order, normalised from the root.  Later absolute
  arguments do not restart at the root.
\<close>

lemma resolve_path_join_abs:
  assumes ne: "filter (\<lambda>a. a \<noteq> []) args = a # rest" and abs: "is_absolute a"
  shows "resolve_segs cwd (path_join args) = norm_segs False [] (concat (map arg_segs args))"
proof -
  define J where "J = join_with ''/'' (a # rest)"
  define N where "N = norm_segs False [] (split_on CHR ''/'' J)"
  define t where "t = (if last J = CHR ''/'' then ''/'' else [])"
  have a: "a \<noteq> []" "hd a = CHR ''/''"
    using abs by (simp_all add: is_absolute_hd)
  have J: "J \<noteq> []" "is_absolute J"
    using a by (simp_all add: J_def is_absolute_hd hd_join_with join_with_Cons_hd)
  have JN: "N = norm_segs False [] (concat (map arg_segs args))"
    using ne split_on_join_filter [of args] by (simp add: N_def J_def)
  have prN: "\<forall>s \<in> set N. proper_name s"
    unfolding N_def by (rule norm_segs_abs_proper) (auto dest: split_on_no_sep)
  have "resolve_segs cwd (normalize_path J) = N"
  proof (cases "N = []")
    case True
    then have "normalize_path J = ''/''"
      using J by (simp add: normalize_path_def N_def)
    then show ?thesis using True by (simp add: resolve_segs_def is_absolute_def)
  next
    case False
    have jN: "join_with ''/'' N \<noteq> []"
      using False prN by (cases N) (auto simp: join_with_Cons_hd proper_name_def)
    have "normalize_path J = ''/'' @ join_with ''/'' N @ t"
      using J jN by (simp add: normalize_path_def Let_def N_def t_def)
    moreover have sN: "split_on CHR ''/'' (join_with ''/'' N) = N"
      using False prN by (intro split_on_join_no_sep) (auto simp: proper_name_def)
    then have "split_on CHR ''/'' (join_with ''/'' N @ t) = N @ (if t = [] then [] else [[]])"
      by (simp add: t_def split_on_append_sep)
    moreover have "norm_segs False [] (N @ (if t = [] then [] else [[]])) = N"
    proof -
      have "\<forall>s \<in> set (N @ (if t = [] then [] else [[]])). s = [] \<or> proper_name s"
        using prN by auto
      moreover have "filter (\<lambda>s. s \<noteq> []) (N @ (if t = [] then [] else [[]])) = N"
        using prN by (auto simp: proper_name_def filter_id_conv)
      ultimately show ?thesis by (simp only: norm_segs_proper_or_empty rev.simps append_Nil)
    qed
    ultimately show ?thesis
      by (simp add: resolve_segs_def is_absolute_def)
  qed
  then show ?thesis using ne JN by (simp add: path_join_def J_def)
qed

text \<open>A clean relative path lands below the working directory.\<close>

lemma split_on_join_clean:
  "\<forall>s \<in> set cs. proper_name s \<Longrightarrow>
   split_on CHR ''/'' (join_with ''/'' cs) = (if cs = [] then [[]] else cs)"
  by (auto simp: split_on_join_no_sep proper_name_def)

lemma resolve_clean_rel:
  assumes cs: "\<forall>s \<in> set cs. proper_name s" and ne: "ss \<noteq> []" and ss: "\<forall>s \<in> set ss. proper_name s"
  shows "resolve_segs (''/'' @ join_with ''/'' cs) (join_with ''/'' ss) = cs @ ss"
proof -
  obtain w ws where w: "ss = w # ws" using ne by (cases ss) auto
  have "proper_name w" using ss w by simp
  then have "w \<noteq> []" and "CHR ''/'' \<notin> set w" by (simp_all add: proper_name_def)
  then have "w \<noteq> []" "hd w \<noteq> CHR ''/''" by (metis hd_in_set)+
  then have rel: "\<not> is_absolute (join_with ''/'' ss)"
    using w by (simp add: is_absolute_hd hd_join_with)
  let ?segs = "[] # split_on CHR ''/'' (join_with ''/'' cs) @ ss"
  have "split_on CHR ''/'' (''/'' @ join_with ''/'' cs @ ''/'' @ join_with ''/'' ss) = ?segs"
    using ne ss by (simp add: split_on_append_sep split_on_join_no_sep proper_name_def)
  moreover have "\<forall>s \<in> set ?segs. s = [] \<or> proper_name s"
    using cs ss by (auto simp: split_on_join_clean)
  moreover have "filter (\<lambda>s. s \<noteq> []) ?segs = cs @ ss"
    using cs ss by (auto simp: split_on_join_clean proper_name_def filter_id_conv)
  ultimately show ?thesis
    using rel by (simp add: resolve_segs_def norm_segs_proper_or_empty)
qed

text \<open>Every name of a resolved path is a proper name.\<close>

lemma resolve_segs_proper: "\<forall>s \<in> set (resolve_segs cwd p). proper_name s"
  unfolding resolve_segs_def by (rule norm_segs_abs_proper) (auto dest: split_on_no_sep)

subsection \<open>Joining and resolving clean paths\<close>

lemma join_with_append:
  "xs \<noteq> [] \<Longrightarrow> ys \<noteq> [] \<Longrightarrow> join_with sep (xs @ ys) = join_with sep xs @ sep @ join_with sep ys"
proof (induction xs)
  case (Cons x xs)
  then show ?case by (cases "xs = []") (simp_all add: join_with_Cons_Cons)
qed simp

lemma join_with_proper_Nil:
  "\<forall>s \<in> set ss. proper_name s \<Longrightarrow> join_with ''/'' ss = [] \<longleftrightarrow> ss = []"
  by (cases ss) (auto simp: join_with_Cons_hd proper_name_def)

lemma join_with_concat:
  "\<forall>ss \<in> set sss. ss \<noteq> [] \<Longrightarrow>
   join_with ''/'' (map (join_with ''/'') sss) = join_with ''/'' (concat sss)"
proof (induction sss)
  case (Cons ss sss)
  then show ?case
    by (cases "sss = []") (auto simp: join_with_Cons_Cons join_with_append)
qed simp

lemma path_join_clean:
  assumes pr: "\<forall>ss \<in> set sss. \<forall>s \<in> set ss. proper_name s" and ne: "concat sss \<noteq> []"
  shows "path_join (map (join_with ''/'') sss) = join_with ''/'' (concat sss)"
proof -
  let ?f = "filter (\<lambda>ss. ss \<noteq> []) sss"
  have "filter (\<lambda>a. a \<noteq> []) (map (join_with ''/'') sss) = map (join_with ''/'') ?f"
    using pr by (induction sss) (auto simp: join_with_proper_Nil)
  moreover have "concat ?f = concat sss" by (induction sss) auto
  moreover have "?f \<noteq> []" using ne by (auto simp: filter_empty_conv)
  moreover have "join_with ''/'' (map (join_with ''/'') ?f) = join_with ''/'' (concat ?f)"
    by (rule join_with_concat) simp
  moreover have "normalize_path (join_with ''/'' (concat sss)) = join_with ''/'' (concat sss)"
    using pr ne by (intro normalize_clean_rel) auto
  ultimately show ?thesis by (simp add: path_join_def)
qed

lemma norm_segs_clean_concat:
  "\<forall>s \<in> set ss. s = [] \<or> proper_name s \<Longrightarrow> norm_segs False [] ss = filter (\<lambda>s. s \<noteq> []) ss"
  by (simp add: norm_segs_proper_or_empty)

lemma resolve_path_join_abs_clean:
  assumes "filter (\<lambda>a. a \<noteq> []) args = a # rest" and "is_absolute a"
    and "\<forall>x \<in> set args. \<forall>s \<in> set (arg_segs x). s = [] \<or> proper_name s"
  shows "resolve_segs c (path_join args) = concat (map (\<lambda>x. filter (\<lambda>s. s \<noteq> []) (arg_segs x)) args)"
proof -
  have "\<forall>s \<in> set (concat (map arg_segs args)). s = [] \<or> proper_name s" using assms(3) by auto
  then show ?thesis
    using resolve_path_join_abs [OF assms(1,2)] by (simp add: norm_segs_clean_concat filter_concat comp_def)
qed

lemma arg_segs_abs_clean:
  assumes "\<forall>s \<in> set cs. proper_name s"
  shows "filter (\<lambda>s. s \<noteq> []) (arg_segs (''/'' @ join_with ''/'' cs)) = cs"
    and "\<forall>s \<in> set (arg_segs (''/'' @ join_with ''/'' cs)). s = [] \<or> proper_name s"
  using assms arg_segs_abs [OF assms] by (auto simp: proper_name_def filter_id_conv)

lemma arg_segs_rel_clean:
  assumes "\<forall>s \<in> set bs. proper_name s"
  shows "filter (\<lambda>s. s \<noteq> []) (arg_segs (join_with ''/'' bs)) = bs"
    and "\<forall>s \<in> set (arg_segs (join_with ''/'' bs)). s = [] \<or> proper_name s"
  using assms arg_segs_clean [OF assms] by (auto simp: proper_name_def filter_id_conv)

lemma arg_segs_name:
  "proper_name n \<Longrightarrow> arg_segs n = [n]"
  using arg_segs_clean [of "[n]"] by simp

lemma resolve_abs_clean:
  "\<forall>s \<in> set ds. proper_name s \<Longrightarrow> resolve_segs c (''/'' @ join_with ''/'' ds) = ds"
  using arg_segs_abs_clean [of ds]
  by (simp add: resolve_segs_def is_absolute_def norm_segs_clean_concat arg_segs_def)

end
