(* ===== verification/FileSystem.thy ===== *)
theory FileSystem
  imports NodePath
begin

text \<open>
  The local file system the server reads through \<open>fs/promises\<close>: a tree whose
  directories hold their entries in the order \<open>readdir\<close> returns them.  A
  path is looked up name by name from the root.  The trees hold files and
  directories only: symbolic links, which \<open>fs.access\<close>, \<open>fs.readdir\<close> and
  \<open>fs.readFile\<close> follow, are not modelled.  \<open>fs_readdir\<close>, \<open>fs_read_file\<close> and
  \<open>fs_access\<close> are the three \<open>fs\<close> calls of \<open>src/unnamed/part_005\<close>, with
  Node's error codes as values; \<open>fs_put\<close> places a tree at a path, creating
  missing directories, which is what \<open>git clone\<close> and \<open>git pull\<close> do to the
  working copy.  The lemmas: lookup after put, put is idempotent, and put keeps
  the tree well formed (proper, distinct names in every directory).
\<close>

datatype node = File string | Dir "(name \<times> node) list"

datatype fs_error = ENOENT string | ENOTDIR string | EISDIR string

fun lookup :: "node \<Rightarrow> segs \<Rightarrow> node option" where
  "lookup n [] = Some n"
| "lookup (Dir es) (s # ss) = (case map_of es s of Some e \<Rightarrow> lookup e ss | None \<Rightarrow> None)"
| "lookup (File c) (s # ss) = None"

text \<open>Replace the entry named \<open>s\<close> of a directory, keeping its position.\<close>

definition set_entry :: "(name \<times> node) list \<Rightarrow> name \<Rightarrow> node \<Rightarrow> (name \<times> node) list" where
  "set_entry es s e = map (\<lambda>(n, x). if n = s then (n, e) else (n, x)) es"

fun fs_put :: "segs \<Rightarrow> node \<Rightarrow> node \<Rightarrow> node option" where
  "fs_put [] t n = Some t"
| "fs_put (s # ss) t (Dir es) =
     (case map_of es s of
        Some e \<Rightarrow> map_option (\<lambda>e'. Dir (set_entry es s e')) (fs_put ss t e)
      | None \<Rightarrow> map_option (\<lambda>e'. Dir (es @ [(s, e')])) (fs_put ss t (Dir [])))"
| "fs_put (s # ss) t (File c) = None"

definition fs_readdir :: "node \<Rightarrow> string \<Rightarrow> string \<Rightarrow> fs_error + (name \<times> node) list" where
  "fs_readdir root cwd p =
     (case lookup root (resolve_segs cwd p) of
        Some (Dir es) \<Rightarrow> Inr es
      | Some (File c) \<Rightarrow> Inl (ENOTDIR p)
      | None \<Rightarrow> Inl (ENOENT p))"

definition fs_read_file :: "node \<Rightarrow> string \<Rightarrow> string \<Rightarrow> fs_error + string" where
  "fs_read_file root cwd p =
     (case lookup root (resolve_segs cwd p) of
        Some (File c) \<Rightarrow> Inr c
      | Some (Dir es) \<Rightarrow> Inl (EISDIR p)
      | None \<Rightarrow> Inl (ENOENT p))"

definition fs_access :: "node \<Rightarrow> string \<Rightarrow> string \<Rightarrow> bool" where
  "fs_access root cwd p = (lookup root (resolve_segs cwd p) \<noteq> None)"

subsection \<open>Well-formed trees\<close>

fun wf_node :: "node \<Rightarrow> bool" where
  "wf_node (Dir es) = (distinct (map fst es) \<and> list_all (\<lambda>(n, e). proper_name n \<and> wf_node e) es)"
| "wf_node (File c) = True"

subsection \<open>Lookup and put\<close>

lemma map_of_set_entry [fs_simps]:
  "map_of (set_entry es s e) n = (if n = s \<and> map_of es s \<noteq> None then Some e else map_of es n)"
  by (induction es) (auto simp: set_entry_def)

lemma set_entry_set_entry [fs_simps]: "set_entry (set_entry es s e) s e' = set_entry es s e'"
  by (induction es) (auto simp: set_entry_def)

lemma map_fst_set_entry [fs_simps]: "map fst (set_entry es s e) = map fst es"
  by (induction es) (auto simp: set_entry_def)

lemma set_entry_new [fs_simps]:
  "map_of es s = None \<Longrightarrow> set_entry (es @ [(s, e)]) s e' = es @ [(s, e')]"
  by (induction es) (auto simp: set_entry_def split: if_splits)

lemma map_of_snoc_new [fs_simps]:
  "map_of es s = None \<Longrightarrow> map_of (es @ [(s, e)]) s = Some e"
  by (induction es) auto

lemma lookup_append [fs_simps]:
  "lookup n (p @ q) = (case lookup n p of None \<Rightarrow> None | Some m \<Rightarrow> lookup m q)"
  by (induction n p rule: lookup.induct) (auto split: option.splits)

lemma lookup_fs_put [fs_simps]: "fs_put p t n = Some n' \<Longrightarrow> lookup n' p = Some t"
  by (induction p t n arbitrary: n' rule: fs_put.induct)
     (auto simp: map_of_set_entry split: option.splits)

text \<open>Putting the same tree twice changes nothing the second time.\<close>

lemma fs_put_idem: "fs_put p t n = Some n' \<Longrightarrow> fs_put p t n' = Some n'"
proof (induction p t n arbitrary: n' rule: fs_put.induct)
  case (2 s ss t es)
  show ?case
  proof (cases "map_of es s")
    case None
    with "2.prems" obtain e' where e': "fs_put ss t (Dir []) = Some e'" and n': "n' = Dir (es @ [(s, e')])"
      by auto
    have "fs_put ss t e' = Some e'" using "2.IH"(1) [OF None e'] .
    then show ?thesis using None n' by (simp add: fs_simps del: map_of_append)
  next
    case (Some e)
    with "2.prems" obtain e' where e': "fs_put ss t e = Some e'" and n': "n' = Dir (set_entry es s e')"
      by auto
    have "fs_put ss t e' = Some e'" using "2.IH"(2) [OF Some e'] .
    then show ?thesis using Some n' by (simp add: fs_simps)
  qed
qed auto

text \<open>Putting a well-formed tree at a path of proper names keeps the tree well formed.\<close>

lemma list_all_set_entry:
  "list_all P es \<Longrightarrow> P (s, e) \<Longrightarrow> list_all P (set_entry es s e)"
  by (induction es) (auto simp: set_entry_def)

lemma wf_fs_put:
  "fs_put p t n = Some n' \<Longrightarrow> wf_node n \<Longrightarrow> wf_node t \<Longrightarrow> \<forall>s \<in> set p. proper_name s \<Longrightarrow>
   wf_node n'"
proof (induction p t n arbitrary: n' rule: fs_put.induct)
  case (2 s ss t es)
  show ?case
  proof (cases "map_of es s")
    case None
    with "2.prems"(1) obtain e' where e': "fs_put ss t (Dir []) = Some e'"
      and n': "n' = Dir (es @ [(s, e')])" by auto
    have "wf_node e'" using "2.IH"(1) [OF None e'] "2.prems"(3,4) by simp
    moreover have "s \<notin> fst ` set es" using None by (simp add: map_of_eq_None_iff)
    ultimately show ?thesis using n' "2.prems"(2,4) by simp
  next
    case (Some e)
    with "2.prems"(1) obtain e' where e': "fs_put ss t e = Some e'"
      and n': "n' = Dir (set_entry es s e')" by auto
    have "(s, e) \<in> set es" using Some by (rule map_of_SomeD)
    then have "wf_node e" using "2.prems"(2) by (auto simp: list_all_iff)
    then have "wf_node e'" using "2.IH"(2) [OF Some e'] "2.prems"(3,4) by simp
    moreover have "proper_name s" using "2.prems"(4) by simp
    ultimately show ?thesis
      using n' "2.prems"(2) by (simp add: map_fst_set_entry list_all_set_entry)
  qed
qed auto

lemma lookup_Dir_hd:
  "lookup (Dir es) ss = Some e \<Longrightarrow> ss \<noteq> [] \<Longrightarrow> hd ss \<in> fst ` set es"
  by (cases ss) (auto split: option.splits dest: map_of_SomeD intro: rev_image_eqI)

lemma lookup_Dir_Cons_other:
  "ss \<noteq> [] \<Longrightarrow> hd ss \<noteq> n \<Longrightarrow> lookup (Dir ((n, e) # es)) ss = lookup (Dir es) ss"
  by (cases ss) auto

lemma lookup_Dir_Cons_same:
  "lookup (Dir ((n, e) # es)) (n # ss) = lookup e ss"
  by simp

lemma wf_lookup: "wf_node n \<Longrightarrow> lookup n p = Some m \<Longrightarrow> wf_node m"
proof (induction n p rule: lookup.induct)
  case (2 es s ss)
  then obtain e where "map_of es s = Some e" and "lookup e ss = Some m"
    by (auto split: option.splits)
  moreover from this have "wf_node e"
    using "2.prems"(1) by (auto simp: list_all_iff dest: map_of_SomeD)
  ultimately show ?case using "2.IH" by simp
qed auto

end
