(* ===== verification/Repository.thy ===== *)
theory Repository
  imports FileSystem Config
begin

text \<open>
  \<open>repoTools\<close> of \<open>src/unnamed/part_005\<close> (\<open>utils/repository.ts\<close>): the
  repository cache (\<open>ensureRepo\<close>), the directory walk
  (\<open>getDirectoryStructure\<close> with its inner \<open>traverse\<close>) and the guideline reader
  (\<open>readAgentsMd\<close>).  The state they act on is a \<open>world\<close>: the local file
  system, the process's working directory, which directories are git working
  copies (and of which remote), and which remotes are reachable with which
  content.  \<open>git clone\<close> and \<open>git pull\<close> are modelled by their effect on the
  working copy and their failures; every \<open>throw\<close> of the code is an \<open>Inl\<close>.
\<close>

record world =
  fsroot :: node
  cwd :: string
  origins :: "segs \<rightharpoonup> url"
  remotes :: "url \<rightharpoonup> node"

datatype git_failure = RemoteUnreachable | DestinationNotEmpty | CannotCreate | NotARepository

datatype repo_error =
    FsError fs_error
  | GitError git_failure
  | AgentsMdFailed platform fs_error

subsection \<open>git\<close>

text \<open>
  \<open>git.clone(url, dir)\<close> on the instance whose base directory is the working
  directory: it needs a reachable remote and a destination that is absent or an
  empty directory; it creates the missing parent directories and records the
  clone's origin.
\<close>

definition git_clone :: "world \<Rightarrow> url \<Rightarrow> string \<Rightarrow> repo_error + world" where
  "git_clone w u d =
     (let p = resolve_segs (cwd w) d in
      case remotes w u of
        None \<Rightarrow> Inl (GitError RemoteUnreachable)
      | Some t \<Rightarrow>
          if lookup (fsroot w) p \<noteq> None \<and> lookup (fsroot w) p \<noteq> Some (Dir [])
          then Inl (GitError DestinationNotEmpty)
          else (case fs_put p t (fsroot w) of
                  None \<Rightarrow> Inl (GitError CannotCreate)
                | Some r \<Rightarrow> Inr (w\<lparr>fsroot := r, origins := (origins w)(p \<mapsto> u)\<rparr>)))"

text \<open>
  \<open>simpleGit(dir).pull()\<close>: a fresh instance in the working copy, which fetches
  from the origin recorded at clone time (not from the configured URL) and
  fast-forwards the working copy to the remote's content.
\<close>

definition git_pull :: "world \<Rightarrow> string \<Rightarrow> repo_error + world" where
  "git_pull w d =
     (let p = resolve_segs (cwd w) d in
      case origins w p of
        None \<Rightarrow> Inl (GitError NotARepository)
      | Some u \<Rightarrow>
          (case remotes w u of
             None \<Rightarrow> Inl (GitError RemoteUnreachable)
           | Some t \<Rightarrow>
               (case fs_put p t (fsroot w) of
                  None \<Rightarrow> Inl (GitError CannotCreate)
                | Some r \<Rightarrow> Inr (w\<lparr>fsroot := r\<rparr>))))"

subsection \<open>ensureRepo\<close>

text \<open>
  \<open>fs.access(dir)\<close> decides between clone and pull; any failure is logged and
  rethrown, so it reaches the caller unchanged.
\<close>

definition ensureRepo :: "url \<Rightarrow> string \<Rightarrow> world \<Rightarrow> repo_error + world" where
  "ensureRepo u d w =
     (if \<not> fs_access (fsroot w) (cwd w) d then git_clone w u d else git_pull w d)"

text \<open>
  The body of \<open>repoTools\<close>: \<open>ensureRepo()\<close> once, and \<open>process.exit(1)\<close> if it
  throws (\<open>Inl\<close> here).
\<close>

definition repoTools_init :: "url \<Rightarrow> string \<Rightarrow> world \<Rightarrow> repo_error + world" where
  "repoTools_init u d w = ensureRepo u d w"

subsection \<open>getDirectoryStructure\<close>

definition skipped_name :: "name \<Rightarrow> bool" where
  "skipped_name n = (starts_with n ''.'' \<or> n = ''node_modules'')"

text \<open>
  \<open>traverse(dir, prefix)\<close>: the entries of one directory in \<open>readdir\<close> order,
  pushing onto the shared array \<open>files\<close> (the accumulator) and recursing into
  each directory right after pushing it.  \<open>fs.readdir(fullPath)\<close> of the
  recursive call returns the entries of the subdirectory, since
  \<open>fullPath = path.join(dir, entry.name)\<close> names it and \<open>isDirectory()\<close>
  holds only for real directories; the model passes those entries directly,
  so the walk needs no path arithmetic below the platform directory.
\<close>

fun traverse :: "string \<Rightarrow> (name \<times> node) list \<Rightarrow> string list \<Rightarrow> string list" where
  "traverse pref [] files = files"
| "traverse pref ((n, e) # es) files =
     (if skipped_name n then traverse pref es files
      else
        let relativePath = path_join [pref, n] in
        (case e of
           Dir cs \<Rightarrow> traverse pref es (traverse relativePath cs (files @ [relativePath @ ''/'']))
         | _ \<Rightarrow> traverse pref es (files @ [relativePath])))"

definition structure_path :: "world \<Rightarrow> string \<Rightarrow> string \<Rightarrow> platform \<Rightarrow> string" where
  "structure_path w d bd pl = path_join [cwd w, d, bd, platform_value pl]"

definition getDirectoryStructure ::
  "world \<Rightarrow> string \<Rightarrow> string \<Rightarrow> platform \<Rightarrow> repo_error + string list" where
  "getDirectoryStructure w d bd pl =
     (case fs_readdir (fsroot w) (cwd w) (structure_path w d bd pl) of
        Inl e \<Rightarrow> Inl (FsError e)
      | Inr es \<Rightarrow> Inr (traverse [] es []))"

subsection \<open>readAgentsMd\<close>

definition agents_path :: "string \<Rightarrow> string \<Rightarrow> platform \<Rightarrow> string" where
  "agents_path d bd pl = path_join [d, bd, platform_value pl, ''AGENTS.md'']"

definition readAgentsMd :: "world \<Rightarrow> string \<Rightarrow> string \<Rightarrow> platform \<Rightarrow> repo_error + string" where
  "readAgentsMd w d bd pl =
     (case fs_read_file (fsroot w) (cwd w) (agents_path d bd pl) of
        Inl e \<Rightarrow> Inl (AgentsMdFailed pl e)
      | Inr c \<Rightarrow> Inr c)"

subsection \<open>ensureRepo: what a successful call leaves behind\<close>

definition wf_world :: "world \<Rightarrow> bool" where
  "wf_world w = (wf_node (fsroot w) \<and> (\<forall>t \<in> ran (remotes w). wf_node t))"

lemma ensureRepo_Inr:
  assumes "ensureRepo u d w = Inr w'"
  shows "\<exists>u' t. origins w' (resolve_segs (cwd w) d) = Some u' \<and> remotes w u' = Some t
           \<and> fs_put (resolve_segs (cwd w) d) t (fsroot w) = Some (fsroot w')
           \<and> remotes w' = remotes w \<and> cwd w' = cwd w"
  using assms
  by (auto simp: ensureRepo_def git_clone_def git_pull_def Let_def split: option.splits if_splits)

lemma ensureRepo_exists_after:
  "ensureRepo u d w = Inr w' \<Longrightarrow> fs_access (fsroot w') (cwd w') d"
  using ensureRepo_Inr [of u d w w'] by (auto simp: fs_access_def dest: lookup_fs_put)

subsection \<open>The listing as a pure function\<close>

text \<open>
  The entries \<open>getDirectoryStructure\<close> promises, without the shared array and
  without \<open>path.join\<close>: for each visible entry in \<open>readdir\<close> order, its path
  (with a trailing \<open>/\<close> for a directory) followed by the listing of the
  directory's own entries.  \<open>pre\<close> is the path of the directory as a list of
  names.
\<close>

fun is_dir :: "node \<Rightarrow> bool" where
  "is_dir (Dir cs) = True"
| "is_dir (File c) = False"

definition render :: "segs \<Rightarrow> node \<Rightarrow> string" where
  "render ss e = join_with ''/'' ss @ (if is_dir e then ''/'' else [])"

fun listing :: "segs \<Rightarrow> (name \<times> node) list \<Rightarrow> string list" where
  "listing pre [] = []"
| "listing pre ((n, e) # es) =
     (if skipped_name n then listing pre es
      else (case e of
              Dir cs \<Rightarrow> render (pre @ [n]) e # listing (pre @ [n]) cs
            | _ \<Rightarrow> [render (pre @ [n]) e]) @ listing pre es)"

lemma skipped_name_iff: "skipped_name n \<longleftrightarrow> take 1 n = ''.'' \<or> n = ''node_modules''"
  by (cases n) (auto simp: skipped_name_def)

lemma wf_node_Cons [simp]:
  "wf_node (Dir ((n, e) # es)) \<longleftrightarrow>
     n \<notin> fst ` set es \<and> proper_name n \<and> wf_node e \<and> wf_node (Dir es)"
  by auto

text \<open>
  The walk with its accumulator and \<open>path.join\<close> computes the listing: the
  array it returns is the one it was given followed by the listing.
\<close>

lemma traverse_listing:
  "wf_node (Dir es) \<Longrightarrow> \<forall>s \<in> set pre. proper_name s \<Longrightarrow>
   traverse (join_with ''/'' pre) es files = files @ listing pre es"
proof (induction pre es arbitrary: files rule: listing.induct)
  case (1 pre)
  then show ?case by simp
next
  case (2 pre n e es)
  then have wf: "wf_node (Dir es)" "wf_node e" "proper_name n" by simp_all
  have join: "path_join [join_with ''/'' pre, n] = join_with ''/'' (pre @ [n])"
    using "2.prems"(2) wf(3) by (rule path_join_prefix_name)
  show ?case
  proof (cases "skipped_name n")
    case True
    with "2.IH"(1) wf(1) "2.prems"(2) show ?thesis by simp
  next
    case False
    show ?thesis
    proof (cases e)
      case (Dir cs)
      have "\<forall>s \<in> set (pre @ [n]). proper_name s" using "2.prems"(2) wf(3) by simp
      then have inner: "traverse (join_with ''/'' (pre @ [n])) cs (files @ [join_with ''/'' (pre @ [n]) @ ''/''])
          = files @ [join_with ''/'' (pre @ [n]) @ ''/''] @ listing (pre @ [n]) cs"
        using "2.IH"(2) [OF False Dir] wf(2) Dir by simp
      show ?thesis
        using False Dir join inner "2.IH"(3) [OF False] wf(1) "2.prems"(2)
        by (simp add: render_def)
    next
      case (File c)
      with False join "2.IH"(3) [OF False] wf(1) "2.prems"(2) show ?thesis
        by (simp add: render_def)
    qed
  qed
qed

text \<open>Every listed entry is a visible path of the tree, and every visible path is listed.\<close>

lemma listing_sound:
  "wf_node (Dir es) \<Longrightarrow> x \<in> set (listing pre es) \<Longrightarrow>
   \<exists>ss e. ss \<noteq> [] \<and> (\<forall>c \<in> set ss. \<not> skipped_name c) \<and> lookup (Dir es) ss = Some e
          \<and> x = render (pre @ ss) e"
proof (induction pre es rule: listing.induct)
  case (1 pre)
  then show ?case by simp
next
  case (2 pre n e es)
  have wf: "wf_node (Dir es)" "wf_node e" "n \<notin> fst ` set es" using "2.prems"(1) by simp_all
  have later: "\<exists>ss e'. ss \<noteq> [] \<and> (\<forall>c \<in> set ss. \<not> skipped_name c)
                  \<and> lookup (Dir ((n, e) # es)) ss = Some e' \<and> x = render (pre @ ss) e'"
    if "\<exists>ss e'. ss \<noteq> [] \<and> (\<forall>c \<in> set ss. \<not> skipped_name c)
                  \<and> lookup (Dir es) ss = Some e' \<and> x = render (pre @ ss) e'"
  proof -
    from that obtain ss e' where ss: "ss \<noteq> []" "\<forall>c \<in> set ss. \<not> skipped_name c"
      "lookup (Dir es) ss = Some e'" "x = render (pre @ ss) e'" by blast
    then have "hd ss \<noteq> n" using wf(3) lookup_Dir_hd by fastforce
    then show ?thesis using ss lookup_Dir_Cons_other by metis
  qed
  show ?case
  proof (cases "skipped_name n")
    case True
    then show ?thesis using "2.IH"(1) "2.prems"(2) wf(1) later by simp
  next
    case False
    then consider (self) "x = render (pre @ [n]) e"
      | (sub) cs where "e = Dir cs" "x \<in> set (listing (pre @ [n]) cs)"
      | (rest) "x \<in> set (listing pre es)"
      using "2.prems"(2) by (cases e) auto
    then show ?thesis
    proof cases
      case self
      then show ?thesis using False
        by (intro exI [of _ "[n]"] exI [of _ e]) simp
    next
      case (sub cs)
      then obtain ss e' where ss: "ss \<noteq> []" "\<forall>c \<in> set ss. \<not> skipped_name c"
          "lookup (Dir cs) ss = Some e'" "x = render ((pre @ [n]) @ ss) e'"
        using "2.IH"(2) [OF False sub(1)] wf(2) by auto
      then show ?thesis using False sub(1)
        by (intro exI [of _ "n # ss"] exI [of _ e']) simp
    next
      case rest
      then show ?thesis using "2.IH"(3) [OF False] wf(1) later by simp
    qed
  qed
qed

lemma listing_complete:
  "wf_node (Dir es) \<Longrightarrow> lookup (Dir es) ss = Some e' \<Longrightarrow> ss \<noteq> [] \<Longrightarrow>
   \<forall>c \<in> set ss. \<not> skipped_name c \<Longrightarrow> render (pre @ ss) e' \<in> set (listing pre es)"
proof (induction pre es arbitrary: ss rule: listing.induct)
  case (1 pre)
  then show ?case by (cases ss) auto
next
  case (2 pre n e es)
  have wf: "wf_node (Dir es)" "wf_node e" using "2.prems"(1) by simp_all
  obtain s ss' where ss: "ss = s # ss'" using "2.prems"(3) by (cases ss) auto
  show ?case
  proof (cases "s = n")
    case True
    then have ns: "\<not> skipped_name n" and l: "lookup e ss' = Some e'"
      using "2.prems"(2,4) ss by simp_all
    show ?thesis
    proof (cases "ss' = []")
      case True
      then show ?thesis using ns l ss \<open>s = n\<close> by (cases e) auto
    next
      case False
      then obtain cs where cs: "e = Dir cs" using l by (cases e; cases ss') auto
      have "render ((pre @ [n]) @ ss') e' \<in> set (listing (pre @ [n]) cs)"
        using "2.IH"(2) [OF ns cs] wf(2) cs l False "2.prems"(4) ss by simp
      then show ?thesis using ns cs ss \<open>s = n\<close> by simp
    qed
  next
    case False
    then have l: "lookup (Dir es) ss = Some e'" using "2.prems"(2) ss by simp
    show ?thesis
    proof (cases "skipped_name n")
      case True
      then show ?thesis using "2.IH"(1) [OF True wf(1) l "2.prems"(3,4)] by simp
    next
      case ns: False
      have "render (pre @ ss) e' \<in> set (listing pre es)"
        using "2.IH"(3) [OF ns wf(1) l "2.prems"(3,4)] .
      then show ?thesis using ns by (cases e) auto
    qed
  qed
qed

lemma proper_platform_value: "proper_name (platform_value pl)"
  by (cases pl) (simp_all add: proper_name_def)

lemma platform_value_not_Nil: "platform_value pl \<noteq> []"
  by (cases pl) simp_all

lemma proper_AGENTS: "proper_name ''AGENTS.md''"
  by (simp add: proper_name_def)

subsection \<open>Example worlds\<close>

text \<open>
  A boilerplate repository with a backend (guidelines, a source file, a
  dependency directory and a hidden file) and a frontend (guidelines only); no
  mobile boilerplate.  \<open>demo_world\<close> has no clone yet and a reachable
  remote; \<open>demo_synced\<close> has the clone at \<open>/app/repo\<close> and the remote
  reachable; \<open>demo_offline\<close> has the clone and no network.
\<close>

definition demo_url :: url where
  "demo_url = ''https://example.com/boilerplates.git''"

definition demo_backend :: "(name \<times> node) list" where
  "demo_backend =
     [(''AGENTS.md'', File ''# Backend\<newline>Use strict types.\<newline>''),
      (''src'', Dir [(''index.ts'', File ''export {}'')]),
      (''node_modules'', Dir [(''x'', File [])]),
      (''.env'', File ''SECRET=1'')]"

definition demo_repo :: node where
  "demo_repo = Dir [(''boilerplates'', Dir
     [(''backend'', Dir demo_backend),
      (''frontend'', Dir [(''AGENTS.md'', File ''# Frontend\<newline>'')])])]"

definition demo_world :: world where
  "demo_world = \<lparr>fsroot = Dir [(''app'', Dir [])], cwd = ''/app'', origins = Map.empty,
                  remotes = [demo_url \<mapsto> demo_repo]\<rparr>"

definition demo_synced :: world where
  "demo_synced = \<lparr>fsroot = Dir [(''app'', Dir [(''repo'', demo_repo)])], cwd = ''/app'',
                   origins = [[''app'', ''repo''] \<mapsto> demo_url], remotes = [demo_url \<mapsto> demo_repo]\<rparr>"

definition demo_offline :: world where
  "demo_offline = demo_synced\<lparr>remotes := Map.empty\<rparr>"

lemmas demo_defs = demo_url_def demo_world_def demo_synced_def demo_offline_def demo_repo_def demo_backend_def

lemma demo_ensure:
  "ensureRepo demo_url ''repo'' demo_world = Inr (projr (ensureRepo demo_url ''repo'' demo_world))"
  by (simp add: ensureRepo_def git_clone_def fs_access_def demo_world_def resolve_segs_def is_absolute_def)

lemma demo_wf: "wf_node (fsroot demo_synced) \<and> wf_node (fsroot demo_offline)"
  by (simp add: demo_defs proper_name_def)

lemma demo_structure_lookup:
  "lookup (fsroot demo_synced) (resolve_segs (cwd demo_synced) (structure_path demo_synced ''repo'' ''boilerplates'' BACKEND))
     = Some (Dir demo_backend)"
  by (simp add: demo_defs structure_path_def) code_simp


lemma demo_structure:
  "getDirectoryStructure demo_synced ''repo'' ''boilerplates'' BACKEND
     = Inr [''AGENTS.md'', ''src/'', ''src/index.ts'']"
proof -
  have "traverse [] demo_backend [] = [''AGENTS.md'', ''src/'', ''src/index.ts'']"
    by (simp add: demo_backend_def) code_simp
  then show ?thesis
    by (simp add: getDirectoryStructure_def fs_readdir_def demo_structure_lookup)
qed


lemma demo_mobile_missing:
  "lookup (fsroot demo_synced) (resolve_segs (cwd demo_synced) (structure_path demo_synced ''repo'' ''boilerplates'' MOBILE)) = None"
  "lookup (fsroot demo_synced) (resolve_segs (cwd demo_synced) (agents_path ''repo'' ''boilerplates'' MOBILE)) = None"
  by (simp_all add: demo_defs structure_path_def agents_path_def) code_simp+


subsection \<open>Properties of ensureRepo\<close>

text \<open>
  C1. After a successful \<open>ensureRepo\<close> the working copy holds exactly the
  current content of the remote repository it tracks: the directory is a git
  working copy whose origin is reachable, and the tree at the directory is that
  origin's content.
\<close>

theorem ensureRepo_synced:
  assumes "ensureRepo u d w = Inr w'"
  shows "\<exists>u' t. origins w' (resolve_segs (cwd w') d) = Some u' \<and> remotes w' u' = Some t
           \<and> lookup (fsroot w') (resolve_segs (cwd w') d) = Some t"
  using ensureRepo_Inr [OF assms] by (auto dest: lookup_fs_put)

theorem ensureRepo_synced_witness:
  "\<exists>w'. ensureRepo demo_url ''repo'' demo_world = Inr w'
     \<and> (\<exists>u' t. origins w' (resolve_segs (cwd w') ''repo'') = Some u' \<and> remotes w' u' = Some t
           \<and> lookup (fsroot w') (resolve_segs (cwd w') ''repo'') = Some t)"
  using ensureRepo_synced [OF demo_ensure] demo_ensure by blast


text \<open>
  C2. \<open>ensureRepo\<close> is idempotent: calling it again on the world a successful
  call produced, with no change of the remote in between, succeeds and changes
  nothing (the second call pulls, and the pull is a no-op).
\<close>

theorem ensureRepo_idempotent:
  assumes "ensureRepo u d w = Inr w'"
  shows "ensureRepo u d w' = Inr w'"
proof -
  let ?p = "resolve_segs (cwd w) d"
  obtain u' t where o: "origins w' ?p = Some u'" and r: "remotes w u' = Some t"
    and put: "fs_put ?p t (fsroot w) = Some (fsroot w')"
    and same: "remotes w' = remotes w" "cwd w' = cwd w"
    using ensureRepo_Inr [OF assms] by blast
  have "fs_access (fsroot w') (cwd w') d" using assms by (rule ensureRepo_exists_after)
  moreover have "fs_put ?p t (fsroot w') = Some (fsroot w')" using put by (rule fs_put_idem)
  ultimately show ?thesis
    using o r same by (simp add: ensureRepo_def git_pull_def)
qed

theorem ensureRepo_idempotent_witness:
  "\<exists>w'. ensureRepo demo_url ''repo'' demo_world = Inr w' \<and> ensureRepo demo_url ''repo'' w' = Inr w'"
  using ensureRepo_idempotent [OF demo_ensure] demo_ensure by blast


text \<open>
  When the directory does not exist and the remote cannot be reached, the
  clone fails and \<open>ensureRepo\<close> throws.
\<close>

theorem ensureRepo_clone_unreachable:
  assumes "\<not> fs_access (fsroot w) (cwd w) d" and "remotes w u = None"
  shows "ensureRepo u d w = Inl (GitError RemoteUnreachable)"
  using assms by (simp add: ensureRepo_def git_clone_def)

theorem ensureRepo_clone_unreachable_witness:
  "ensureRepo ''https://example.com/other.git'' ''repo'' demo_world = Inl (GitError RemoteUnreachable)"
proof -
  have "\<not> fs_access (fsroot demo_world) (cwd demo_world) ''repo''"
    "remotes demo_world ''https://example.com/other.git'' = None"
    by (simp_all add: demo_defs fs_access_def resolve_segs_def is_absolute_def)
  then show ?thesis by (rule ensureRepo_clone_unreachable)
qed


text \<open>
  C3. A failed pull is fatal, not "stale but available": when the working copy
  exists but its remote cannot be reached, \<open>ensureRepo\<close> rethrows, so the
  start-up call in \<open>repoTools\<close> ends the process although the cached copy is
  there.
\<close>

theorem ensureRepo_pull_failure_fatal:
  assumes "fs_access (fsroot w) (cwd w) d"
    and "origins w (resolve_segs (cwd w) d) = Some u'" and "remotes w u' = None"
  shows "repoTools_init u d w = Inl (GitError RemoteUnreachable)"
  using assms by (simp add: repoTools_init_def ensureRepo_def git_pull_def)

theorem ensureRepo_pull_failure_fatal_witness:
  "fs_access (fsroot demo_offline) (cwd demo_offline) ''repo''
   \<and> repoTools_init ''https://example.com/other.git'' ''repo'' demo_offline = Inl (GitError RemoteUnreachable)"
proof -
  have h: "fs_access (fsroot demo_offline) (cwd demo_offline) ''repo''"
          "origins demo_offline (resolve_segs (cwd demo_offline) ''repo'') = Some demo_url"
          "remotes demo_offline demo_url = None"
    by (simp_all add: demo_defs fs_access_def resolve_segs_def is_absolute_def)
  show ?thesis using h ensureRepo_pull_failure_fatal [OF h] by simp
qed


text \<open>
  C4. Once the directory exists, the configured repository URL plays no part:
  \<open>ensureRepo\<close> pulls from the origin recorded when the copy was cloned, so
  changing \<open>REPO_URL\<close> has no effect on an existing working copy.
\<close>

theorem ensureRepo_ignores_url:
  assumes "fs_access (fsroot w) (cwd w) d"
  shows "ensureRepo u d w = ensureRepo u' d w"
  using assms by (simp add: ensureRepo_def)

theorem ensureRepo_ignores_url_witness:
  "ensureRepo demo_url ''repo'' demo_synced = ensureRepo ''https://example.com/other.git'' ''repo'' demo_synced"
proof -
  have "fs_access (fsroot demo_synced) (cwd demo_synced) ''repo''"
    by (simp add: demo_defs fs_access_def resolve_segs_def is_absolute_def)
  then show ?thesis by (rule ensureRepo_ignores_url)
qed


subsection \<open>Properties of getDirectoryStructure\<close>

text \<open>
  C5. On a well-formed tree, \<open>getDirectoryStructure\<close> returns exactly the
  pure listing of the platform directory it reads: the shared array and the
  \<open>path.join\<close> calls of \<open>traverse\<close> compute the preorder listing.
\<close>

theorem getDirectoryStructure_listing:
  assumes "wf_node (fsroot w)"
    and "lookup (fsroot w) (resolve_segs (cwd w) (structure_path w d bd pl)) = Some (Dir es)"
  shows "getDirectoryStructure w d bd pl = Inr (listing [] es)"
proof -
  have "wf_node (Dir es)" using assms by (rule wf_lookup)
  then have "traverse (join_with ''/'' []) es [] = [] @ listing [] es"
    by (intro traverse_listing) simp_all
  then show ?thesis using assms(2) by (simp add: getDirectoryStructure_def fs_readdir_def)
qed

theorem getDirectoryStructure_listing_witness:
  "getDirectoryStructure demo_synced ''repo'' ''boilerplates'' BACKEND = Inr (listing [] demo_backend)"
  using getDirectoryStructure_listing [OF _ demo_structure_lookup] demo_wf by simp


lemma getDirectoryStructure_Inr:
  assumes "wf_node (fsroot w)" and "getDirectoryStructure w d bd pl = Inr xs"
  shows "\<exists>es. lookup (fsroot w) (resolve_segs (cwd w) (structure_path w d bd pl)) = Some (Dir es)
              \<and> wf_node (Dir es) \<and> xs = listing [] es"
proof -
  obtain es where es: "lookup (fsroot w) (resolve_segs (cwd w) (structure_path w d bd pl)) = Some (Dir es)"
    using assms(2) by (auto simp: getDirectoryStructure_def fs_readdir_def split: option.splits node.splits)
  moreover have wf: "wf_node (Dir es)" using assms(1) es by (rule wf_lookup)
  moreover have "traverse (join_with ''/'' []) es [] = [] @ listing [] es"
    using wf by (intro traverse_listing) simp_all
  ultimately show ?thesis using assms(2) by (simp add: getDirectoryStructure_def fs_readdir_def)
qed

text \<open>
  C6. Every entry \<open>getDirectoryStructure\<close> returns names a path that exists
  below the platform directory, none of whose names starts with a dot or is
  \<open>node_modules\<close>, written as its names joined by \<open>/\<close> relative to the
  platform directory, with a trailing \<open>/\<close> exactly when it is a directory.
\<close>

theorem getDirectoryStructure_sound:
  assumes "wf_node (fsroot w)" and "getDirectoryStructure w d bd pl = Inr xs" and "x \<in> set xs"
  shows "\<exists>ss e. ss \<noteq> [] \<and> (\<forall>c \<in> set ss. take 1 c \<noteq> ''.'' \<and> c \<noteq> ''node_modules'')
           \<and> lookup (fsroot w) (resolve_segs (cwd w) (structure_path w d bd pl) @ ss) = Some e
           \<and> x = join_with ''/'' ss @ (case e of Dir cs \<Rightarrow> ''/'' | File c \<Rightarrow> [])"
proof -
  obtain es where es: "lookup (fsroot w) (resolve_segs (cwd w) (structure_path w d bd pl)) = Some (Dir es)"
    and wf: "wf_node (Dir es)" and xs: "xs = listing [] es"
    using getDirectoryStructure_Inr [OF assms(1,2)] by blast
  obtain ss e where "ss \<noteq> []" "\<forall>c \<in> set ss. \<not> skipped_name c" "lookup (Dir es) ss = Some e"
      "x = render ([] @ ss) e"
    using listing_sound [OF wf] assms(3) xs by blast
  then show ?thesis using es
    by (intro exI [of _ ss] exI [of _ e])
       (auto simp: lookup_append skipped_name_iff render_def split: node.splits)
qed

theorem getDirectoryStructure_sound_witness:
  "\<exists>ss e. ss \<noteq> [] \<and> (\<forall>c \<in> set ss. take 1 c \<noteq> ''.'' \<and> c \<noteq> ''node_modules'')
     \<and> lookup (fsroot demo_synced) (resolve_segs (cwd demo_synced) (structure_path demo_synced ''repo'' ''boilerplates'' BACKEND) @ ss) = Some e
     \<and> ''src/index.ts'' = join_with ''/'' ss @ (case e of Dir cs \<Rightarrow> ''/'' | File c \<Rightarrow> [])"
  using getDirectoryStructure_sound [OF _ demo_structure] demo_wf by simp


text \<open>
  C7. Conversely every visible path below the platform directory, none of
  whose names starts with a dot or is \<open>node_modules\<close>, is among the entries
  \<open>getDirectoryStructure\<close> returns, written as its names joined by \<open>/\<close>,
  with a trailing \<open>/\<close> exactly when it is a directory.
\<close>

theorem getDirectoryStructure_complete:
  assumes "wf_node (fsroot w)" and "getDirectoryStructure w d bd pl = Inr xs"
    and "lookup (fsroot w) (resolve_segs (cwd w) (structure_path w d bd pl) @ ss) = Some e"
    and "ss \<noteq> []" and "\<forall>c \<in> set ss. take 1 c \<noteq> ''.'' \<and> c \<noteq> ''node_modules''"
  shows "join_with ''/'' ss @ (case e of Dir cs \<Rightarrow> ''/'' | File c \<Rightarrow> []) \<in> set xs"
proof -
  obtain es where es: "lookup (fsroot w) (resolve_segs (cwd w) (structure_path w d bd pl)) = Some (Dir es)"
    and wf: "wf_node (Dir es)" and xs: "xs = listing [] es"
    using getDirectoryStructure_Inr [OF assms(1,2)] by blast
  have "lookup (Dir es) ss = Some e" using assms(3) es by (simp add: lookup_append)
  moreover have "\<forall>c \<in> set ss. \<not> skipped_name c" using assms(5) by (simp add: skipped_name_iff)
  ultimately have "render ([] @ ss) e \<in> set (listing [] es)"
    using listing_complete [OF wf _ assms(4)] by blast
  then show ?thesis using xs by (cases e) (simp_all add: render_def)
qed

theorem getDirectoryStructure_complete_witness:
  "getDirectoryStructure demo_synced ''repo'' ''boilerplates'' BACKEND = Inr [''AGENTS.md'', ''src/'', ''src/index.ts'']
   \<and> lookup (fsroot demo_synced) (resolve_segs (cwd demo_synced) (structure_path demo_synced ''repo'' ''boilerplates'' BACKEND)
                                   @ [''src'', ''index.ts'']) = Some (File ''export {}'')
   \<and> ''src/index.ts'' \<in> set [''AGENTS.md'', ''src/'', ''src/index.ts'']"
proof -
  have l: "lookup (fsroot demo_synced) (resolve_segs (cwd demo_synced) (structure_path demo_synced ''repo'' ''boilerplates'' BACKEND)
                                   @ [''src'', ''index.ts'']) = Some (File ''export {}'')"
    using demo_structure_lookup by (simp add: lookup_append demo_backend_def)
  have "\<forall>c \<in> set [''src'', ''index.ts'']. take 1 c \<noteq> ''.'' \<and> c \<noteq> ''node_modules''" by simp
  from getDirectoryStructure_complete [OF _ demo_structure l _ this] demo_wf
  show ?thesis using demo_structure l by simp
qed


text \<open>
  When the platform directory does not exist, \<open>getDirectoryStructure\<close>
  rejects with \<open>ENOENT\<close> for the path it tried to read.
\<close>

theorem getDirectoryStructure_missing:
  assumes "lookup (fsroot w) (resolve_segs (cwd w) (structure_path w d bd pl)) = None"
  shows "getDirectoryStructure w d bd pl = Inl (FsError (ENOENT (structure_path w d bd pl)))"
  using assms by (simp add: getDirectoryStructure_def fs_readdir_def)

theorem getDirectoryStructure_missing_witness:
  "getDirectoryStructure demo_synced ''repo'' ''boilerplates'' MOBILE
     = Inl (FsError (ENOENT (structure_path demo_synced ''repo'' ''boilerplates'' MOBILE)))"
  by (rule getDirectoryStructure_missing [OF demo_mobile_missing(1)])


text \<open>
  C9. With a relative \<open>REPO_DIR\<close> (and an absolute working directory), the
  clone, the directory \<open>getDirectoryStructure\<close> walks and the \<open>AGENTS.md\<close>
  that \<open>readAgentsMd\<close> reads all lie in the same working copy: the walk is
  the directory that holds the guideline file.
\<close>

theorem structure_path_relative_repo_dir:
  assumes cs: "\<forall>s \<in> set cs. proper_name s" and w: "cwd w = ''/'' @ join_with ''/'' cs"
    and ds: "ds \<noteq> []" "\<forall>s \<in> set ds. proper_name s" and bs: "\<forall>s \<in> set bs. proper_name s"
  shows "resolve_segs (cwd w) (join_with ''/'' ds) = cs @ ds
       \<and> resolve_segs (cwd w) (structure_path w (join_with ''/'' ds) (join_with ''/'' bs) pl)
           = cs @ ds @ bs @ [platform_value pl]
       \<and> resolve_segs (cwd w) (agents_path (join_with ''/'' ds) (join_with ''/'' bs) pl)
           = cs @ ds @ bs @ [platform_value pl, ''AGENTS.md'']"
proof (intro conjI)
  show "resolve_segs (cwd w) (join_with ''/'' ds) = cs @ ds"
    using resolve_clean_rel [OF cs ds] w by simp
  let ?args = "[cwd w, join_with ''/'' ds, join_with ''/'' bs, platform_value pl]"
  have "filter (\<lambda>a. a \<noteq> []) ?args = cwd w # filter (\<lambda>a. a \<noteq> []) (tl ?args)" using w by simp
  moreover have "is_absolute (cwd w)" using w by (simp add: is_absolute_def)
  ultimately have "resolve_segs (cwd w) (path_join ?args) = norm_segs False [] (concat (map arg_segs ?args))"
    by (rule resolve_path_join_abs)
  moreover have "concat (map arg_segs ?args) = [] # (if cs = [] then [[]] else cs) @ ds @ bs @ [platform_value pl]"
  proof -
    have "arg_segs (cwd w) = [] # (if cs = [] then [[]] else cs)"
      using arg_segs_abs [OF cs] w by simp
    moreover have "arg_segs (join_with ''/'' ds) = ds" "arg_segs (join_with ''/'' bs) = bs"
      using ds bs by (simp_all add: arg_segs_clean)
    moreover have "arg_segs (platform_value pl) = [platform_value pl]"
      using arg_segs_clean [of "[platform_value pl]"] proper_platform_value [of pl] by simp
    ultimately show ?thesis by simp
  qed
  moreover have "\<forall>s \<in> set ([] # (if cs = [] then [[]] else cs) @ ds @ bs @ [platform_value pl]). s = [] \<or> proper_name s"
    using cs ds bs proper_platform_value [of pl] by auto
  ultimately show "resolve_segs (cwd w) (structure_path w (join_with ''/'' ds) (join_with ''/'' bs) pl)
           = cs @ ds @ bs @ [platform_value pl]"
    using cs ds bs proper_platform_value [of pl]
    by (simp add: structure_path_def norm_segs_clean_concat proper_name_def filter_id_conv)
  have "agents_path (join_with ''/'' ds) (join_with ''/'' bs) pl
          = path_join (map (join_with ''/'') [ds, bs, [platform_value pl], [''AGENTS.md'']])"
    by (simp add: agents_path_def)
  also have "\<dots> = join_with ''/'' (ds @ bs @ [platform_value pl, ''AGENTS.md''])"
    using ds bs proper_platform_value [of pl] proper_AGENTS by (subst path_join_clean) auto
  finally have ap: "agents_path (join_with ''/'' ds) (join_with ''/'' bs) pl
                      = join_with ''/'' (ds @ bs @ [platform_value pl, ''AGENTS.md''])" .
  have "\<forall>s \<in> set (ds @ bs @ [platform_value pl, ''AGENTS.md'']). proper_name s"
    using ds bs proper_platform_value [of pl] proper_AGENTS by auto
  from resolve_clean_rel [OF cs _ this]
  show "resolve_segs (cwd w) (agents_path (join_with ''/'' ds) (join_with ''/'' bs) pl)
           = cs @ ds @ bs @ [platform_value pl, ''AGENTS.md'']"
    using w ap by simp
qed

theorem structure_path_relative_repo_dir_witness:
  "resolve_segs (cwd demo_synced) ''repo'' = [''app'', ''repo'']
   \<and> resolve_segs (cwd demo_synced) (structure_path demo_synced ''repo'' ''boilerplates'' BACKEND)
       = [''app'', ''repo'', ''boilerplates'', ''backend'']
   \<and> resolve_segs (cwd demo_synced) (agents_path ''repo'' ''boilerplates'' BACKEND)
       = [''app'', ''repo'', ''boilerplates'', ''backend'', ''AGENTS.md'']"
  using structure_path_relative_repo_dir [of "[''app'']" demo_synced "[''repo'']" "[''boilerplates'']" BACKEND]
  by (simp add: demo_defs proper_name_def)


text \<open>
  C8. With an absolute \<open>REPO_DIR\<close>, \<open>getDirectoryStructure\<close> walks a
  directory below the process's working directory
  (\<open>path.join(process.cwd(), dir, ...)\<close> does not restart at an absolute
  \<open>dir\<close>), while the clone and \<open>AGENTS.md\<close> are at \<open>REPO_DIR\<close> itself:
  the structure tool then lists some other directory, or fails.
\<close>

theorem structure_path_absolute_repo_dir:
  assumes cs: "\<forall>s \<in> set cs. proper_name s" and w: "cwd w = ''/'' @ join_with ''/'' cs"
    and ds: "\<forall>s \<in> set ds. proper_name s" and bs: "\<forall>s \<in> set bs. proper_name s"
  shows "resolve_segs (cwd w) (''/'' @ join_with ''/'' ds) = ds
       \<and> resolve_segs (cwd w) (structure_path w (''/'' @ join_with ''/'' ds) (join_with ''/'' bs) pl)
           = cs @ ds @ bs @ [platform_value pl]
       \<and> resolve_segs (cwd w) (agents_path (''/'' @ join_with ''/'' ds) (join_with ''/'' bs) pl)
           = ds @ bs @ [platform_value pl, ''AGENTS.md'']"
proof (intro conjI)
  show "resolve_segs (cwd w) (''/'' @ join_with ''/'' ds) = ds" using ds by (rule resolve_abs_clean)
  have pv: "arg_segs (platform_value pl) = [platform_value pl]" "proper_name (platform_value pl)"
    by (simp_all add: arg_segs_name proper_platform_value)
  have ag: "arg_segs ''AGENTS.md'' = [''AGENTS.md'']" by (simp add: arg_segs_name proper_AGENTS)
  note segs = arg_segs_abs_clean [OF cs] arg_segs_abs_clean [OF ds] arg_segs_rel_clean [OF bs]
  show "resolve_segs (cwd w) (structure_path w (''/'' @ join_with ''/'' ds) (join_with ''/'' bs) pl)
           = cs @ ds @ bs @ [platform_value pl]"
    unfolding structure_path_def
    by (subst resolve_path_join_abs_clean [where a = "cwd w"])
       (use w segs pv platform_value_not_Nil in \<open>simp_all add: is_absolute_def\<close>)
  show "resolve_segs (cwd w) (agents_path (''/'' @ join_with ''/'' ds) (join_with ''/'' bs) pl)
           = ds @ bs @ [platform_value pl, ''AGENTS.md'']"
    unfolding agents_path_def
    by (subst resolve_path_join_abs_clean [where a = "''/'' @ join_with ''/'' ds"])
       (use segs pv ag proper_AGENTS platform_value_not_Nil in \<open>simp_all add: is_absolute_def\<close>)
qed

theorem structure_path_absolute_repo_dir_witness:
  "resolve_segs (cwd demo_synced) ''/data/repo'' = [''data'', ''repo'']
   \<and> resolve_segs (cwd demo_synced) (structure_path demo_synced ''/data/repo'' ''boilerplates'' BACKEND)
       = [''app'', ''data'', ''repo'', ''boilerplates'', ''backend'']
   \<and> resolve_segs (cwd demo_synced) (agents_path ''/data/repo'' ''boilerplates'' BACKEND)
       = [''data'', ''repo'', ''boilerplates'', ''backend'', ''AGENTS.md'']"
  using structure_path_absolute_repo_dir [of "[''app'']" demo_synced "[''data'', ''repo'']" "[''boilerplates'']" BACKEND]
  by (simp add: demo_defs proper_name_def)


subsection \<open>Properties of readAgentsMd\<close>

text \<open>
  A missing \<open>AGENTS.md\<close> is an error that names the platform and wraps
  \<open>ENOENT\<close>, never an empty success.
\<close>

theorem readAgentsMd_missing:
  assumes "lookup (fsroot w) (resolve_segs (cwd w) (agents_path d bd pl)) = None"
  shows "readAgentsMd w d bd pl = Inl (AgentsMdFailed pl (ENOENT (agents_path d bd pl)))"
  using assms by (simp add: readAgentsMd_def fs_read_file_def)

theorem readAgentsMd_missing_witness:
  "readAgentsMd demo_synced ''repo'' ''boilerplates'' MOBILE
     = Inl (AgentsMdFailed MOBILE (ENOENT (agents_path ''repo'' ''boilerplates'' MOBILE)))"
  by (rule readAgentsMd_missing [OF demo_mobile_missing(2)])

end
