(* ===== verification/Search.thy ===== *)
theory Search
  imports JsString
begin

text \<open>
  The handler of the \<open>search_best_practices\<close> tool (\<open>mcpServer.ts\<close>, staged as
  \<open>src/boilerplates/mcp/eslint.config.ts\<close> lines 193--218) once the guideline
  text has been read: split into lines, a case-insensitive substring test per
  line in a \<open>forEach\<close>, a context window of two lines before and two after
  (clipped by \<open>Math.max\<close>/\<open>Math.min\<close>), and the report text.  The lemmas: the
  loop computes the declarative match list (the lines whose lower-cased text
  contains the lower-cased query, in order), the window of a match is
  exactly the lines within two lines of it, an empty query matches every
  line, and the report is the "No matches" text exactly when nothing matched.
\<close>

text \<open>\<open>Math.max(0, index - 2)\<close> and \<open>Math.min(lines.length, index + 3)\<close>.\<close>

definition window_start :: "nat \<Rightarrow> nat" where
  "window_start i = (if (2::nat) \<le> i then i - 2 else 0)"

definition window_end :: "string list \<Rightarrow> nat \<Rightarrow> nat" where
  "window_end lines i = min (length lines) (i + 3)"

definition context_of :: "string list \<Rightarrow> nat \<Rightarrow> string" where
  "context_of lines i = join_with ''\<newline>'' (js_slice lines (window_start i) (window_end lines i))"

text \<open>\<open>`\n--- Line ${index + 1} ---\n${context}\n`\<close>.\<close>

definition match_entry :: "nat \<Rightarrow> string \<Rightarrow> string" where
  "match_entry i ctx = ''\<newline>--- Line '' @ show_nat (Suc i) @ '' ---\<newline>'' @ ctx @ ''\<newline>''"

definition line_matches :: "string \<Rightarrow> string \<Rightarrow> bool" where
  "line_matches queryLower line = str_includes (to_lower line) queryLower"

text \<open>
  \<open>lines.forEach((line, index) => ...)\<close>: \<open>rest\<close> is the part of \<open>lines\<close> not
  yet visited, \<open>i\<close> the index of its first line, \<open>matches\<close> the array pushed to.
\<close>

fun search_loop :: "string list \<Rightarrow> string \<Rightarrow> nat \<Rightarrow> string list \<Rightarrow> string list \<Rightarrow> string list" where
  "search_loop lines queryLower i [] matches = matches"
| "search_loop lines queryLower i (line # rest) matches =
     search_loop lines queryLower (Suc i) rest
       (if line_matches queryLower line
        then matches @ [match_entry i (context_of lines i)]
        else matches)"

definition search_matches :: "string \<Rightarrow> string \<Rightarrow> string list" where
  "search_matches content query =
     (let lines = split_on CHR ''\<newline>'' content
      in search_loop lines (to_lower query) 0 lines [])"

definition search_report :: "string \<Rightarrow> string \<Rightarrow> string \<Rightarrow> string" where
  "search_report platformName content query =
     (let matches = search_matches content query
      in if 0 < length matches
         then ''Found '' @ show_nat (length matches) @ '' matches for \"'' @ query @ ''\" in ''
              @ platformName @ '' AGENTS.md:\<newline>'' @ join_with ''\<newline>'' matches
         else ''No matches found for \"'' @ query @ ''\" in '' @ platformName @ '' AGENTS.md'')"

subsection \<open>The declarative match list\<close>

definition matching_indices :: "string list \<Rightarrow> string \<Rightarrow> nat list" where
  "matching_indices lines queryLower =
     filter (\<lambda>i. line_matches queryLower (lines ! i)) [0..<length lines]"

lemma search_loop_append:
  "search_loop lines q i rest (m @ m') = m @ search_loop lines q i rest m'"
  by (induction rest arbitrary: i m') auto

lemma search_loop_indices:
  "i + length rest = length lines \<Longrightarrow> rest = drop i lines \<Longrightarrow>
   search_loop lines q i rest [] =
     map (\<lambda>j. match_entry j (context_of lines j))
         (filter (\<lambda>j. line_matches q (lines ! j)) [i..<length lines])"
proof (induction rest arbitrary: i)
  case Nil
  then show ?case by simp
next
  case (Cons line rest)
  have i: "i < length lines" using Cons.prems(1) by simp
  have "drop i lines = lines ! i # drop (Suc i) lines"
    using i by (rule Cons_nth_drop_Suc [symmetric])
  with Cons.prems(2) have li: "lines ! i = line" and dr: "rest = drop (Suc i) lines"
    by simp_all
  have IH: "search_loop lines q (Suc i) rest [] =
      map (\<lambda>j. match_entry j (context_of lines j))
          (filter (\<lambda>j. line_matches q (lines ! j)) [Suc i..<length lines])"
    using Cons.IH Cons.prems(1) dr by simp
  have "search_loop lines q i (line # rest) [] =
      (if line_matches q line then [match_entry i (context_of lines i)] else [])
      @ search_loop lines q (Suc i) rest []"
    using search_loop_append [of lines q "Suc i" rest "[match_entry i (context_of lines i)]" "[]"]
    by simp
  then show ?case
    using i li IH by (simp add: filter_upt_Cons)
qed

lemma search_matches_indices:
  "search_matches content query =
     (let lines = split_on CHR ''\<newline>'' content
      in map (\<lambda>i. match_entry i (context_of lines i)) (matching_indices lines (to_lower query)))"
  by (simp add: search_matches_def matching_indices_def search_loop_indices Let_def)

lemma line_matches_sublist: "line_matches (to_lower q) l \<longleftrightarrow> sublist (to_lower q) (to_lower l)"
  by (simp add: line_matches_def str_includes_sublist)

lemma matching_indices_sorted:
  "sorted (matching_indices lines q) \<and> distinct (matching_indices lines q)"
  unfolding matching_indices_def by (auto intro: sorted_wrt_filter)

lemma set_matching_indices:
  "set (matching_indices lines q) = {i. i < length lines \<and> line_matches q (lines ! i)}"
  by (auto simp: matching_indices_def)

lemma matching_indices_Nil_query: "matching_indices lines [] = [0..<length lines]"
  by (simp add: matching_indices_def line_matches_def)

subsection \<open>Windows\<close>

lemma window_slice:
  "js_slice lines (window_start i) (window_end lines i)
     = map (nth lines) [window_start i..<window_end lines i]"
  by (simp add: js_slice_map_nth window_end_def)

subsection \<open>Properties of the search tool\<close>

text \<open>
  C12. The \<open>forEach\<close> loop of \<open>search_best_practices\<close> reports, in ascending
  line order, one entry for each line whose lower-cased text contains the
  lower-cased query as a contiguous substring, and no other: the entry for
  line index \<open>i\<close> is headed \<open>Line i+1\<close> and carries the context window of \<open>i\<close>.
\<close>

theorem search_matches_spec:
  "search_matches content query =
     (let lines = split_on CHR ''\<newline>'' content
      in map (\<lambda>i. match_entry i (context_of lines i))
             (filter (\<lambda>i. sublist (to_lower query) (to_lower (lines ! i))) [0..<length lines]))"
  by (simp add: search_matches_indices matching_indices_def line_matches_sublist Let_def)

text \<open>
  C13. The context of a match at line \<open>i\<close> is exactly the lines within two
  lines of it, in document order: every line \<open>j\<close> of the document with
  \<open>i - 2 \<le> j \<le> i + 2\<close>, joined by newlines, clipped at both ends of the
  document and nothing else.
\<close>

theorem search_window_exact:
  assumes "i < length lines"
  shows "context_of lines i
           = join_with ''\<newline>'' (map (nth lines) (filter (\<lambda>j. j \<le> i + 2 \<and> i \<le> j + 2) [0..<length lines]))"
proof -
  have "filter (\<lambda>j. j \<le> i + 2 \<and> i \<le> j + 2) [0..<length lines] = [window_start i..<window_end lines i]"
    by (rule sorted_distinct_set_unique)
       (auto simp: sorted_wrt_filter window_start_def window_end_def)
  then show ?thesis by (simp add: context_of_def window_slice)
qed

theorem search_window_exact_witness:
  "(1::nat) < length [''a'', ''b'', ''c'', ''d'', ''e'']
   \<and> context_of [''a'', ''b'', ''c'', ''d'', ''e''] 1
       = join_with ''\<newline>'' (map (nth [''a'', ''b'', ''c'', ''d'', ''e'']) [0, 1, 2, 3])"
proof -
  have "filter (\<lambda>j. j \<le> 1 + 2 \<and> 1 \<le> j + 2) [0..<length [''a'', ''b'', ''c'', ''d'', ''e'']] = [0, 1, 2, 3]"
    by (simp add: upt_rec)
  then show ?thesis using search_window_exact [of 1 "[''a'', ''b'', ''c'', ''d'', ''e'']"] by simp
qed

text \<open>
  The example of the specification: searching
  \<open>alpha\<newline>beta\<newline>GAMMA\<newline>delta\<newline>\<close> for \<open>gamma\<close> gives one match, at line 3.  Its
  context runs from line 1 to line 5: the text ends with a newline, so
  \<open>split\<close> yields an empty fifth line, and the window takes it.
\<close>

theorem search_example_gamma:
  "search_matches ''alpha\<newline>beta\<newline>GAMMA\<newline>delta\<newline>'' ''gamma''
     = [''\<newline>--- Line 3 ---\<newline>alpha\<newline>beta\<newline>GAMMA\<newline>delta\<newline>\<newline>'']"
  by code_simp

text \<open>
  C14. An empty query is not rejected: it matches every line, so the report
  has one entry per line of the document (one more than its newlines).
\<close>

theorem search_empty_query:
  "length (search_matches content []) = Suc (count_list content CHR ''\<newline>'')"
  by (simp add: search_matches_indices matching_indices_Nil_query length_split_on Let_def)

text \<open>
  The tool answers "No matches found" exactly when no line matches, and
  otherwise a "Found" report; a search without matches is an answer, not an
  error.
\<close>

theorem search_report_no_matches:
  "search_report pn content q = ''No matches found for \"'' @ q @ ''\" in '' @ pn @ '' AGENTS.md''
   \<longleftrightarrow> matching_indices (split_on CHR ''\<newline>'' content) (to_lower q) = []"
  by (simp add: search_report_def search_matches_indices Let_def)

end
