(* ===== verification/McpServer.thy ===== *)
theory McpServer
  imports Repository Search
begin

text \<open>
  \<open>getMcpServer\<close> of \<open>mcpServer.ts\<close> (staged as
  \<open>src/boilerplates/mcp/eslint.config.ts\<close> lines 122--249): one resource per
  configured platform and the tools \<open>get_boilerplate_structure\<close>,
  \<open>search_best_practices\<close> and \<open>get_all_contexts\<close>, with the argument
  validation of their zod schemas (\<open>schemas.ts\<close>).  A request is handled
  against the shared \<open>world\<close> and returns the next world and a response; a
  handler that throws becomes an error response (the SDK reports a thrown tool
  handler as a tool error and a thrown resource handler as a JSON-RPC error).
  Only the resource handler calls \<open>ensureRepo\<close>; the tools read the working
  copy as it is.
\<close>

subsection \<open>Resources\<close>

definition resource_uri :: "platform \<Rightarrow> string" where
  "resource_uri pl = ''boilerplate://'' @ platform_value pl @ ''/agents.md''"

definition resource_name :: "platform \<Rightarrow> string" where
  "resource_name pl = platform_value pl @ ''-agents''"

text \<open>\<open>platform.charAt(0).toUpperCase() + platform.slice(1)\<close>.\<close>

definition capitalize :: "string \<Rightarrow> string" where
  "capitalize s = (case s of [] \<Rightarrow> [] | c # cs \<Rightarrow> upper_char c # cs)"

definition resource_title :: "platform \<Rightarrow> string" where
  "resource_title pl = capitalize (platform_value pl) @ '' Boilerplate AGENTS.md''"

text \<open>\<open>config.platforms.forEach(platform => server.registerResource(...))\<close>.\<close>

definition registered_resources :: "config \<Rightarrow> (string \<times> string \<times> platform) list" where
  "registered_resources cfg = map (\<lambda>pl. (resource_name pl, resource_uri pl, pl)) (platforms cfg)"

text \<open>The resource handler: \<open>await ensureRepo()\<close>, then \<open>readAgentsMd(platform)\<close>.\<close>

definition read_resource :: "config \<Rightarrow> platform \<Rightarrow> world \<Rightarrow> world \<times> (repo_error + string)" where
  "read_resource cfg pl w =
     (case ensureRepo (repoUrl cfg) (repoDir cfg) w of
        Inl e \<Rightarrow> (w, Inl e)
      | Inr w' \<Rightarrow> (w', readAgentsMd w' (repoDir cfg) (boilerplateDir cfg) pl))"

subsection \<open>Tools\<close>

definition get_boilerplate_structure :: "config \<Rightarrow> world \<Rightarrow> platform \<Rightarrow> repo_error + string" where
  "get_boilerplate_structure cfg w pl =
     (case getDirectoryStructure w (repoDir cfg) (boilerplateDir cfg) pl of
        Inl e \<Rightarrow> Inl e
      | Inr st \<Rightarrow> Inr (''File structure for '' @ platform_value pl @ '' boilerplate:\<newline>\<newline>''
                       @ join_with ''\<newline>'' st))"

definition search_best_practices ::
  "config \<Rightarrow> world \<Rightarrow> platform \<Rightarrow> string \<Rightarrow> repo_error + string" where
  "search_best_practices cfg w pl query =
     (case readAgentsMd w (repoDir cfg) (boilerplateDir cfg) pl of
        Inl e \<Rightarrow> Inl e
      | Inr content \<Rightarrow> Inr (search_report (platform_value pl) content query))"

text \<open>
  \<open>Promise.all(config.platforms.map(...))\<close>: every read must succeed; the first
  failure (in list order here; in time order in Node) rejects the whole call.
\<close>

fun read_all :: "(platform \<Rightarrow> repo_error + string) \<Rightarrow> platform list \<Rightarrow> repo_error + string list" where
  "read_all rd [] = Inr []"
| "read_all rd (p # ps) =
     (case rd p of
        Inl e \<Rightarrow> Inl e
      | Inr c \<Rightarrow> (case read_all rd ps of Inl e \<Rightarrow> Inl e | Inr cs \<Rightarrow> Inr (c # cs)))"

definition context_heading :: "platform \<Rightarrow> string \<Rightarrow> string" where
  "context_heading pl content = ''## '' @ to_upper (platform_value pl) @ '' AGENTS.md\<newline>\<newline>'' @ content"

definition get_all_contexts :: "config \<Rightarrow> world \<Rightarrow> repo_error + string" where
  "get_all_contexts cfg w =
     (case read_all (readAgentsMd w (repoDir cfg) (boilerplateDir cfg)) (platforms cfg) of
        Inl e \<Rightarrow> Inl e
      | Inr cs \<Rightarrow> Inr (join_with ''\<newline>\<newline>---\<newline>\<newline>'' (map2 context_heading (platforms cfg) cs)))"

subsection \<open>Requests\<close>

text \<open>
  A request is a resource read by URI or a tool call by name with its string
  arguments.  A tool call whose arguments fail the tool's schema is refused
  before the handler runs.
\<close>

datatype request =
    ReadResource string
  | CallTool string "(string \<times> string) list"

datatype response =
    ResourceText string string string
  | ResourceFailed repo_error
  | ToolText string
  | ToolFailed repo_error
  | InvalidParams
  | UnknownResource string
  | UnknownTool string

definition arg_platform :: "config \<Rightarrow> (string \<times> string) list \<Rightarrow> platform option" where
  "arg_platform cfg args =
     (case map_of args ''platform'' of None \<Rightarrow> None | Some s \<Rightarrow> parse_platform (platforms cfg) s)"

definition tool_response :: "repo_error + string \<Rightarrow> response" where
  "tool_response r = (case r of Inl e \<Rightarrow> ToolFailed e | Inr t \<Rightarrow> ToolText t)"

fun handle :: "config \<Rightarrow> world \<Rightarrow> request \<Rightarrow> world \<times> response" where
  "handle cfg w (ReadResource uri) =
     (case find (\<lambda>pl. resource_uri pl = uri) (platforms cfg) of
        None \<Rightarrow> (w, UnknownResource uri)
      | Some pl \<Rightarrow>
          (case read_resource cfg pl w of
             (w', Inl e) \<Rightarrow> (w', ResourceFailed e)
           | (w', Inr c) \<Rightarrow> (w', ResourceText uri ''text/markdown'' c)))"
| "handle cfg w (CallTool name args) =
     (if name = ''get_boilerplate_structure'' then
        (case arg_platform cfg args of
           None \<Rightarrow> (w, InvalidParams)
         | Some pl \<Rightarrow> (w, tool_response (get_boilerplate_structure cfg w pl)))
      else if name = ''search_best_practices'' then
        (case (arg_platform cfg args, map_of args ''query'') of
           (Some pl, Some q) \<Rightarrow> (w, tool_response (search_best_practices cfg w pl q))
         | _ \<Rightarrow> (w, InvalidParams))
      else if name = ''get_all_contexts'' then (w, tool_response (get_all_contexts cfg w))
      else (w, UnknownTool name))"

subsection \<open>Properties of the request surface\<close>

lemma resource_uri_inj: "resource_uri p = resource_uri q \<longleftrightarrow> p = q"
  by (simp add: resource_uri_def platform_value_inj)

lemma find_eq_member: "x \<in> set xs \<Longrightarrow> find (\<lambda>y. y = x) xs = Some x"
  by (induction xs) auto

lemma find_resource_uri:
  "find (\<lambda>pl. resource_uri pl = u) ps = Some pl \<longleftrightarrow> pl \<in> set ps \<and> u = resource_uri pl"
proof
  assume "find (\<lambda>pl. resource_uri pl = u) ps = Some pl"
  then show "pl \<in> set ps \<and> u = resource_uri pl" by (auto simp: find_Some_iff)
next
  assume "pl \<in> set ps \<and> u = resource_uri pl"
  then show "find (\<lambda>pl. resource_uri pl = u) ps = Some pl"
    using find_eq_member [of pl ps] by (simp add: resource_uri_inj)
qed

subsection \<open>Example configuration\<close>

definition demo_cfg :: config where
  "demo_cfg = \<lparr>port = Some 3000, repoUrl = demo_url, repoDir = ''repo'',
               boilerplateDir = ''boilerplates'', platforms = [BACKEND, FRONTEND]\<rparr>"

definition demo_cfg_all :: config where
  "demo_cfg_all = demo_cfg\<lparr>platforms := PLATFORMS_ARRAY\<rparr>"

definition demo_docs :: "platform \<Rightarrow> string" where
  "demo_docs pl = (if pl = BACKEND then ''# Backend\<newline>Use strict types.\<newline>'' else ''# Frontend\<newline>'')"

lemma demo_read_docs:
  "\<forall>pl \<in> set [BACKEND, FRONTEND]. readAgentsMd demo_synced ''repo'' ''boilerplates'' pl = Inr (demo_docs pl)"
  by (simp add: readAgentsMd_def fs_read_file_def agents_path_def demo_docs_def demo_defs) code_simp

lemma demo_read_mobile:
  "readAgentsMd demo_synced ''repo'' ''boilerplates'' MOBILE
     = Inl (AgentsMdFailed MOBILE (ENOENT (agents_path ''repo'' ''boilerplates'' MOBILE)))"
  using demo_mobile_missing(2) by (simp add: readAgentsMd_def fs_read_file_def)

text \<open>
  No tool changes the world: \<open>get_boilerplate_structure\<close>,
  \<open>search_best_practices\<close> and \<open>get_all_contexts\<close> never call
  \<open>ensureRepo\<close>, so they read the working copy as the last clone or pull left
  it.
\<close>

theorem handle_tool_keeps_world:
  "fst (handle cfg w (CallTool name args)) = w"
  by (simp split: option.splits prod.splits)

lemma read_all_Inr:
  "(\<forall>p \<in> set ps. rd p = Inr (docs p)) \<Longrightarrow> read_all rd ps = Inr (map docs ps)"
  by (induction ps) auto

lemma read_all_Inl:
  "p \<in> set ps \<Longrightarrow> rd p = Inl e \<Longrightarrow> \<exists>e'. read_all rd ps = Inl e'"
  by (induction ps) (auto split: sum.splits)

text \<open>
  When every configured platform's \<open>AGENTS.md\<close> can be read,
  \<open>get_all_contexts\<close> returns, in configuration order, a heading
  \<open>## PLATFORM AGENTS.md\<close> followed by that platform's document, the blocks
  separated by a horizontal rule.
\<close>

theorem get_all_contexts_ok:
  assumes "\<forall>pl \<in> set (platforms cfg). readAgentsMd w (repoDir cfg) (boilerplateDir cfg) pl = Inr (docs pl)"
  shows "get_all_contexts cfg w =
           Inr (join_with ''\<newline>\<newline>---\<newline>\<newline>'' (map (\<lambda>pl. context_heading pl (docs pl)) (platforms cfg)))"
proof -
  have "read_all (readAgentsMd w (repoDir cfg) (boilerplateDir cfg)) (platforms cfg) = Inr (map docs (platforms cfg))"
    using assms by (rule read_all_Inr)
  moreover have "map2 context_heading ps (map docs ps) = map (\<lambda>pl. context_heading pl (docs pl)) ps" for ps
    by (induction ps) auto
  ultimately show ?thesis by (simp add: get_all_contexts_def)
qed

theorem get_all_contexts_ok_witness:
  "get_all_contexts demo_cfg demo_synced =
     Inr (join_with ''\<newline>\<newline>---\<newline>\<newline>''
            [context_heading BACKEND ''# Backend\<newline>Use strict types.\<newline>'',
             context_heading FRONTEND ''# Frontend\<newline>''])"
  using get_all_contexts_ok [of demo_cfg demo_synced demo_docs] demo_read_docs
  by (simp add: demo_cfg_def demo_docs_def)

text \<open>
  C10. If the document of any configured platform cannot be read,
  \<open>get_all_contexts\<close> fails as a whole: no partial result is returned.
\<close>

theorem get_all_contexts_fails:
  assumes "pl \<in> set (platforms cfg)"
    and "readAgentsMd w (repoDir cfg) (boilerplateDir cfg) pl = Inl e"
  shows "\<exists>e'. get_all_contexts cfg w = Inl e'"
  using read_all_Inl [of pl "platforms cfg" "readAgentsMd w (repoDir cfg) (boilerplateDir cfg)" e] assms
  by (auto simp: get_all_contexts_def)

theorem get_all_contexts_fails_witness:
  "\<exists>e'. get_all_contexts demo_cfg_all demo_synced = Inl e'"
  using get_all_contexts_fails [of MOBILE demo_cfg_all demo_synced] demo_read_mobile
  by (simp add: demo_cfg_all_def demo_cfg_def PLATFORMS_ARRAY_def)

text \<open>
  A resource URI is served exactly when it is
  \<open>boilerplate://<platform>/agents.md\<close> for a configured platform; any other
  URI is answered as unknown, without touching the repository.
\<close>

theorem handle_unknown_resource:
  "snd (handle cfg w (ReadResource u)) = UnknownResource u
   \<longleftrightarrow> u \<notin> resource_uri ` set (platforms cfg)"
proof (cases "find (\<lambda>pl. resource_uri pl = u) (platforms cfg)")
  case None
  moreover have "u \<notin> resource_uri ` set (platforms cfg)"
    using None by (auto simp: find_None_iff)
  ultimately show ?thesis by simp
next
  case (Some pl)
  then have "pl \<in> set (platforms cfg)" "u = resource_uri pl"
    using find_resource_uri by blast+
  then show ?thesis
    using Some by (auto simp: read_resource_def split: sum.splits)
qed

text \<open>
  C11. The \<open>platform\<close> argument of a tool is accepted exactly when it is the
  name of a configured platform, and it selects that platform.
\<close>

theorem arg_platform_roundtrip:
  "arg_platform cfg args = Some pl
   \<longleftrightarrow> pl \<in> set (platforms cfg) \<and> map_of args ''platform'' = Some (platform_value pl)"
proof
  assume "arg_platform cfg args = Some pl"
  then show "pl \<in> set (platforms cfg) \<and> map_of args ''platform'' = Some (platform_value pl)"
    by (auto simp: arg_platform_def dest: parse_platform_Some split: option.splits)
next
  assume "pl \<in> set (platforms cfg) \<and> map_of args ''platform'' = Some (platform_value pl)"
  then show "arg_platform cfg args = Some pl"
    using find_eq_member [of pl "platforms cfg"]
    by (simp add: arg_platform_def parse_platform_def platform_value_inj)
qed

end
