(* ===== verification/App.thy ===== *)
theory App
  imports McpServer
begin

text \<open>
  The HTTP layer: \<open>createApp\<close> of \<open>app.ts\<close> (\<open>src/unnamed/part_005\<close> lines
  103--172), an Express application with four routes, and \<open>startServer\<close> of
  \<open>index.ts\<close>.  A request is a method, a path and a JSON body; a route handler
  either writes a response or, for \<open>POST /mcp\<close>, hands the body to a fresh
  MCP transport connected to the shared server.  Express's own behaviour is
  written out where the routes depend on it: \<open>app.get\<close> also answers
  \<open>HEAD\<close>, paths match case-insensitively with an optional trailing slash,
  and a request no route matches gets the default \<open>404\<close>.  The transport is a
  parameter \<open>serve\<close> of the routes here (its JSON-RPC behaviour is in
  \<open>mcp_serve\<close> below), so the route lemmas hold for any server behaviour.
\<close>

datatype http_method = GET | HEAD | POST | PUT | DELETE | PATCH

primrec method_name :: "http_method \<Rightarrow> string" where
  "method_name GET = ''GET''"
| "method_name HEAD = ''HEAD''"
| "method_name POST = ''POST''"
| "method_name PUT = ''PUT''"
| "method_name DELETE = ''DELETE''"
| "method_name PATCH = ''PATCH''"

record http_request =
  req_method :: http_method
  req_path :: string
  req_body :: json

datatype http_body = JsonBody json | TextBody string

text \<open>
  What a request leaves behind: a response written by the route handler, or
  \<open>Streamed\<close> when the transport had already sent its headers when the handler
  threw, so that the handler writes nothing more (\<open>if (!res.headersSent)\<close>).
\<close>

datatype http_reply = Reply nat http_body | Streamed

text \<open>What the transport did with one \<open>POST /mcp\<close>: it answered, or it threw, before or after sending headers.\<close>

datatype mcp_outcome = McpAnswered json | McpThrew bool

text \<open>Express route matching: case-insensitive, one optional trailing slash.\<close>

definition path_matches :: "string \<Rightarrow> string \<Rightarrow> bool" where
  "path_matches r p = (to_lower p = r \<or> to_lower p = r @ ''/'')"

definition get_route :: "http_method \<Rightarrow> bool" where
  "get_route m = (m = GET \<or> m = HEAD)"

definition jsonrpc_error :: "int \<Rightarrow> string \<Rightarrow> json" where
  "jsonrpc_error code msg =
     JObj [(''jsonrpc'', JStr ''2.0''),
           (''error'', JObj [(''code'', JNum code), (''message'', JStr msg)]),
           (''id'', JNull)]"

text \<open>\<open>app.post('/mcp', ...)\<close>: the transport's answer, or the 500 of the \<open>catch\<close>.\<close>

definition post_mcp ::
  "(world \<Rightarrow> json \<Rightarrow> world \<times> mcp_outcome) \<Rightarrow> world \<Rightarrow> json \<Rightarrow> world \<times> http_reply" where
  "post_mcp serve w body =
     (case serve w body of
        (w', McpAnswered j) \<Rightarrow> (w', Reply 200 (JsonBody j))
      | (w', McpThrew headersSent) \<Rightarrow>
          (w', if \<not> headersSent
               then Reply 500 (JsonBody (jsonrpc_error (-32603) ''Internal server error''))
               else Streamed))"

definition health_body :: json where
  "health_body = JObj [(''status'', JStr ''ok''), (''service'', JStr ''boilerplate-context-mcp'')]"

definition not_found :: "http_request \<Rightarrow> http_reply" where
  "not_found req = Reply 404 (TextBody (''Cannot '' @ method_name (req_method req) @ '' '' @ req_path req))"

text \<open>The routes of \<open>createApp\<close>, in registration order, then Express's final 404.\<close>

definition createApp ::
  "(world \<Rightarrow> json \<Rightarrow> world \<times> mcp_outcome) \<Rightarrow> world \<Rightarrow> http_request \<Rightarrow> world \<times> http_reply" where
  "createApp serve w req =
     (if req_method req = POST \<and> path_matches ''/mcp'' (req_path req) then post_mcp serve w (req_body req)
      else if get_route (req_method req) \<and> path_matches ''/health'' (req_path req)
      then (w, Reply 200 (JsonBody health_body))
      else if get_route (req_method req) \<and> path_matches ''/mcp'' (req_path req)
      then (w, Reply 405 (JsonBody (jsonrpc_error (-32000) ''Method not allowed. Use POST.'')))
      else if req_method req = DELETE \<and> path_matches ''/mcp'' (req_path req)
      then (w, Reply 405 (JsonBody (jsonrpc_error (-32000) ''Method not allowed.'')))
      else (w, not_found req))"

subsection \<open>The MCP transport\<close>

text \<open>
  \<open>StreamableHTTPServerTransport.handleRequest\<close> of the SDK, for one JSON-RPC
  request in stateless mode: it reads the method and parameters, runs the
  server's handler (\<open>handle\<close>) and answers with the request's \<open>id\<close> and a
  \<open>result\<close> or an \<open>error\<close>.  A resource handler that throws becomes a
  JSON-RPC error; a tool handler that throws becomes a result flagged
  \<open>isError\<close>.  The error texts follow \<open>readAgentsMd\<close>'s
  \<open>Failed to read AGENTS.md for ...\<close> and Node's \<open>ENOENT\<close> message.
\<close>

primrec fs_error_message :: "fs_error \<Rightarrow> string" where
  "fs_error_message (ENOENT p) = ''Error: ENOENT: no such file or directory, '' @ p"
| "fs_error_message (ENOTDIR p) = ''Error: ENOTDIR: not a directory, '' @ p"
| "fs_error_message (EISDIR p) = ''Error: EISDIR: illegal operation on a directory, '' @ p"

primrec git_failure_message :: "git_failure \<Rightarrow> string" where
  "git_failure_message RemoteUnreachable = ''fatal: Could not read from remote repository.''"
| "git_failure_message DestinationNotEmpty = ''fatal: destination path already exists and is not an empty directory.''"
| "git_failure_message CannotCreate = ''fatal: could not create work tree dir''"
| "git_failure_message NotARepository = ''fatal: not a git repository''"

primrec repo_error_message :: "repo_error \<Rightarrow> string" where
  "repo_error_message (FsError e) = fs_error_message e"
| "repo_error_message (GitError g) = ''Error: '' @ git_failure_message g"
| "repo_error_message (AgentsMdFailed pl e) =
     ''Failed to read AGENTS.md for '' @ platform_value pl @ '': '' @ fs_error_message e"

definition json_field :: "json \<Rightarrow> string \<Rightarrow> json option" where
  "json_field j k = (case j of JObj fs \<Rightarrow> map_of fs k | _ \<Rightarrow> None)"

definition string_args :: "(string \<times> json) list \<Rightarrow> (string \<times> string) list" where
  "string_args as = concat (map (\<lambda>(k, v). case v of JStr s \<Rightarrow> [(k, s)] | _ \<Rightarrow> []) as)"

definition rpc_request :: "json \<Rightarrow> (int \<times> string) + request" where
  "rpc_request body =
     (let bad = Inl (-32602, ''Invalid params'') in
      case json_field body ''method'' of
        Some (JStr m) \<Rightarrow>
          if m = ''resources/read'' then
            (case json_field body ''params'' of
               Some ps \<Rightarrow> (case json_field ps ''uri'' of Some (JStr u) \<Rightarrow> Inr (ReadResource u) | _ \<Rightarrow> bad)
             | None \<Rightarrow> bad)
          else if m = ''tools/call'' then
            (case json_field body ''params'' of
               Some ps \<Rightarrow>
                 (case json_field ps ''name'' of
                    Some (JStr n) \<Rightarrow>
                      (case json_field ps ''arguments'' of
                         Some (JObj as) \<Rightarrow> Inr (CallTool n (string_args as))
                       | _ \<Rightarrow> Inr (CallTool n []))
                  | _ \<Rightarrow> bad)
             | None \<Rightarrow> bad)
          else Inl (-32601, ''Method not found'')
      | _ \<Rightarrow> Inl (-32600, ''Invalid Request''))"

definition rpc_result :: "json \<Rightarrow> json \<Rightarrow> json" where
  "rpc_result i r = JObj [(''jsonrpc'', JStr ''2.0''), (''id'', i), (''result'', r)]"

definition rpc_error :: "json \<Rightarrow> int \<Rightarrow> string \<Rightarrow> json" where
  "rpc_error i code msg =
     JObj [(''jsonrpc'', JStr ''2.0''), (''id'', i),
           (''error'', JObj [(''code'', JNum code), (''message'', JStr msg)])]"

definition text_content :: "string \<Rightarrow> json" where
  "text_content t = JArr [JObj [(''type'', JStr ''text''), (''text'', JStr t)]]"

primrec rpc_response :: "json \<Rightarrow> response \<Rightarrow> json" where
  "rpc_response i (ResourceText u mime t) =
     rpc_result i (JObj [(''contents'', JArr [JObj [(''uri'', JStr u), (''mimeType'', JStr mime), (''text'', JStr t)]])])"
| "rpc_response i (ResourceFailed e) = rpc_error i (-32603) (repo_error_message e)"
| "rpc_response i (ToolText t) = rpc_result i (JObj [(''content'', text_content t)])"
| "rpc_response i (ToolFailed e) =
     rpc_result i (JObj [(''content'', text_content (repo_error_message e)), (''isError'', JBool True)])"
| "rpc_response i InvalidParams = rpc_error i (-32602) ''Invalid params''"
| "rpc_response i (UnknownResource u) = rpc_error i (-32602) (''Resource '' @ u @ '' not found'')"
| "rpc_response i (UnknownTool n) = rpc_error i (-32602) (''Tool '' @ n @ '' not found'')"

definition rpc_id :: "json \<Rightarrow> json" where
  "rpc_id body = (case json_field body ''id'' of Some i \<Rightarrow> i | None \<Rightarrow> JNull)"

definition mcp_serve :: "config \<Rightarrow> world \<Rightarrow> json \<Rightarrow> world \<times> mcp_outcome" where
  "mcp_serve cfg w body =
     (case rpc_request body of
        Inl (code, msg) \<Rightarrow> (w, McpAnswered (rpc_error (rpc_id body) code msg))
      | Inr r \<Rightarrow> (case handle cfg w r of (w', resp) \<Rightarrow> (w', McpAnswered (rpc_response (rpc_id body) resp))))"

subsection \<open>Start-up\<close>

text \<open>
  \<open>startServer\<close> of \<open>index.ts\<close>: the configuration check, then
  \<open>getMcpServer()\<close>, whose \<open>repoTools\<close> runs \<open>ensureRepo\<close> and exits on
  failure, then \<open>createApp\<close> and \<open>app.listen(port)\<close>.  Node's \<open>listen\<close>
  throws for a port that is not an integer in \<open>[0, 65535]\<close> (\<open>NaN\<close>
  included), and \<open>startServer().catch\<close> exits with code 1.
\<close>

datatype startup = Exit nat | Listening int world

definition valid_port :: "int \<Rightarrow> bool" where
  "valid_port p = (0 \<le> p \<and> p < 65536)"

definition startServer :: "env \<Rightarrow> world \<Rightarrow> startup" where
  "startServer e w =
     (let cfg = config_of_env e in
      if \<not> start_check cfg then Exit 1
      else (case repoTools_init (repoUrl cfg) (repoDir cfg) w of
              Inl err \<Rightarrow> Exit 1
            | Inr w' \<Rightarrow> (case port cfg of
                           Some p \<Rightarrow> if valid_port p then Listening p w' else Exit 1
                         | None \<Rightarrow> Exit 1)))"

subsection \<open>Examples\<close>

lemma to_lower_paths: "to_lower ''/mcp'' = ''/mcp''" "to_lower ''/MCP/'' = ''/mcp/''" "to_lower ''/health'' = ''/health''"
  by code_simp+

subsection \<open>Properties of the HTTP layer\<close>

lemma path_matches_mcp_health: "path_matches ''/mcp'' p \<Longrightarrow> \<not> path_matches ''/health'' p"
  by (auto simp: path_matches_def)

lemma createApp_not_post: "req_method req \<noteq> POST \<Longrightarrow> fst (createApp serve w req) = w"
  by (simp add: createApp_def)

text \<open>
  On \<open>/mcp\<close>, \<open>PUT\<close> and \<open>PATCH\<close> have no route: they fall through to
  Express's default 404, where \<open>GET\<close> and \<open>DELETE\<close> get the 405 of the
  specification.
\<close>

lemma createApp_put_mcp_not_found:
  "createApp (mcp_serve demo_cfg) demo_synced \<lparr>req_method = PUT, req_path = ''/MCP/'', req_body = JNull\<rparr>
     = (demo_synced, Reply 404 (TextBody ''Cannot PUT /MCP/''))"
  by (simp add: createApp_def path_matches_def to_lower_paths get_route_def not_found_def)

text \<open>
  The health check answers 200 with its fixed payload whatever the state
  of the repository and of the MCP server: it checks neither.
\<close>

theorem createApp_health:
  assumes "get_route (req_method req)" and "path_matches ''/health'' (req_path req)"
  shows "createApp serve w req = (w, Reply 200 (JsonBody health_body))"
  using assms by (auto simp: createApp_def get_route_def path_matches_def)

theorem createApp_health_witness:
  "createApp (mcp_serve demo_cfg) demo_offline \<lparr>req_method = HEAD, req_path = ''/health'', req_body = JNull\<rparr>
     = (demo_offline, Reply 200 (JsonBody health_body))"
  by (rule createApp_health) (simp_all add: get_route_def path_matches_def to_lower_paths)

text \<open>
  \<open>startServer\<close> listens exactly when the configuration names a repository
  and a directory, the start-up \<open>ensureRepo\<close> succeeds and \<open>PORT\<close> gives a
  port in \<open>[0, 65535]\<close>; it then listens on that port with the world the
  start-up \<open>ensureRepo\<close> left.  In every other case the process exits with 1.
\<close>

theorem startServer_cases:
  "startServer e w = Listening p w'
   \<longleftrightarrow> start_check (config_of_env e)
       \<and> repoTools_init (repoUrl (config_of_env e)) (repoDir (config_of_env e)) w = Inr w'
       \<and> port (config_of_env e) = Some p \<and> valid_port p"
  by (auto simp: startServer_def Let_def split: sum.splits option.splits)

lemma startServer_Exit: "(\<forall>p w'. startServer e w \<noteq> Listening p w') \<Longrightarrow> startServer e w = Exit 1"
  by (auto simp: startServer_def Let_def split: sum.splits option.splits if_splits)

end
