(* ===== verification/RepoConcurrency.thy ===== *)
theory RepoConcurrency
  imports Repository
begin

text \<open>
  Concurrent calls of \<open>ensureRepo\<close> (\<open>src/unnamed/part_005\<close> lines 7--34).
  Every resource read awaits its own call, and Node interleaves them at each
  \<open>await\<close>: the \<open>fs.access\<close> check, the start of the git process and its end.
  A clone goes through the shared instance \<open>git\<close>, created with
  \<open>maxConcurrentProcesses: 1\<close>, so it waits in that instance's queue while
  another of its processes is alive; a pull goes through a fresh instance
  \<open>simpleGit(dir)\<close>, whose own limit does not see the other calls, so it starts
  at once.  A git process takes effect on the world when it ends.  Neither
  instance is given a \<open>timeout\<close>, so a git process that stops making
  progress (a stalled transfer, a credential prompt) is never ended: the step
  \<open>hang\<close> moves a running process to \<open>Hung\<close>, from which no step leads.

  The state is the world and one task per pending call; a step moves one task,
  chosen freely, so the steps are an inductive relation.  The lemmas: two pulls
  can run at the same time; two first calls can both decide to clone, the
  second then failing; and a hung clone keeps every queued clone waiting
  forever, whatever else happens.
\<close>

datatype git_op = Clone | Pull

datatype task =
    Start
  | Checked bool
  | Queued
  | Running git_op
  | Hung git_op
  | Finished "repo_error option"

record conc =
  cw :: world
  tasks :: "task list"

text \<open>The effect of a git process when it ends.\<close>

primrec git_finish :: "url \<Rightarrow> string \<Rightarrow> git_op \<Rightarrow> world \<Rightarrow> repo_error + world" where
  "git_finish u d Clone w = git_clone w u d"
| "git_finish u d Pull w = git_pull w d"

definition set_task :: "conc \<Rightarrow> nat \<Rightarrow> task \<Rightarrow> conc" where
  "set_task s i t = s\<lparr>tasks := (tasks s)[i := t]\<rparr>"

inductive ens_step :: "url \<Rightarrow> string \<Rightarrow> conc \<Rightarrow> conc \<Rightarrow> bool" for u d where
  access:
    "i < length (tasks s) \<Longrightarrow> tasks s ! i = Start \<Longrightarrow>
     ens_step u d s (set_task s i (Checked (fs_access (fsroot (cw s)) (cwd (cw s)) d)))"
| clone_queue:
    "i < length (tasks s) \<Longrightarrow> tasks s ! i = Checked False \<Longrightarrow>
     ens_step u d s (set_task s i Queued)"
| clone_start:
    "i < length (tasks s) \<Longrightarrow> tasks s ! i = Queued \<Longrightarrow>
     Running Clone \<notin> set (tasks s) \<Longrightarrow> Hung Clone \<notin> set (tasks s) \<Longrightarrow>
     ens_step u d s (set_task s i (Running Clone))"
| pull_start:
    "i < length (tasks s) \<Longrightarrow> tasks s ! i = Checked True \<Longrightarrow>
     ens_step u d s (set_task s i (Running Pull))"
| hang:
    "i < length (tasks s) \<Longrightarrow> tasks s ! i = Running op \<Longrightarrow>
     ens_step u d s (set_task s i (Hung op))"
| finish_error:
    "i < length (tasks s) \<Longrightarrow> tasks s ! i = Running op \<Longrightarrow> git_finish u d op (cw s) = Inl e \<Longrightarrow>
     ens_step u d s (set_task s i (Finished (Some e)))"
| finish_ok:
    "i < length (tasks s) \<Longrightarrow> tasks s ! i = Running op \<Longrightarrow> git_finish u d op (cw s) = Inr w' \<Longrightarrow>
     ens_step u d s ((set_task s i (Finished None))\<lparr>cw := w'\<rparr>)"

abbreviation ens_steps :: "url \<Rightarrow> string \<Rightarrow> conc \<Rightarrow> conc \<Rightarrow> bool" where
  "ens_steps u d \<equiv> (ens_step u d)\<^sup>*\<^sup>*"

definition start_conc :: "world \<Rightarrow> nat \<Rightarrow> conc" where
  "start_conc w n = \<lparr>cw = w, tasks = replicate n Start\<rparr>"

text \<open>The git processes alive: running, or hung and never ending.\<close>

definition git_processes :: "task list \<Rightarrow> nat" where
  "git_processes ts = length (filter (\<lambda>t. \<exists>op. t = Running op \<or> t = Hung op) ts)"

lemma tasks_set_task [simp]: "tasks (set_task s i t) = (tasks s)[i := t]"
  by (simp add: set_task_def)

lemma cw_set_task [simp]: "cw (set_task s i t) = cw s"
  by (simp add: set_task_def)

subsection \<open>A hung clone\<close>

text \<open>
  A step never moves a hung task, and a queued clone cannot start while the
  shared instance's one process is hung.  Everything reachable keeps both.
\<close>

definition hung_blocks :: "nat \<Rightarrow> nat \<Rightarrow> conc \<Rightarrow> bool" where
  "hung_blocks i j s =
     (i < length (tasks s) \<and> j < length (tasks s) \<and> tasks s ! i = Hung Clone \<and> tasks s ! j = Queued)"

lemma ens_step_hung_blocks:
  assumes "ens_step u d s s'" and "hung_blocks i j s"
  shows "hung_blocks i j s'"
proof -
  have hung: "Hung Clone \<in> set (tasks s)"
    using assms(2) nth_mem [of i "tasks s"] by (auto simp: hung_blocks_def)
  have keep: "hung_blocks i j (set_task s k t)"
    if "k < length (tasks s)" "tasks s ! k \<noteq> Hung Clone" "tasks s ! k \<noteq> Queued" for k t
    using assms(2) that by (auto simp: hung_blocks_def nth_list_update)
  from assms(1) show ?thesis
  proof cases
    case (clone_start k)
    then show ?thesis using hung by simp
  next
    case (finish_ok k op w')
    then have "hung_blocks i j (set_task s k (Finished None))" using keep by simp
    then show ?thesis using finish_ok(1) by (simp add: hung_blocks_def set_task_def)
  qed (use keep in simp_all)
qed

lemma ens_steps_hung_blocks:
  "ens_steps u d s s' \<Longrightarrow> hung_blocks i j s \<Longrightarrow> hung_blocks i j s'"
  by (induction rule: rtranclp_induct) (auto intro: ens_step_hung_blocks)

subsection \<open>Examples\<close>

lemma demo_access:
  "\<not> fs_access (fsroot demo_world) (cwd demo_world) ''repo''"
  "fs_access (fsroot demo_synced) (cwd demo_synced) ''repo''"
  by (simp_all add: demo_defs fs_access_def resolve_segs_def is_absolute_def)

subsection \<open>Properties of concurrent calls\<close>

text \<open>
  C18. Pulls are not serialised: when the working copy exists, two concurrent
  \<open>ensureRepo\<close> calls reach a state where both pulls run at once, two git
  processes in the same working copy.  The concurrency contract of the
  specification (at most one git operation at a time) does not hold.
\<close>

theorem concurrent_pulls_overlap:
  assumes "fs_access (fsroot w) (cwd w) d"
  shows "ens_steps u d (start_conc w 2) \<lparr>cw = w, tasks = [Running Pull, Running Pull]\<rparr>
         \<and> git_processes [Running Pull, Running Pull] = 2"
proof -
  have "ens_step u d \<lparr>cw = w, tasks = [Start, Start]\<rparr> \<lparr>cw = w, tasks = [Checked True, Start]\<rparr>"
    using ens_step.access [of 0 "\<lparr>cw = w, tasks = [Start, Start]\<rparr>" u d] assms by (simp add: set_task_def)
  moreover have "ens_step u d \<lparr>cw = w, tasks = [Checked True, Start]\<rparr> \<lparr>cw = w, tasks = [Checked True, Checked True]\<rparr>"
    using ens_step.access [of 1 "\<lparr>cw = w, tasks = [Checked True, Start]\<rparr>" u d] assms by (simp add: set_task_def)
  moreover have "ens_step u d \<lparr>cw = w, tasks = [Checked True, Checked True]\<rparr> \<lparr>cw = w, tasks = [Running Pull, Checked True]\<rparr>"
    using ens_step.pull_start [of 0 "\<lparr>cw = w, tasks = [Checked True, Checked True]\<rparr>" u d] by (simp add: set_task_def)
  moreover have "ens_step u d \<lparr>cw = w, tasks = [Running Pull, Checked True]\<rparr> \<lparr>cw = w, tasks = [Running Pull, Running Pull]\<rparr>"
    using ens_step.pull_start [of 1 "\<lparr>cw = w, tasks = [Running Pull, Checked True]\<rparr>" u d] by (simp add: set_task_def)
  moreover have "start_conc w 2 = \<lparr>cw = w, tasks = [Start, Start]\<rparr>"
    by (simp add: start_conc_def numeral_2_eq_2)
  ultimately show ?thesis by (simp add: git_processes_def)
qed

theorem concurrent_pulls_overlap_witness:
  "ens_steps demo_url ''repo'' (start_conc demo_synced 2) \<lparr>cw = demo_synced, tasks = [Running Pull, Running Pull]\<rparr>
   \<and> git_processes [Running Pull, Running Pull] = 2"
  using concurrent_pulls_overlap [OF demo_access(2)] .

text \<open>
  C19. Two first calls race: both find no directory, both queue a clone; the
  first clones, and the second, run after it by the shared instance, fails
  because the destination is no longer empty, so its resource read reports an
  error although the repository is now in place.
\<close>

theorem concurrent_first_calls_clone_twice:
  assumes acc: "\<not> fs_access (fsroot w) (cwd w) d" and r: "remotes w u = Some t" and t: "t \<noteq> Dir []"
    and c: "git_clone w u d = Inr w'"
  shows "ens_steps u d (start_conc w 2)
           \<lparr>cw = w', tasks = [Finished None, Finished (Some (GitError DestinationNotEmpty))]\<rparr>"
proof -
  let ?p = "resolve_segs (cwd w) d"
  have w': "fs_put ?p t (fsroot w) = Some (fsroot w')" "remotes w' = remotes w" "cwd w' = cwd w"
    using c r by (auto simp: git_clone_def Let_def split: option.splits if_splits)
  have "lookup (fsroot w') ?p = Some t" using w'(1) by (rule lookup_fs_put)
  then have c2: "git_clone w' u d = Inl (GitError DestinationNotEmpty)"
    using r t w'(2,3) by (simp add: git_clone_def)
  have s: "start_conc w 2 = \<lparr>cw = w, tasks = [Start, Start]\<rparr>" by (simp add: start_conc_def numeral_2_eq_2)
  have 1: "ens_step u d \<lparr>cw = w, tasks = [Start, Start]\<rparr> \<lparr>cw = w, tasks = [Checked False, Start]\<rparr>"
    using ens_step.access [of 0 "\<lparr>cw = w, tasks = [Start, Start]\<rparr>" u d] acc by (simp add: set_task_def)
  have 2: "ens_step u d \<lparr>cw = w, tasks = [Checked False, Start]\<rparr> \<lparr>cw = w, tasks = [Checked False, Checked False]\<rparr>"
    using ens_step.access [of 1 "\<lparr>cw = w, tasks = [Checked False, Start]\<rparr>" u d] acc by (simp add: set_task_def)
  have 3: "ens_step u d \<lparr>cw = w, tasks = [Checked False, Checked False]\<rparr> \<lparr>cw = w, tasks = [Queued, Checked False]\<rparr>"
    using ens_step.clone_queue [of 0 "\<lparr>cw = w, tasks = [Checked False, Checked False]\<rparr>" u d] by (simp add: set_task_def)
  have 4: "ens_step u d \<lparr>cw = w, tasks = [Queued, Checked False]\<rparr> \<lparr>cw = w, tasks = [Queued, Queued]\<rparr>"
    using ens_step.clone_queue [of 1 "\<lparr>cw = w, tasks = [Queued, Checked False]\<rparr>" u d] by (simp add: set_task_def)
  have 5: "ens_step u d \<lparr>cw = w, tasks = [Queued, Queued]\<rparr> \<lparr>cw = w, tasks = [Running Clone, Queued]\<rparr>"
    using ens_step.clone_start [of 0 "\<lparr>cw = w, tasks = [Queued, Queued]\<rparr>" u d] by (simp add: set_task_def)
  have 6: "ens_step u d \<lparr>cw = w, tasks = [Running Clone, Queued]\<rparr> \<lparr>cw = w', tasks = [Finished None, Queued]\<rparr>"
    using ens_step.finish_ok [of 0 "\<lparr>cw = w, tasks = [Running Clone, Queued]\<rparr>" Clone u d w'] c
    by (simp add: set_task_def)
  have 7: "ens_step u d \<lparr>cw = w', tasks = [Finished None, Queued]\<rparr> \<lparr>cw = w', tasks = [Finished None, Running Clone]\<rparr>"
    using ens_step.clone_start [of 1 "\<lparr>cw = w', tasks = [Finished None, Queued]\<rparr>" u d] by (simp add: set_task_def)
  have 8: "ens_step u d \<lparr>cw = w', tasks = [Finished None, Running Clone]\<rparr>
             \<lparr>cw = w', tasks = [Finished None, Finished (Some (GitError DestinationNotEmpty))]\<rparr>"
    using ens_step.finish_error [of 1 "\<lparr>cw = w', tasks = [Finished None, Running Clone]\<rparr>" Clone u d] c2
    by (simp add: set_task_def)
  show ?thesis unfolding s
    using 1 2 3 4 5 6 7 8 by (meson rtranclp.rtrancl_refl rtranclp.rtrancl_into_rtrancl)
qed

theorem concurrent_first_calls_clone_twice_witness:
  "\<exists>w'. ens_steps demo_url ''repo'' (start_conc demo_world 2)
          \<lparr>cw = w', tasks = [Finished None, Finished (Some (GitError DestinationNotEmpty))]\<rparr>"
proof -
  obtain w' where e: "ensureRepo demo_url ''repo'' demo_world = Inr w'" using demo_ensure by blast
  then have c: "git_clone demo_world demo_url ''repo'' = Inr w'"
    using demo_access(1) by (simp add: ensureRepo_def)
  have r: "remotes demo_world demo_url = Some demo_repo" by (simp add: demo_world_def)
  have t: "demo_repo \<noteq> Dir []" by (simp add: demo_repo_def)
  show ?thesis using concurrent_first_calls_clone_twice [OF demo_access(1) r t c] by blast
qed

text \<open>
  C20. No timeout guards the queue of the shared instance: when two first
  calls both queue a clone and the first clone stops making progress, the
  second call never settles.  The interleaving reaches a state from which,
  whatever steps follow, the first call stays hung and the second stays
  queued; neither resource read ever answers.
\<close>

theorem concurrent_hung_clone_starves:
  assumes acc: "\<not> fs_access (fsroot w) (cwd w) d"
  shows "\<exists>s. ens_steps u d (start_conc w 2) s
             \<and> (\<forall>s'. ens_steps u d s s' \<longrightarrow> tasks s' ! 0 = Hung Clone \<and> tasks s' ! 1 = Queued)"
proof -
  let ?s = "\<lparr>cw = w, tasks = [Hung Clone, Queued]\<rparr>"
  have s: "start_conc w 2 = \<lparr>cw = w, tasks = [Start, Start]\<rparr>" by (simp add: start_conc_def numeral_2_eq_2)
  have 1: "ens_step u d \<lparr>cw = w, tasks = [Start, Start]\<rparr> \<lparr>cw = w, tasks = [Checked False, Start]\<rparr>"
    using ens_step.access [of 0 "\<lparr>cw = w, tasks = [Start, Start]\<rparr>" u d] acc by (simp add: set_task_def)
  have 2: "ens_step u d \<lparr>cw = w, tasks = [Checked False, Start]\<rparr> \<lparr>cw = w, tasks = [Checked False, Checked False]\<rparr>"
    using ens_step.access [of 1 "\<lparr>cw = w, tasks = [Checked False, Start]\<rparr>" u d] acc by (simp add: set_task_def)
  have 3: "ens_step u d \<lparr>cw = w, tasks = [Checked False, Checked False]\<rparr> \<lparr>cw = w, tasks = [Queued, Checked False]\<rparr>"
    using ens_step.clone_queue [of 0 "\<lparr>cw = w, tasks = [Checked False, Checked False]\<rparr>" u d] by (simp add: set_task_def)
  have 4: "ens_step u d \<lparr>cw = w, tasks = [Queued, Checked False]\<rparr> \<lparr>cw = w, tasks = [Queued, Queued]\<rparr>"
    using ens_step.clone_queue [of 1 "\<lparr>cw = w, tasks = [Queued, Checked False]\<rparr>" u d] by (simp add: set_task_def)
  have 5: "ens_step u d \<lparr>cw = w, tasks = [Queued, Queued]\<rparr> \<lparr>cw = w, tasks = [Running Clone, Queued]\<rparr>"
    using ens_step.clone_start [of 0 "\<lparr>cw = w, tasks = [Queued, Queued]\<rparr>" u d] by (simp add: set_task_def)
  have 6: "ens_step u d \<lparr>cw = w, tasks = [Running Clone, Queued]\<rparr> ?s"
    using ens_step.hang [of 0 "\<lparr>cw = w, tasks = [Running Clone, Queued]\<rparr>" Clone u d] by (simp add: set_task_def)
  have reach: "ens_steps u d (start_conc w 2) ?s"
    unfolding s using 1 2 3 4 5 6 by (meson rtranclp.rtrancl_refl rtranclp.rtrancl_into_rtrancl)
  have h: "hung_blocks 0 1 ?s" by (simp add: hung_blocks_def)
  have "hung_blocks 0 1 s'" if "ens_steps u d ?s s'" for s'
    using ens_steps_hung_blocks [OF that h] .
  then have "\<forall>s'. ens_steps u d ?s s' \<longrightarrow> tasks s' ! 0 = Hung Clone \<and> tasks s' ! 1 = Queued"
    by (simp add: hung_blocks_def)
  then show ?thesis using reach by blast
qed

theorem concurrent_hung_clone_starves_witness:
  "\<exists>s. ens_steps demo_url ''repo'' (start_conc demo_world 2) s
        \<and> (\<forall>s'. ens_steps demo_url ''repo'' s s' \<longrightarrow> tasks s' ! 0 = Hung Clone \<and> tasks s' ! 1 = Queued)"
  using concurrent_hung_clone_starves [OF demo_access(1)] .

end
