(* ===== verification/GuideExpress.thy ===== *)
theory GuideExpress
  imports Prelude
begin

text \<open>
  The TypeScript samples of the backend guideline document
  (\<open>src/unnamed/part_003\<close> lines 65--170), the code an agent is told to
  follow: the request type and \<open>ValidationError\<close>, the sample \<open>createUser\<close>,
  the route \<open>POST /users\<close> with its validation middleware and controller, and
  the two unit tests of \<open>userService.createUser\<close>, and the Swagger
  documentation of the route.  Express runs the handlers
  of a route in order: a handler answers, calls \<open>next()\<close> to pass on, or
  passes an error to \<open>next(err)\<close>, which Express's default error handler
  answers with 500.  The schema (\<open>userSchema\<close>) and the service are parameters:
  the samples do not define them.  The lemmas: invalid input is answered 400
  before the service runs, valid input is answered 201 with the service's user,
  a failing service gives 500, the sample \<open>createUser\<close> passes neither test,
  and the documentation leaves out the 500 of a failing service.
\<close>

record user_request =
  email :: string
  req_name :: string
  age :: "int option"

record validation_error =
  ve_message :: string
  ve_field :: string
  ve_name :: string

text \<open>\<open>new ValidationError(message, field)\<close>: \<open>super(message)\<close>, then \<open>this.name\<close>.\<close>

definition ValidationError :: "string \<Rightarrow> string \<Rightarrow> validation_error" where
  "ValidationError message field = \<lparr>ve_message = message, ve_field = field, ve_name = ''ValidationError''\<rparr>"

datatype exn = ValidationErr validation_error | TypeError string | OtherError string

text \<open>
  The sample \<open>createUser\<close>: its \<open>try\<close> block holds only the comment
  \<open>// Implementation\<close>, so the promise resolves with \<open>undefined\<close>
  (\<open>None\<close>) and the \<open>catch\<close> never runs.
\<close>

definition createUser_sample :: "user_request \<Rightarrow> exn + user option" where
  "createUser_sample userData = Inr None"

datatype mw_result = Respond nat json | Next | NextErr exn

definition user_json :: "user \<Rightarrow> json" where
  "user_json u = JObj [(''id'', JStr (user_id u)), (''name'', JStr (user_name u)), (''email'', JStr (user_email u))]"

text \<open>
  \<open>validateUserInput\<close>: \<open>userSchema.validate(req.body)\<close> gives the messages of
  the error's \<open>details\<close>, or none when the body is valid.  An error with no
  details makes \<open>error.details[0].message\<close> throw a \<open>TypeError\<close>, which
  Express passes to the error handler.
\<close>

definition validateUserInput :: "(user_request \<Rightarrow> string list option) \<Rightarrow> user_request \<Rightarrow> mw_result" where
  "validateUserInput userSchema body =
     (case userSchema body of
        Some (m # ms) \<Rightarrow> Respond 400 (JObj [(''error'', JStr m)])
      | Some [] \<Rightarrow> NextErr (TypeError ''Cannot read properties of undefined (reading 'message')'')
      | None \<Rightarrow> Next)"

text \<open>The controller: \<open>await userService.createUser(userData)\<close>, then 201.\<close>

definition controller_createUser ::
  "(user_request \<Rightarrow> exn + user) \<Rightarrow> user_request \<Rightarrow> exn + mw_result" where
  "controller_createUser createUserSvc userData =
     (case createUserSvc userData of
        Inl e \<Rightarrow> Inl e
      | Inr u \<Rightarrow> Inr (Respond 201 (JObj [(''success'', JBool True), (''data'', user_json u)])))"

text \<open>\<open>asyncHandler(fn)\<close>: a rejected promise is passed to \<open>next(err)\<close>.\<close>

definition asyncHandler :: "('a \<Rightarrow> exn + mw_result) \<Rightarrow> 'a \<Rightarrow> mw_result" where
  "asyncHandler h req = (case h req of Inl e \<Rightarrow> NextErr e | Inr r \<Rightarrow> r)"

text \<open>Express's handler chain of one route, then the final handlers (404 and 500).\<close>

fun run_chain :: "('a \<Rightarrow> mw_result) list \<Rightarrow> 'a \<Rightarrow> nat \<times> json" where
  "run_chain [] req = (404, JStr ''Cannot POST /users'')"
| "run_chain (h # hs) req =
     (case h req of
        Respond code body \<Rightarrow> (code, body)
      | Next \<Rightarrow> run_chain hs req
      | NextErr e \<Rightarrow> (500, JStr ''Internal Server Error''))"

text \<open>\<open>router.post('/users', validateUserInput, asyncHandler(userController.createUser))\<close>.\<close>

definition post_users ::
  "(user_request \<Rightarrow> string list option) \<Rightarrow> (user_request \<Rightarrow> exn + user) \<Rightarrow> user_request \<Rightarrow> nat \<times> json" where
  "post_users userSchema createUserSvc =
     run_chain [validateUserInput userSchema, asyncHandler (controller_createUser createUserSvc)]"

subsection \<open>The unit tests\<close>

definition valid_user_data :: user_request where
  "valid_user_data = \<lparr>email = ''test@example.com'', req_name = ''Test User'', age = None\<rparr>"

definition invalid_user_data :: user_request where
  "invalid_user_data = \<lparr>email = ''invalid'', req_name = ''Test User'', age = None\<rparr>"

text \<open>
  \<open>should create user with valid data\<close>: the result has an \<open>id\<close> (it is a
  user, not \<open>undefined\<close>) and the given email.
\<close>

definition test_valid_data :: "(user_request \<Rightarrow> exn + user option) \<Rightarrow> bool" where
  "test_valid_data createUserSvc =
     (case createUserSvc valid_user_data of
        Inr (Some u) \<Rightarrow> user_email u = email valid_user_data
      | _ \<Rightarrow> False)"

text \<open>\<open>should throw ValidationError for invalid email\<close>: the promise rejects with a \<open>ValidationError\<close>.\<close>

definition test_invalid_email :: "(user_request \<Rightarrow> exn + user option) \<Rightarrow> bool" where
  "test_invalid_email createUserSvc =
     (case createUserSvc invalid_user_data of Inl (ValidationErr e) \<Rightarrow> True | _ \<Rightarrow> False)"

subsection \<open>The Swagger documentation\<close>

text \<open>
  The \<open>@swagger\<close> comment of the guideline (lines 147--170), as the OpenAPI
  operation swagger-jsdoc builds from it: path, method, summary, a required
  JSON body, and the documented responses with their descriptions.
\<close>

record api_doc =
  doc_path :: string
  doc_method :: string
  doc_summary :: string
  doc_body_required :: bool
  doc_responses :: "(nat \<times> string) list"

definition create_user_doc :: api_doc where
  "create_user_doc =
     \<lparr>doc_path = ''/api/users'', doc_method = ''post'', doc_summary = ''Create a new user'',
      doc_body_required = True,
      doc_responses = [(201, ''User created successfully''), (400, ''Validation error'')]\<rparr>"

definition documented :: "api_doc \<Rightarrow> nat \<Rightarrow> bool" where
  "documented doc code = (code \<in> fst ` set (doc_responses doc))"

subsection \<open>Properties of the route\<close>

text \<open>Input the schema rejects is answered without calling the service.\<close>

lemma post_users_rejected:
  "userSchema body = Some (m # ms) \<Longrightarrow> post_users userSchema createUserSvc body = (400, JObj [(''error'', JStr m)])"
  by (simp add: post_users_def validateUserInput_def)

lemma post_users_service_not_called:
  "userSchema body \<noteq> None \<Longrightarrow> post_users userSchema svc body = post_users userSchema svc' body"
  by (auto simp: post_users_def validateUserInput_def split: option.splits list.splits)

lemma post_users_accepted:
  "userSchema body = None \<Longrightarrow>
   post_users userSchema createUserSvc body =
     (case createUserSvc body of
        Inl e \<Rightarrow> (500, JStr ''Internal Server Error'')
      | Inr u \<Rightarrow> (201, JObj [(''success'', JBool True), (''data'', user_json u)]))"
  by (simp add: post_users_def validateUserInput_def asyncHandler_def controller_createUser_def
           split: sum.splits)

text \<open>
  The documentation covers the route's answers except its errors: a status is
  documented exactly when the schema rejects with a detail (400) or the
  service succeeds (201); a failing service and a rejection without details
  reach Express's error handler, whose 500 is not documented.
\<close>

lemma post_users_documented:
  "documented create_user_doc (fst (post_users userSchema createUserSvc body))
   \<longleftrightarrow> (case userSchema body of
          Some ms \<Rightarrow> ms \<noteq> []
        | None \<Rightarrow> (\<exists>u. createUserSvc body = Inr u))"
  by (auto simp: documented_def create_user_doc_def post_users_def validateUserInput_def asyncHandler_def
                 controller_createUser_def split: option.splits list.splits sum.splits)

text \<open>The sample \<open>createUser\<close> passes neither unit test: it resolves with \<open>undefined\<close>.\<close>

lemma createUser_sample_fails_tests:
  "\<not> test_valid_data createUser_sample \<and> \<not> test_invalid_email createUser_sample"
  by (simp add: test_valid_data_def test_invalid_email_def createUser_sample_def)

end
