(* ===== verification/GuideMobile.thy ===== *)
theory GuideMobile
  imports JsString
begin

text \<open>
  The TypeScript samples of the mobile guideline document
  (\<open>src/unnamed/part_002\<close>): the \<open>UserCard\<close> component with its styles
  (lines 79--144), the theme (lines 147--230), the navigation types and
  \<open>UserDetailScreen\<close> (lines 233--270), the \<open>useLocation\<close> hook (lines
  273--322), the \<open>UserCard\<close> unit tests (lines 325--379), the Detox
  end-to-end test (lines 381--405), the Storybook stories (lines 409--464),
  the platform-specific button (lines 496--522) and the accessible button
  (lines 554--570).  A component is a function from
  its props and state to what it renders; an event handler is a step on the
  state that also records the callbacks it calls; a style is the list of CSS
  declarations styled-components computes from the theme, or the
  \<open>TypeError\<close> of reading a section the theme object lacks.
\<close>

subsection \<open>The theme\<close>

record bg_colors =
  bg_primary :: string
  bg_secondary :: string
  bg_pressed :: string

record text_colors =
  tx_primary :: string
  tx_secondary :: string
  tx_inverse :: string

record theme_colors =
  c_primary :: string
  c_secondary :: string
  c_background :: bg_colors
  c_text :: text_colors
  c_error :: string
  c_success :: string
  c_warning :: string
  c_shadow :: string

record type_sizes =
  sz_xs :: nat
  sz_sm :: nat
  sz_md :: nat
  sz_lg :: nat
  sz_xl :: nat

record type_weights =
  w_normal :: string
  w_bold :: string
  w_semiBold :: string

record spacing_scale =
  sp_xs :: nat
  sp_sm :: nat
  sp_md :: nat
  sp_lg :: nat
  sp_xl :: nat

record radii =
  r_sm :: nat
  r_md :: nat
  r_lg :: nat

text \<open>
  The \<open>Theme\<close> interface as a runtime object: the sections other than
  \<open>colors\<close> are optional here because the sample \<open>theme\<close> leaves them out
  (\<open>// ... rest of theme\<close>).
\<close>

record theme =
  colors :: theme_colors
  typography :: "(type_sizes \<times> type_weights) option"
  spacing :: "spacing_scale option"
  borderRadius :: "radii option"

definition sample_theme :: theme where
  "sample_theme =
     \<lparr>colors = \<lparr>c_primary = ''#007AFF'', c_secondary = ''#5856D6'',
                c_background = \<lparr>bg_primary = ''#FFFFFF'', bg_secondary = ''#F2F2F7'', bg_pressed = ''#E1E1E6''\<rparr>,
                c_text = \<lparr>tx_primary = ''#000000'', tx_secondary = ''#8E8E93'', tx_inverse = ''#FFFFFF''\<rparr>,
                c_error = ''#FF3B30'', c_success = ''#34C759'', c_warning = ''#FF9500'', c_shadow = ''#000000''\<rparr>,
      typography = None, spacing = None, borderRadius = None\<rparr>"

type_synonym css = "(string \<times> string) list"

definition px :: "nat \<Rightarrow> string" where
  "px n = show_nat n @ ''px''"

text \<open>Reading a field of an absent section: \<open>theme.spacing.md\<close> with \<open>theme.spacing\<close> undefined.\<close>

definition undefined_read :: "string \<Rightarrow> string" where
  "undefined_read f = ''TypeError: Cannot read properties of undefined (reading '' @ f @ '')''"

subsection \<open>UserCard\<close>

record card_props =
  card_user :: user
  has_onPress :: bool
  testID :: "string option"

datatype card_event = PressIn | PressOut | Press

text \<open>\<open>CardContainer\<close>: background by \<open>isPressed\<close>, then spacing, radius and shadow.\<close>

definition card_container_css :: "theme \<Rightarrow> bool \<Rightarrow> string + css" where
  "card_container_css th isPressed =
     (case (spacing th, borderRadius th) of
        (None, _) \<Rightarrow> Inl (undefined_read ''md'')
      | (Some sp, None) \<Rightarrow> Inl (undefined_read ''md'')
      | (Some sp, Some r) \<Rightarrow>
          Inr [(''background-color'', if isPressed then bg_pressed (c_background (colors th))
                                      else bg_primary (c_background (colors th))),
               (''padding'', px (sp_md sp)), (''margin'', px (sp_sm sp)),
               (''border-radius'', px (r_md r)), (''shadow-color'', c_shadow (colors th)),
               (''shadow-offset'', ''0px 2px''), (''shadow-opacity'', ''0.1''),
               (''shadow-radius'', ''4px''), (''elevation'', ''3'')])"

definition user_name_css :: "theme \<Rightarrow> string + css" where
  "user_name_css th =
     (case (typography th, spacing th) of
        (None, _) \<Rightarrow> Inl (undefined_read ''sizes'')
      | (Some ty, None) \<Rightarrow> Inl (undefined_read ''xs'')
      | (Some (sz, wt), Some sp) \<Rightarrow>
          Inr [(''font-size'', px (sz_lg sz)), (''font-weight'', w_bold wt),
               (''color'', tx_primary (c_text (colors th))), (''margin-bottom'', px (sp_xs sp))])"

definition user_email_css :: "theme \<Rightarrow> string + css" where
  "user_email_css th =
     (case typography th of
        None \<Rightarrow> Inl (undefined_read ''sizes'')
      | Some (sz, wt) \<Rightarrow> Inr [(''font-size'', px (sz_md sz)), (''color'', tx_secondary (c_text (colors th)))])"

text \<open>
  The handlers: \<open>onPressIn\<close> and \<open>onPressOut\<close> set \<open>isPressed\<close>;
  \<open>handlePress\<close> calls \<open>onPress(user)\<close> when the prop is given.  A step
  returns the new state and the arguments of the \<open>onPress\<close> calls it made.
\<close>

fun card_step :: "card_props \<Rightarrow> bool \<Rightarrow> card_event \<Rightarrow> bool \<times> user list" where
  "card_step props isPressed PressIn = (True, [])"
| "card_step props isPressed PressOut = (False, [])"
| "card_step props isPressed Press = (isPressed, if has_onPress props then [card_user props] else [])"

fun card_run :: "card_props \<Rightarrow> bool \<Rightarrow> card_event list \<Rightarrow> bool \<times> user list" where
  "card_run props isPressed [] = (isPressed, [])"
| "card_run props isPressed (ev # evs) =
     (let (p', calls) = card_step props isPressed ev;
          (p'', calls') = card_run props p' evs
      in (p'', calls @ calls'))"

record card_view =
  view_testID :: string
  view_role :: string
  view_label :: string
  view_texts :: "string list"
  view_style :: "string + css"

definition UserCard :: "theme \<Rightarrow> card_props \<Rightarrow> bool \<Rightarrow> card_view" where
  "UserCard th props isPressed =
     \<lparr>view_testID = (case testID props of None \<Rightarrow> ''user-card'' | Some t \<Rightarrow> t),
      view_role = ''button'',
      view_label = ''View details for '' @ user_name (card_user props),
      view_texts = [user_name (card_user props), user_email (card_user props)],
      view_style = card_container_css th isPressed\<rparr>"

subsection \<open>The UserCard tests\<close>

definition mockUser :: user where
  "mockUser = \<lparr>user_id = ''1'', user_name = ''John Doe'', user_email = ''john@example.com''\<rparr>"

text \<open>\<open>renders user information correctly\<close>: name and email are on screen.\<close>

definition test_renders_user_information :: "theme \<Rightarrow> bool" where
  "test_renders_user_information mockTheme =
     (let v = UserCard mockTheme \<lparr>card_user = mockUser, has_onPress = False, testID = None\<rparr> False
      in user_name mockUser \<in> set (view_texts v) \<and> user_email mockUser \<in> set (view_texts v))"

text \<open>\<open>calls onPress when card is pressed\<close>: one press, one call with the user.\<close>

definition test_calls_onPress :: bool where
  "test_calls_onPress =
     (snd (card_run \<lparr>card_user = mockUser, has_onPress = True, testID = None\<rparr> False [Press]) = [mockUser])"

text \<open>\<open>shows pressed state when touched\<close>: after \<open>pressIn\<close> the background is the pressed colour.\<close>

definition test_pressed_state :: "theme \<Rightarrow> bool" where
  "test_pressed_state mockTheme =
     (let props = \<lparr>card_user = mockUser, has_onPress = False, testID = None\<rparr>;
          pressed = fst (card_run props False [PressIn])
      in case view_style (UserCard mockTheme props pressed) of
           Inr decls \<Rightarrow> map_of decls ''background-color'' = Some (bg_pressed (c_background (colors mockTheme)))
         | Inl err \<Rightarrow> False)"

subsection \<open>Navigation and UserDetailScreen\<close>

datatype root_stack_route = Home | UserDetail string | Settings

datatype tab_route = HomeTab | ProfileTab

text \<open>What \<open>useUser(userId)\<close> returns.\<close>

record user_hook =
  hk_user :: "user option"
  hk_loading :: bool
  hk_error :: "string option"

datatype screen_view = LoadingSpinner | ErrorMessage string | ScreenContainer "user option"

text \<open>The effect: \<open>title: user?.name ?? 'Loading...'\<close>.\<close>

definition screen_title :: "user_hook \<Rightarrow> string" where
  "screen_title hk = (case hk_user hk of Some u \<Rightarrow> user_name u | None \<Rightarrow> ''Loading...'')"

text \<open>
  The render: \<open>if (loading)\<close>, then \<open>if (error)\<close> (an empty message is falsy),
  then the profile of \<open>user\<close>, whatever it is.
\<close>

definition UserDetailScreen :: "user_hook \<Rightarrow> string \<times> screen_view" where
  "UserDetailScreen hk =
     (screen_title hk,
      if hk_loading hk then LoadingSpinner
      else (case hk_error hk of
              Some e \<Rightarrow> if e \<noteq> [] then ErrorMessage e else ScreenContainer (hk_user hk)
            | None \<Rightarrow> ScreenContainer (hk_user hk)))"

subsection \<open>useLocation\<close>

record position =
  latitude :: int
  longitude :: int

record loc_state =
  location :: "position option"
  loading :: bool
  error :: "string option"

text \<open>
  What the device does: the permission request grants, denies or throws; the
  position request answers or throws (with an \<open>Error\<close>'s message, or a
  non-\<open>Error\<close> value).
\<close>

datatype perm_outcome = PermGranted | PermDenied | PermThrows

datatype pos_outcome = PosOk position | PosThrows "string option"

definition requestPermission :: "perm_outcome \<Rightarrow> loc_state \<Rightarrow> loc_state \<times> bool" where
  "requestPermission perm st =
     (case perm of
        PermGranted \<Rightarrow> (st, True)
      | PermDenied \<Rightarrow> (st, False)
      | PermThrows \<Rightarrow> (st\<lparr>error := Some ''Failed to request location permission''\<rparr>, False))"

text \<open>
  \<open>getCurrentLocation\<close>: \<open>setLoading(true)\<close>, \<open>setError(null)\<close>; then the
  permission (a denial throws \<open>Location permission denied\<close>); then the
  position; the \<open>catch\<close> sets the error message and \<open>finally\<close> clears
  \<open>loading\<close>.  The state updates apply in order.
\<close>

definition getCurrentLocation :: "perm_outcome \<Rightarrow> pos_outcome \<Rightarrow> loc_state \<Rightarrow> loc_state" where
  "getCurrentLocation perm pos st =
     (let st1 = st\<lparr>loading := True, error := None\<rparr>;
          (st2, hasPermission) = requestPermission perm st1;
          st3 = (if \<not> hasPermission then st2\<lparr>error := Some ''Location permission denied''\<rparr>
                 else (case pos of
                         PosOk l \<Rightarrow> st2\<lparr>location := Some l\<rparr>
                       | PosThrows m \<Rightarrow>
                           st2\<lparr>error := Some (case m of Some msg \<Rightarrow> msg | None \<Rightarrow> ''Failed to get location'')\<rparr>))
      in st3\<lparr>loading := False\<rparr>)"

definition useLocation_init :: loc_state where
  "useLocation_init = \<lparr>location = None, loading = False, error = None\<rparr>"

subsection \<open>The platform-specific button\<close>

datatype platform_os = IOS | ANDROID | WEB | WINDOWS | MACOS

text \<open>
  \<open>PlatformSpecificButton\<close>.  The iOS block is a plain template literal
  inside the styled template, so its \<open>${({ theme }) => theme.colors.shadow}\<close>
  is not called by styled-components: the function's source text is
  interpolated as the value of \<open>shadow-color\<close>.  A \<open>false\<close> interpolation
  adds nothing.
\<close>

definition platform_button_css :: "platform_os \<Rightarrow> theme \<Rightarrow> string + css" where
  "platform_button_css os th =
     (case spacing th of
        None \<Rightarrow> Inl (undefined_read ''md'')
      | Some sp \<Rightarrow>
          Inr ([(''background-color'', c_primary (colors th)), (''padding'', px (sp_md sp)),
                (''border-radius'', if os = IOS then ''12px'' else ''8px'')]
               @ (if os = IOS then [(''shadow-color'', ''({ theme }) => theme.colors.shadow''),
                                    (''shadow-offset'', ''0px 2px''), (''shadow-opacity'', ''0.2''),
                                    (''shadow-radius'', ''4px'')] else [])
               @ (if os = ANDROID then [(''elevation'', ''4'')] else [])))"

datatype notification_branch = IosNotification | AndroidNotification

definition handleNotification :: "platform_os \<Rightarrow> notification_branch" where
  "handleNotification os = (if os = IOS then IosNotification else AndroidNotification)"

subsection \<open>Storybook stories\<close>

text \<open>
  The stories of \<open>UserCard\<close> (lines 409--464): the meta object, the
  \<open>Default\<close> story and \<open>WithPressHandler\<close>, whose args spread
  \<open>Default.args\<close> and add an \<open>onPress\<close> that logs the user's name.  A
  story renders the card inside the decorator's
  \<open>ThemeProvider theme={defaultTheme}\<close>; \<open>defaultTheme\<close> is imported from
  a module the samples do not contain (the theme sample names its object
  \<open>theme\<close> and does not export it), so it is a parameter.
\<close>

record story_meta =
  meta_title :: string
  meta_component :: string
  meta_description :: string
  meta_argTypes :: "(string \<times> string \<times> string) list"

definition UserCard_meta :: story_meta where
  "UserCard_meta =
     \<lparr>meta_title = ''Components/UserCard'', meta_component = ''UserCard'',
      meta_description = ''A pressable card component for displaying user information in React Native.'',
      meta_argTypes = [(''user'', ''User object containing name and email'', ''object''),
                       (''onPress'', ''Callback function called when card is pressed'', ''function'')]\<rparr>"

text \<open>The args of a story; an \<open>onPress\<close> is modelled by the console line it prints.\<close>

record story_args =
  sa_user :: "user option"
  sa_onPress :: "(user \<Rightarrow> string) option"

definition Default_story :: story_args where
  "Default_story =
     \<lparr>sa_user = Some \<lparr>user_id = ''1'', user_name = ''John Doe'', user_email = ''john.doe@example.com''\<rparr>,
      sa_onPress = None\<rparr>"

definition WithPressHandler :: story_args where
  "WithPressHandler = Default_story\<lparr>sa_onPress := Some (\<lambda>u. ''Pressed '' @ user_name u)\<rparr>"

text \<open>
  Rendering a story and firing events on it: the card's view after the events
  and the console lines of the \<open>onPress\<close> calls.  Without a \<open>user\<close> arg the
  card's label reads \<open>user.name\<close> of \<open>undefined\<close>.
\<close>

definition render_story :: "theme \<Rightarrow> story_args \<Rightarrow> card_event list \<Rightarrow> string + card_view \<times> string list" where
  "render_story defaultTheme args evs =
     (case sa_user args of
        None \<Rightarrow> Inl (undefined_read ''name'')
      | Some u \<Rightarrow>
          (let props = \<lparr>card_user = u, has_onPress = (sa_onPress args \<noteq> None), testID = None\<rparr>;
               (p, calls) = card_run props False evs
           in Inr (UserCard defaultTheme props p,
                   case sa_onPress args of None \<Rightarrow> [] | Some f \<Rightarrow> map f calls)))"

subsection \<open>The accessible button\<close>

text \<open>
  \<open>AccessibleButton\<close> (lines 554--570): a touchable with a minimum touch
  target of 44 by 44 and the theme's padding, rendered as the \<open>Save\<close>
  button with its accessibility role, label and hint.
\<close>

definition accessible_button_css :: "theme \<Rightarrow> string + css" where
  "accessible_button_css th =
     (case spacing th of
        None \<Rightarrow> Inl (undefined_read ''md'')
      | Some sp \<Rightarrow> Inr [(''min-height'', ''44px''), (''min-width'', ''44px''), (''padding'', px (sp_md sp))])"

record a11y_view =
  a11y_role :: string
  a11y_label :: string
  a11y_hint :: string
  a11y_texts :: "string list"
  a11y_style :: "string + css"

definition save_button :: "theme \<Rightarrow> a11y_view" where
  "save_button th =
     \<lparr>a11y_role = ''button'', a11y_label = ''Save user information'',
      a11y_hint = ''Double tap to save the current user data'', a11y_texts = [''Save''],
      a11y_style = accessible_button_css th\<rparr>"

subsection \<open>The Detox end-to-end test\<close>

text \<open>
  The \<open>User Management Flow\<close> test (lines 381--405) drives an app through
  Detox.  The app is given by its start screen, what a screen shows (the
  test IDs and texts of its elements, and the milliseconds it takes to show
  them) and the screen a tap on an element leads to.  \<open>waitFor(...)
  .toBeVisible().withTimeout(t)\<close> fails when the element is not shown within
  \<open>t\<close>; \<open>tap\<close> fails on a missing element; \<open>expect(...).toBeVisible()\<close>
  fails on a missing text.  The hooks run first: \<open>beforeAll\<close> launches the
  app, \<open>beforeEach\<close> reloads React Native, which returns to the start screen.
\<close>

record ui =
  ui_ids :: "string list"
  ui_texts :: "string list"
  ui_ready :: nat

record 's detox_app =
  app_launch :: 's
  app_ui :: "'s \<Rightarrow> ui"
  app_tap :: "'s \<Rightarrow> string \<Rightarrow> 's"

datatype detox_action =
    LaunchApp
  | ReloadReactNative
  | WaitVisible string nat
  | TapId string
  | ExpectText string

datatype detox_failure = NotLaunched | TimedOut string nat | NoElement string | TextNotVisible string

fun detox_exec :: "'s detox_app \<Rightarrow> 's option \<Rightarrow> detox_action \<Rightarrow> detox_failure + 's option" where
  "detox_exec a st LaunchApp = Inr (Some (app_launch a))"
| "detox_exec a None act = Inl NotLaunched"
| "detox_exec a (Some s) ReloadReactNative = Inr (Some (app_launch a))"
| "detox_exec a (Some s) (WaitVisible x t) =
     (if x \<in> set (ui_ids (app_ui a s)) \<and> ui_ready (app_ui a s) \<le> t then Inr (Some s) else Inl (TimedOut x t))"
| "detox_exec a (Some s) (TapId x) =
     (if x \<in> set (ui_ids (app_ui a s)) then Inr (Some (app_tap a s x)) else Inl (NoElement x))"
| "detox_exec a (Some s) (ExpectText m) =
     (if m \<in> set (ui_texts (app_ui a s)) then Inr (Some s) else Inl (TextNotVisible m))"

fun detox_run :: "'s detox_app \<Rightarrow> 's option \<Rightarrow> detox_action list \<Rightarrow> detox_failure + 's option" where
  "detox_run a st [] = Inr st"
| "detox_run a st (act # acts) = (case detox_exec a st act of Inl e \<Rightarrow> Inl e | Inr st' \<Rightarrow> detox_run a st' acts)"

definition user_management_flow :: "detox_action list" where
  "user_management_flow =
     [LaunchApp, ReloadReactNative,
      WaitVisible ''user-list'' 5000, TapId ''user-card-1'',
      WaitVisible ''user-detail-screen'' 3000, ExpectText ''John Doe'']"

text \<open>
  What the sample components show: a \<open>UserCard\<close> its test ID and texts;
  \<open>UserDetailScreen\<close> its navigation title and what its view renders.  The
  components of that view (\<open>LoadingSpinner\<close>, \<open>ErrorMessage\<close>,
  \<open>ScreenContainer\<close>, \<open>UserProfile\<close>) are not in the samples: what
  they render is a parameter.
\<close>

definition card_ui :: "card_view \<Rightarrow> ui" where
  "card_ui v = \<lparr>ui_ids = [view_testID v], ui_texts = view_texts v, ui_ready = 0\<rparr>"

definition detail_ui :: "user_hook \<Rightarrow> (screen_view \<Rightarrow> ui) \<Rightarrow> ui" where
  "detail_ui hk children =
     (let (title, v) = UserDetailScreen hk; c = children v in c\<lparr>ui_texts := title # ui_texts c\<rparr>)"

subsection \<open>Examples\<close>

text \<open>A theme with every section of the \<open>Theme\<close> interface, as a test theme would have.\<close>

definition full_theme :: theme where
  "full_theme =
     sample_theme\<lparr>typography := Some (\<lparr>sz_xs = 12, sz_sm = 14, sz_md = 16, sz_lg = 18, sz_xl = 24\<rparr>,
                                     \<lparr>w_normal = ''400'', w_bold = ''700'', w_semiBold = ''600''\<rparr>),
                  spacing := Some \<lparr>sp_xs = 4, sp_sm = 8, sp_md = 16, sp_lg = 24, sp_xl = 32\<rparr>,
                  borderRadius := Some \<lparr>r_sm = 4, r_md = 8, r_lg = 16\<rparr>\<rparr>"

text \<open>
  An app whose list screen shows the test IDs the Detox test looks for, and
  whose detail screen is the sample \<open>UserDetailScreen\<close> for \<open>mockUser\<close>.
\<close>

definition demo_app :: "root_stack_route detox_app" where
  "demo_app =
     \<lparr>app_launch = Home,
      app_ui = (\<lambda>r. case r of
                  UserDetail uid \<Rightarrow> detail_ui \<lparr>hk_user = Some mockUser, hk_loading = False, hk_error = None\<rparr>
                                     (\<lambda>v. \<lparr>ui_ids = [], ui_texts = [''john@example.com''], ui_ready = 0\<rparr>)
                | _ \<Rightarrow> \<lparr>ui_ids = [''user-list'', ''user-card-1''], ui_texts = [''John Doe''], ui_ready = 0\<rparr>),
      app_tap = (\<lambda>r x. UserDetail ''1'')\<rparr>"

subsection \<open>Properties of the samples\<close>

text \<open>\<open>onPress\<close> is called once per press, with the card's user, and only when given.\<close>

lemma card_run_calls:
  "snd (card_run props p evs) =
     (if has_onPress props then replicate (count_list evs Press) (card_user props) else [])"
proof (induction evs arbitrary: p)
  case (Cons ev evs)
  then show ?case by (cases ev) (simp_all add: split_def replicate_append_same)
qed simp

text \<open>The pressed state is set by the last press-in or press-out.\<close>

lemma card_run_pressed:
  "fst (card_run props p evs) =
     (case filter (\<lambda>e. e \<noteq> Press) evs of [] \<Rightarrow> p | es \<Rightarrow> last es = PressIn)"
proof (induction evs arbitrary: p)
  case (Cons ev evs)
  then show ?case by (cases ev) (auto simp: split_def split: list.splits)
qed simp

text \<open>
  The sample \<open>theme\<close> lacks \<open>spacing\<close>: the card, the accessible button and
  the platform button styled with it throw.
\<close>

lemma UserCard_sample_theme:
  "view_style (UserCard sample_theme props p) = Inl (undefined_read ''md'')"
  "a11y_style (save_button sample_theme) = Inl (undefined_read ''md'')"
  "platform_button_css os sample_theme = Inl (undefined_read ''md'')"
  by (simp_all add: UserCard_def card_container_css_def save_button_def accessible_button_css_def
                    platform_button_css_def sample_theme_def)

text \<open>
  A screen that is neither loading nor failed renders the profile of whatever
  \<open>useUser\<close> returned, also no user at all, and the title stays
  \<open>Loading...\<close> whenever there is no user, also after an error.
\<close>

lemma UserDetailScreen_no_user:
  "hk_user hk = None \<Longrightarrow> \<not> hk_loading hk \<Longrightarrow> hk_error hk = None \<Longrightarrow>
   UserDetailScreen hk = (''Loading...'', ScreenContainer None)"
  by (simp add: UserDetailScreen_def screen_title_def)

lemma UserDetailScreen_error_title:
  "hk_user hk = None \<Longrightarrow> \<not> hk_loading hk \<Longrightarrow> hk_error hk = Some e \<Longrightarrow> e \<noteq> [] \<Longrightarrow>
   UserDetailScreen hk = (''Loading...'', ErrorMessage e)"
  by (simp add: UserDetailScreen_def screen_title_def)

text \<open>
  \<open>getCurrentLocation\<close> always ends with \<open>loading\<close> false; it sets the
  location only on success and keeps the previous one otherwise; a permission
  request that throws ends with \<open>Location permission denied\<close>, its own message
  overwritten.
\<close>

lemma getCurrentLocation_cases:
  "getCurrentLocation perm pos st =
     (case (perm, pos) of
        (PermGranted, PosOk l) \<Rightarrow> st\<lparr>location := Some l, loading := False, error := None\<rparr>
      | (PermGranted, PosThrows m) \<Rightarrow>
          st\<lparr>loading := False, error := Some (case m of Some msg \<Rightarrow> msg | None \<Rightarrow> ''Failed to get location'')\<rparr>
      | _ \<Rightarrow> st\<lparr>loading := False, error := Some ''Location permission denied''\<rparr>)"
  by (cases perm; cases pos) (simp_all add: getCurrentLocation_def requestPermission_def)

lemma getCurrentLocation_done:
  "\<not> loading (getCurrentLocation perm pos st)
   \<and> (error (getCurrentLocation perm pos st) = None \<longleftrightarrow> perm = PermGranted \<and> (\<exists>l. pos = PosOk l))"
  by (cases perm; cases pos) (simp_all add: getCurrentLocation_cases)

text \<open>
  The iOS button gets the shadow block, with the source text of the theme
  function as its colour; the Android button gets the elevation; a web,
  Windows or macOS button gets neither, and \<open>handleNotification\<close> runs the
  Android branch there.
\<close>

lemma platform_button_shadow:
  "spacing th = Some sp \<Longrightarrow>
   map_of (projr (platform_button_css IOS th)) ''shadow-color'' = Some ''({ theme }) => theme.colors.shadow''
   \<and> map_of (projr (platform_button_css ANDROID th)) ''elevation'' = Some ''4''
   \<and> map_of (projr (platform_button_css ANDROID th)) ''shadow-color'' = None"
  by (simp add: platform_button_css_def)

lemma handleNotification_not_ios: "os \<noteq> IOS \<Longrightarrow> handleNotification os = AndroidNotification"
  by (simp add: handleNotification_def)

text \<open>
  A story's console shows one line per press when it has an \<open>onPress\<close>:
  \<open>WithPressHandler\<close> logs \<open>Pressed John Doe\<close> for each press, keeping the
  user of \<open>Default\<close>, which logs nothing.
\<close>

lemma render_story_log:
  "sa_user args = Some u \<Longrightarrow>
   \<exists>v. render_story th args evs =
        Inr (v, case sa_onPress args of None \<Rightarrow> [] | Some f \<Rightarrow> replicate (count_list evs Press) (f u))"
  by (auto simp: render_story_def Let_def split_def card_run_calls [of _ False evs, unfolded split_def] split: option.splits)

lemma with_press_handler_log:
  "\<exists>v. render_story th WithPressHandler evs = Inr (v, replicate (count_list evs Press) ''Pressed John Doe'')"
proof -
  have "sa_user WithPressHandler = Some \<lparr>user_id = ''1'', user_name = ''John Doe'', user_email = ''john.doe@example.com''\<rparr>"
    by (simp add: WithPressHandler_def Default_story_def)
  from render_story_log [OF this, of th evs] show ?thesis by (simp add: WithPressHandler_def Default_story_def)
qed

lemma default_story_log:
  "\<exists>v. render_story th Default_story evs = Inr (v, [])"
proof -
  have "sa_user Default_story = Some \<lparr>user_id = ''1'', user_name = ''John Doe'', user_email = ''john.doe@example.com''\<rparr>"
    by (simp add: Default_story_def)
  from render_story_log [OF this, of th evs] show ?thesis by (simp add: Default_story_def)
qed

text \<open>The card sets its default test ID \<open>user-card\<close> when none is given.\<close>

lemma card_ui_default_id: "testID props = None \<Longrightarrow> ui_ids (card_ui (UserCard th props p)) = [''user-card'']"
  by (simp add: card_ui_def UserCard_def)

text \<open>
  On the example app, whose detail view sets no test ID, the test times out
  on the detail screen; an app whose detail screen carries
  \<open>user-detail-screen\<close> passes it.
\<close>

lemma demo_app_flow_result: "detox_run demo_app None user_management_flow = Inl (TimedOut ''user-detail-screen'' 3000)"
  by (simp add: demo_app_def user_management_flow_def detail_ui_def UserDetailScreen_def split_def Let_def)

lemma flow_passes_with_test_ids:
  "detox_run (demo_app\<lparr>app_ui := (\<lambda>r. case r of UserDetail uid \<Rightarrow> \<lparr>ui_ids = [''user-detail-screen''], ui_texts = [''John Doe''], ui_ready = 1000\<rparr>
                     | _ \<Rightarrow> \<lparr>ui_ids = [''user-list'', ''user-card-1''], ui_texts = [], ui_ready = 0\<rparr>)\<rparr>) None user_management_flow
   = Inr (Some (UserDetail ''1''))"
  by (simp add: demo_app_def user_management_flow_def)

text \<open>
  The three \<open>UserCard\<close> unit tests of the mobile guideline pass on the
  component: its name and email are rendered, a press calls \<open>onPress\<close> once
  with the user, and after a press-in the background is the theme's pressed
  colour, for every test theme that has the sections the card's style reads.
\<close>

theorem UserCard_tests_pass:
  assumes "spacing mockTheme \<noteq> None" and "borderRadius mockTheme \<noteq> None"
  shows "test_renders_user_information mockTheme \<and> test_calls_onPress \<and> test_pressed_state mockTheme"
  using assms
  by (auto simp: test_renders_user_information_def test_calls_onPress_def test_pressed_state_def
                 UserCard_def card_container_css_def)

theorem UserCard_tests_pass_witness:
  "test_renders_user_information full_theme \<and> test_calls_onPress \<and> test_pressed_state full_theme"
  by (rule UserCard_tests_pass) (simp_all add: full_theme_def)

end
