(* ===== verification/EslintConfig.thy ===== *)
theory EslintConfig
  imports JsString
begin

text \<open>
  The ESLint configuration of the server (\<open>src/boilerplates/mcp/eslint.config.ts\<close>
  lines 1--88), with the flat-config semantics ESLint gives it: \<open>defineConfig\<close>
  flattens its arguments into one array of configuration objects; an object
  that has \<open>ignores\<close> and no other key ignores files and directories
  globally; a file is linted when it is not globally ignored and matches the
  default patterns or the \<open>files\<close> of an object; the rules of the objects
  that apply to the file are merged in order, a later setting overriding an
  earlier one, and a setting that gives only a severity keeps the earlier
  options.  Patterns are minimatch globs with \<open>dot\<close> set, on the segments of
  the path relative to the configuration's directory.  The shared
  configurations the file spreads (\<open>eslint.configs.recommended\<close>, the
  typescript-eslint and import-plugin ones) are packages, not code of the
  repository: they are parameters.
\<close>

subsection \<open>Globs\<close>

text \<open>One path segment against a segment pattern, where \<open>*\<close> matches any characters.\<close>

fun seg_match :: "string \<Rightarrow> string \<Rightarrow> bool" where
  "seg_match [] s = (s = [])"
| "seg_match (c # p) [] = (c = CHR ''*'' \<and> seg_match p [])"
| "seg_match (c # p) (x # s) =
     (if c = CHR ''*'' then seg_match p (x # s) \<or> seg_match (c # p) s else x = c \<and> seg_match p s)"

text \<open>A pattern's segments against a path's segments, where \<open>**\<close> matches any number of segments.\<close>

fun glob_segs :: "string list \<Rightarrow> string list \<Rightarrow> bool" where
  "glob_segs [] ss = (ss = [])"
| "glob_segs (p # ps) [] = (p = ''**'' \<and> glob_segs ps [])"
| "glob_segs (p # ps) (s # ss) =
     (if p = ''**'' then glob_segs ps (s # ss) \<or> glob_segs (p # ps) ss else seg_match p s \<and> glob_segs ps ss)"

definition glob_match :: "string \<Rightarrow> string list \<Rightarrow> bool" where
  "glob_match pat ss = glob_segs (split_on CHR ''/'' pat) ss"

subsection \<open>Configuration objects\<close>

datatype severity = SevOff | SevWarn | SevError

text \<open>
  A configuration object: its \<open>files\<close>, its \<open>ignores\<close>, its \<open>rules\<close> (each a
  JSON value: a severity, or an array of a severity and options), and the
  names of its other keys (\<open>plugins\<close>, \<open>languageOptions\<close>, \<open>settings\<close>).
\<close>

record config_object =
  cfg_files :: "string list option"
  cfg_ignores :: "string list"
  cfg_rules :: "(string \<times> json) list option"
  cfg_keys :: "string list"

definition defineConfig :: "config_object list list \<Rightarrow> config_object list" where
  "defineConfig args = concat args"

fun parse_severity :: "json \<Rightarrow> severity option" where
  "parse_severity (JNum n) =
     (if n = 0 then Some SevOff else if n = 1 then Some SevWarn else if n = 2 then Some SevError else None)"
| "parse_severity (JStr s) =
     (if s = ''off'' then Some SevOff else if s = ''warn'' then Some SevWarn
      else if s = ''error'' then Some SevError else None)"
| "parse_severity _ = None"

text \<open>A rule setting as severity and options; no options means the severity alone.\<close>

fun rule_setting :: "json \<Rightarrow> (severity \<times> json list) option" where
  "rule_setting (JArr (s # opts)) = map_option (\<lambda>sev. (sev, opts)) (parse_severity s)"
| "rule_setting (JArr []) = None"
| "rule_setting j = map_option (\<lambda>sev. (sev, [])) (parse_severity j)"

definition valid_config :: "config_object \<Rightarrow> bool" where
  "valid_config c =
     (case cfg_rules c of None \<Rightarrow> True | Some rs \<Rightarrow> list_all (\<lambda>(r, v). rule_setting v \<noteq> None) rs)"

definition global_ignores :: "config_object \<Rightarrow> bool" where
  "global_ignores c =
     (cfg_files c = None \<and> cfg_rules c = None \<and> set (cfg_keys c) \<subseteq> {''name''} \<and> cfg_ignores c \<noteq> [])"

text \<open>A global pattern ignores a file when it matches the file or one of its directories.\<close>

definition ignored_by :: "string list \<Rightarrow> string list \<Rightarrow> bool" where
  "ignored_by pats ss = list_ex (\<lambda>k. list_ex (\<lambda>pat. glob_match pat (take k ss)) pats) [1..<Suc (length ss)]"

definition globally_ignored :: "config_object list \<Rightarrow> string list \<Rightarrow> bool" where
  "globally_ignored cfgs ss = list_ex (\<lambda>c. global_ignores c \<and> ignored_by (cfg_ignores c) ss) cfgs"

definition config_applies :: "config_object \<Rightarrow> string list \<Rightarrow> bool" where
  "config_applies c ss =
     (\<not> global_ignores c
      \<and> (case cfg_files c of None \<Rightarrow> True | Some fs \<Rightarrow> list_ex (\<lambda>p. glob_match p ss) fs)
      \<and> \<not> list_ex (\<lambda>p. glob_match p ss) (cfg_ignores c))"

definition default_files :: "string list" where
  "default_files = [''**/*.js'', ''**/*.mjs'', ''**/*.cjs'']"

definition eslint_lints :: "config_object list \<Rightarrow> string list \<Rightarrow> bool" where
  "eslint_lints cfgs ss =
     (\<not> globally_ignored cfgs ss
      \<and> (list_ex (\<lambda>p. glob_match p ss) default_files
         \<or> list_ex (\<lambda>c. cfg_files c \<noteq> None \<and> config_applies c ss) cfgs))"

type_synonym rule_conf = "severity \<times> json list"

definition merge_rule :: "rule_conf option \<Rightarrow> rule_conf \<Rightarrow> rule_conf" where
  "merge_rule old new =
     (case new of (sev, []) \<Rightarrow> (sev, case old of Some (s, opts) \<Rightarrow> opts | None \<Rightarrow> []) | (sev, opts) \<Rightarrow> (sev, opts))"

fun apply_rules :: "(string \<rightharpoonup> rule_conf) \<Rightarrow> (string \<times> json) list \<Rightarrow> (string \<rightharpoonup> rule_conf)" where
  "apply_rules m [] = m"
| "apply_rules m ((r, v) # rs) =
     apply_rules (case rule_setting v of None \<Rightarrow> m | Some s \<Rightarrow> m(r \<mapsto> merge_rule (m r) s)) rs"

definition rules_for :: "config_object list \<Rightarrow> string list \<Rightarrow> (string \<rightharpoonup> rule_conf)" where
  "rules_for cfgs ss =
     fold (\<lambda>c m. apply_rules m (case cfg_rules c of None \<Rightarrow> [] | Some rs \<Rightarrow> rs))
          (filter (\<lambda>c. config_applies c ss) cfgs) Map.empty"

text \<open>
  \<open>calculateConfigForFile\<close>: a configuration error for an invalid rule
  setting, nothing for a file that is not linted, else the merged rules.
\<close>

definition calculateConfigForFile ::
  "config_object list \<Rightarrow> string list \<Rightarrow> string + (string \<rightharpoonup> rule_conf) option" where
  "calculateConfigForFile cfgs ss =
     (if \<not> list_all valid_config cfgs then Inl ''Invalid rule severity''
      else if eslint_lints cfgs ss then Inr (Some (rules_for cfgs ss)) else Inr None)"

subsection \<open>The configuration of the server\<close>

definition repo_rules :: "(string \<times> json) list" where
  "repo_rules =
     [(''@stylistic/comma-dangle'', JArr [JStr ''error'', JStr ''always-multiline'']),
      (''@stylistic/eol-last'', JArr [JStr ''error'', JStr ''always'']),
      (''@stylistic/function-paren-newline'', JArr [JStr ''error'', JStr ''multiline-arguments'']),
      (''global-require'', JNum 0),
      (''import/order'', JArr [JStr ''error'',
         JObj [(''groups'', JArr (map JStr [''type'', ''builtin'', ''external'', ''internal'', ''parent'', ''sibling'', ''index''])),
               (''newlines-between'', JStr ''always''),
               (''alphabetize'', JObj [(''order'', JStr ''asc''), (''caseInsensitive'', JBool True)])]]),
      (''import/prefer-default-export'', JNum 0),
      (''@stylistic/implicit-arrow-linebreak'', JArr [JStr ''error'', JStr ''beside'']),
      (''arrow-body-style'', JArr [JStr ''error'', JStr ''as-needed'']),
      (''@stylistic/indent'', JArr [JStr ''error'', JNum 2, JObj [(''SwitchCase'', JNum 1)]]),
      (''@stylistic/multiline-ternary'', JArr [JStr ''error'', JStr ''always'']),
      (''@stylistic/newline-per-chained-call'', JArr [JStr ''error'', JObj [(''ignoreChainWithDepth'', JNum 2)]]),
      (''@stylistic/no-multiple-empty-lines'', JArr [JStr ''error'', JObj [(''max'', JNum 1), (''maxEOF'', JNum 1)]]),
      (''@stylistic/no-tabs'', JArr [JStr ''error'']),
      (''no-var'', JNum 2),
      (''no-undef'', JNum 2),
      (''object-curly-spacing'', JArr [JStr ''error'', JStr ''always'']),
      (''@stylistic/quotes'', JArr [JStr ''error'', JStr ''single'']),
      (''@stylistic/semi'', JArr [JStr ''error'', JStr ''always''])]"

text \<open>The object with plugins, language options, rules and settings (lines 16--84).\<close>

definition repo_block :: config_object where
  "repo_block =
     \<lparr>cfg_files = None, cfg_ignores = [], cfg_rules = Some repo_rules,
      cfg_keys = [''plugins'', ''languageOptions'', ''settings'']\<rparr>"

definition repo_ignores :: config_object where
  "repo_ignores = \<lparr>cfg_files = None, cfg_ignores = [''**/dist/*'', ''**/node_modules/*'', ''**/.tmp/*''],
                   cfg_rules = None, cfg_keys = []\<rparr>"

definition repo_config ::
  "config_object list \<Rightarrow> config_object list \<Rightarrow> config_object list \<Rightarrow> config_object list \<Rightarrow> config_object list
   \<Rightarrow> config_object list" where
  "repo_config eslint_recommended ts_recommended ts_stylistic import_recommended import_typescript =
     defineConfig [eslint_recommended, ts_recommended, ts_stylistic, import_recommended, import_typescript,
                   [repo_block], [repo_ignores]]"

subsection \<open>Examples\<close>

text \<open>
  A shared configuration in the manner of typescript-eslint's override for
  TypeScript files, which turns off \<open>no-undef\<close> (the compiler checks it),
  and the server's configuration with it in place of \<open>configs.recommended\<close>.
\<close>

definition ts_override :: config_object where
  "ts_override =
     \<lparr>cfg_files = Some [''**/*.ts'', ''**/*.tsx'', ''**/*.mts'', ''**/*.cts''], cfg_ignores = [],
      cfg_rules = Some [(''no-undef'', JStr ''off''), (''no-var'', JStr ''error'')], cfg_keys = [''name'']\<rparr>"

definition demo_eslint :: "config_object list" where
  "demo_eslint = repo_config [] [ts_override] [] [] []"

subsection \<open>Rule merging\<close>

text \<open>
  The rules of an object are applied in order; with distinct names, a rule's
  final setting is its own setting merged with what the earlier objects left.
\<close>

lemma apply_rules_other: "r \<notin> fst ` set rs \<Longrightarrow> apply_rules m rs r = m r"
  by (induction m rs rule: apply_rules.induct) (auto split: option.splits)

lemma apply_rules_lookup:
  "distinct (map fst rs) \<Longrightarrow> map_of rs r = Some v \<Longrightarrow> rule_setting v = Some s \<Longrightarrow>
   apply_rules m rs r = Some (merge_rule (m r) s)"
proof (induction m rs rule: apply_rules.induct)
  case (2 m r' v' rs)
  show ?case
  proof (cases "r' = r")
    case True
    then have "r \<notin> fst ` set rs" "v' = v" using "2.prems" by auto
    then show ?thesis using "2.prems"(3) True by (simp add: apply_rules_other)
  next
    case False
    then show ?thesis using 2 by (simp split: option.splits)
  qed
qed simp

lemma repo_block_applies: "config_applies repo_block ss" "\<not> config_applies repo_ignores ss"
  by (simp_all add: config_applies_def repo_block_def repo_ignores_def global_ignores_def)

lemma repo_block_rules: "cfg_rules repo_block = Some repo_rules"
  by (simp add: repo_block_def)

lemma repo_rules_valid: "list_all (\<lambda>(r, v). rule_setting v \<noteq> None) repo_rules"
  by (simp add: repo_rules_def)

lemma repo_rules_distinct: "distinct (map fst repo_rules)"
  by (simp add: repo_rules_def)

lemma rules_for_repo_blocks:
  "rules_for (xs @ [repo_block, repo_ignores]) ss = apply_rules (rules_for xs ss) repo_rules"
  by (simp add: rules_for_def repo_block_applies repo_block_rules)

lemma rules_for_repo_config:
  "rules_for (repo_config e t st ir it) ss = apply_rules (rules_for (e @ t @ st @ ir @ it) ss) repo_rules"
proof -
  have "repo_config e t st ir it = (e @ t @ st @ ir @ it) @ [repo_block, repo_ignores]"
    by (simp add: repo_config_def defineConfig_def)
  then show ?thesis by (simp only: rules_for_repo_blocks)
qed

subsection \<open>Globs\<close>

lemma seg_match_star: "seg_match ''*'' s"
  by (induction s) simp_all

lemma glob_segs_doublestar: "glob_segs ps ss \<Longrightarrow> glob_segs (''**'' # ps) (ds @ ss)"
proof (induction ds)
  case Nil
  then show ?case by (cases ss) simp_all
next
  case (Cons d ds)
  then show ?case by simp
qed

subsection \<open>The example configuration\<close>

lemma demo_eslint_valid: "list_all valid_config demo_eslint"
  using repo_rules_valid
  by (simp add: demo_eslint_def repo_config_def defineConfig_def valid_config_def ts_override_def
                repo_block_def repo_ignores_def)

lemma demo_eslint_lints: "eslint_lints demo_eslint [''src'', ''index.ts'']" "eslint_lints demo_eslint [''dist.ts'']"
  by (simp_all add: eslint_lints_def demo_eslint_def repo_config_def defineConfig_def globally_ignored_def
                    global_ignores_def ignored_by_def glob_match_def ts_override_def repo_block_def
                    repo_ignores_def config_applies_def default_files_def)

text \<open>
  On the example, \<open>no-undef\<close> is an error in a TypeScript file although the
  shared configuration turned it off there: the server's block comes later
  and applies to every file.
\<close>

lemma demo_eslint_no_undef: "rules_for demo_eslint [''src'', ''index.ts''] ''no-undef'' = Some (SevError, [])"
proof -
  have "rules_for [ts_override] [''src'', ''index.ts''] ''no-undef'' = Some (SevOff, [])"
    by (simp add: rules_for_def config_applies_def ts_override_def global_ignores_def glob_match_def merge_rule_def)
  moreover have "map_of repo_rules ''no-undef'' = Some (JNum 2)" by (simp add: repo_rules_def)
  ultimately show ?thesis
    using apply_rules_lookup [OF repo_rules_distinct, of "''no-undef''" "JNum 2" "(SevError, [])"]
    by (simp add: demo_eslint_def rules_for_repo_config merge_rule_def)
qed

subsection \<open>Properties of the configuration\<close>

text \<open>
  C21. Whatever the shared configurations contain, on every file ESLint lints
  with this configuration each rule of the server's block has the block's
  severity, and the block's options when it gives any (a setting with a
  severity alone keeps the options an earlier configuration gave).
\<close>

theorem eslint_repo_rules_win:
  assumes "calculateConfigForFile (repo_config e t st ir it) ss = Inr (Some m)"
    and "map_of repo_rules r = Some v"
  shows "\<exists>sev opts prev. rule_setting v = Some (sev, opts) \<and> m r = Some (sev, if opts = [] then prev else opts)"
proof -
  have m: "m = apply_rules (rules_for (e @ t @ st @ ir @ it) ss) repo_rules"
    using assms(1) by (simp add: calculateConfigForFile_def rules_for_repo_config split: if_splits)
  from assms(2) have "(r, v) \<in> set repo_rules" by (rule map_of_SomeD)
  then obtain sev opts where s: "rule_setting v = Some (sev, opts)"
    using repo_rules_valid by (fastforce simp: list_all_iff)
  have "m r = Some (merge_rule (rules_for (e @ t @ st @ ir @ it) ss r) (sev, opts))"
    unfolding m using apply_rules_lookup [OF repo_rules_distinct assms(2) s] .
  then show ?thesis using s by (auto simp: merge_rule_def split: list.splits)
qed

theorem eslint_repo_rules_win_witness:
  "calculateConfigForFile (repo_config [] [ts_override] [] [] []) [''src'', ''index.ts'']
     = Inr (Some (rules_for demo_eslint [''src'', ''index.ts'']))
   \<and> map_of repo_rules ''no-undef'' = Some (JNum 2)
   \<and> (\<exists>sev opts prev. rule_setting (JNum 2) = Some (sev, opts)
        \<and> rules_for demo_eslint [''src'', ''index.ts''] ''no-undef'' = Some (sev, if opts = [] then prev else opts))"
proof -
  have c: "calculateConfigForFile (repo_config [] [ts_override] [] [] []) [''src'', ''index.ts'']
             = Inr (Some (rules_for demo_eslint [''src'', ''index.ts'']))"
    using demo_eslint_valid demo_eslint_lints(1) by (simp add: calculateConfigForFile_def demo_eslint_def)
  have r: "map_of repo_rules ''no-undef'' = Some (JNum 2)" by (simp add: repo_rules_def)
  show ?thesis using c r eslint_repo_rules_win [OF c r] by (simp add: demo_eslint_def)
qed

text \<open>
  C22. Whatever the shared configurations contain, no file below a
  \<open>dist\<close>, \<open>node_modules\<close> or \<open>.tmp\<close> directory, at any depth, is linted:
  a pattern such as \<open>**/dist/*\<close> matches the entry directly inside
  \<open>dist\<close>, and an ignored directory hides everything below it.
\<close>

theorem eslint_ignores_build_dirs:
  assumes "d \<in> set [''dist'', ''node_modules'', ''.tmp'']"
  shows "\<not> eslint_lints (repo_config e t st ir it) (ds @ d # f # rest)"
proof -
  let ?ss = "ds @ d # f # rest"
  have p: "split_on CHR ''/'' (''**/'' @ d @ ''/*'') = [''**'', d, ''*''] \<and> seg_match d d
           \<and> ''**/'' @ d @ ''/*'' \<in> set (cfg_ignores repo_ignores)"
    using assms by (auto simp: repo_ignores_def)
  have t: "take (Suc (Suc (length ds))) ?ss = ds @ [d, f]" by simp
  have g: "glob_segs [''**'', d, ''*''] (ds @ [d, f])"
    using glob_segs_doublestar [of "[d, ''*'']" "[d, f]" ds] p seg_match_star [of f] by simp
  have "list_ex (\<lambda>pat. glob_match pat (take (Suc (Suc (length ds))) ?ss)) (cfg_ignores repo_ignores)"
    unfolding list_ex_iff glob_match_def t using p g by (intro bexI [where x = "''**/'' @ d @ ''/*''"]) auto
  moreover have "Suc (Suc (length ds)) \<in> set [1..<Suc (length ?ss)]" unfolding set_upt by simp
  ultimately have "ignored_by (cfg_ignores repo_ignores) ?ss"
    unfolding ignored_by_def list_ex_iff by blast
  moreover have "global_ignores repo_ignores" by (simp add: global_ignores_def repo_ignores_def)
  moreover have "repo_ignores \<in> set (repo_config e t st ir it)" by (simp add: repo_config_def defineConfig_def)
  ultimately show ?thesis by (auto simp: eslint_lints_def globally_ignored_def list_ex_iff)
qed


theorem eslint_ignores_build_dirs_witness:
  "''dist'' \<in> set [''dist'', ''node_modules'', ''.tmp'']
   \<and> \<not> eslint_lints (repo_config [] [ts_override] [] [] []) ([''src''] @ ''dist'' # ''index.js'' # [])"
  using eslint_ignores_build_dirs [of "''dist''" "[]" "[ts_override]" "[]" "[]" "[]" "[''src'']" "''index.js''" "[]"]
  by simp

end
