(* ===== verification/IssueWorkflow.thy ===== *)
theory IssueWorkflow
  imports Prelude
begin

text \<open>
  The \<open>Issue Validation\<close> workflow of the planning playbook
  (\<open>src/unnamed/part_001\<close> lines 1--108): its checklist, the three tool-based
  assessments, the report and the readiness rules; and the issue structure
  and its source mapping (lines 127--151).  The answers of the language model
  and the outputs of the tools the playbook names but the repository does not
  implement (\<open>scope_size_estimator\<close>, \<open>dependency_readiness_check\<close>,
  \<open>/clarity-simulation\<close>) are inputs.  The rules of step 7 are kept as the
  text gives them, without an order: the lemmas show that the three rules on
  the checks always select exactly one status, the one of the worst check,
  and that a missing structure adds \<open>INCOMPLETE\<close> beside it.
\<close>

subsection \<open>Check results and readiness\<close>

datatype check = Valid | NeedsRefinement | Blocked

text \<open>Check results ordered by severity.\<close>

fun check_rank :: "check \<Rightarrow> nat" where
  "check_rank Valid = 0"
| "check_rank NeedsRefinement = 1"
| "check_rank Blocked = 2"

instantiation check :: linorder
begin

definition less_eq_check where
  "x \<le> y \<longleftrightarrow> check_rank x \<le> check_rank (y::check)"

definition less_check where
  "x < y \<longleftrightarrow> check_rank x < check_rank (y::check)"

instance
proof
  fix x y :: check
  show "x \<le> y \<or> y \<le> x" by (auto simp: less_eq_check_def)
  show "(x < y) = (x \<le> y \<and> \<not> y \<le> x)" by (auto simp: less_eq_check_def less_check_def)
  show "x \<le> y \<Longrightarrow> y \<le> x \<Longrightarrow> x = y" by (cases x; cases y) (auto simp: less_eq_check_def)
next
  fix x :: check show "x \<le> x" by (simp add: less_eq_check_def)
next
  fix x y z :: check show "x \<le> y \<Longrightarrow> y \<le> z \<Longrightarrow> x \<le> z" by (simp add: less_eq_check_def)
qed

end

datatype readiness = READY | NEEDS_REFINEMENT | BLOCKED | INCOMPLETE

fun readiness_rank :: "readiness \<Rightarrow> nat" where
  "readiness_rank READY = 0"
| "readiness_rank NEEDS_REFINEMENT = 1"
| "readiness_rank BLOCKED = 2"
| "readiness_rank INCOMPLETE = 3"

instantiation readiness :: linorder
begin

definition less_eq_readiness where
  "x \<le> y \<longleftrightarrow> readiness_rank x \<le> readiness_rank (y::readiness)"

definition less_readiness where
  "x < y \<longleftrightarrow> readiness_rank x < readiness_rank (y::readiness)"

instance
proof
  fix x y :: readiness
  show "x \<le> y \<or> y \<le> x" by (auto simp: less_eq_readiness_def)
  show "(x < y) = (x \<le> y \<and> \<not> y \<le> x)" by (auto simp: less_eq_readiness_def less_readiness_def)
  show "x \<le> y \<Longrightarrow> y \<le> x \<Longrightarrow> x = y" by (cases x; cases y) (auto simp: less_eq_readiness_def)
next
  fix x :: readiness show "x \<le> x" by (simp add: less_eq_readiness_def)
next
  fix x y z :: readiness show "x \<le> y \<Longrightarrow> y \<le> z \<Longrightarrow> x \<le> z" by (simp add: less_eq_readiness_def)
qed

end

text \<open>
  The \<open>Issue Validation Report\<close> (lines 53--66).  Dependencies are
  \<open>Valid\<close> or \<open>Blocked\<close>, every other field \<open>Valid\<close> or \<open>Needs Refinement\<close>.
\<close>

record validation_report =
  acceptance_criteria :: check
  metrics :: check
  scope :: check
  dependencies :: check
  implementation_readiness :: check
  clarity :: check

definition report_checks :: "validation_report \<Rightarrow> check list" where
  "report_checks r =
     [acceptance_criteria r, metrics r, scope r, dependencies r, implementation_readiness r, clarity r]"

definition report_le :: "validation_report \<Rightarrow> validation_report \<Rightarrow> bool" where
  "report_le r r' = list_all2 (\<le>) (report_checks r) (report_checks r')"

definition worst_check :: "validation_report \<Rightarrow> check" where
  "worst_check r = fold max (report_checks r) Valid"

fun class_of_check :: "check \<Rightarrow> readiness" where
  "class_of_check Valid = READY"
| "class_of_check NeedsRefinement = NEEDS_REFINEMENT"
| "class_of_check Blocked = BLOCKED"

definition report_wf :: "validation_report \<Rightarrow> bool" where
  "report_wf r =
     (dependencies r \<noteq> NeedsRefinement
      \<and> list_all (\<lambda>c. c \<noteq> Blocked)
          [acceptance_criteria r, metrics r, scope r, implementation_readiness r, clarity r])"

subsection \<open>The Issue Validation workflow\<close>

text \<open>The six questions of the checklist evaluation (step 3), as the model answers them.\<close>

record checklist_answers =
  criteria_testable :: bool
  metrics_defined :: bool
  scope_too_large :: bool
  dependencies_ready :: bool
  implementation_ready :: bool
  understandable :: bool

definition refine_if :: "bool \<Rightarrow> check" where
  "refine_if b = (if b then Valid else NeedsRefinement)"

definition checklist_evaluation :: "checklist_answers \<Rightarrow> validation_report" where
  "checklist_evaluation a =
     \<lparr>acceptance_criteria = refine_if (criteria_testable a),
      metrics = refine_if (metrics_defined a),
      scope = refine_if (\<not> scope_too_large a),
      dependencies = (if dependencies_ready a then Valid else Blocked),
      implementation_readiness = refine_if (implementation_ready a),
      clarity = refine_if (understandable a)\<rparr>"

text \<open>What the tools of steps 4--6 return.\<close>

record tool_outcomes =
  scope_estimate :: nat
  critical_dependency_unavailable :: bool
  ambiguity_detected :: bool

definition scope_assessment :: "nat \<Rightarrow> nat \<Rightarrow> validation_report \<Rightarrow> validation_report" where
  "scope_assessment threshold estimate r =
     (if threshold < estimate then r\<lparr>scope := NeedsRefinement\<rparr> else r)"

definition dependency_status_check :: "bool \<Rightarrow> validation_report \<Rightarrow> validation_report" where
  "dependency_status_check unavailable r = (if unavailable then r\<lparr>dependencies := Blocked\<rparr> else r)"

definition clarity_assessment :: "bool \<Rightarrow> validation_report \<Rightarrow> validation_report" where
  "clarity_assessment ambiguous r = (if ambiguous then r\<lparr>clarity := NeedsRefinement\<rparr> else r)"

text \<open>
  Step 7 lists four rules and no order among them: \<open>readiness_rules\<close> gives
  every status whose rule holds, in the order the playbook lists them.
\<close>

definition readiness_rules :: "validation_report \<Rightarrow> bool \<Rightarrow> readiness list" where
  "readiness_rules r structure_missing =
     [c. (c, holds) \<leftarrow>
         [(READY, list_all (\<lambda>c. c = Valid) (report_checks r)),
          (BLOCKED, Blocked \<in> set (report_checks r)),
          (NEEDS_REFINEMENT, NeedsRefinement \<in> set (report_checks r) \<and> Blocked \<notin> set (report_checks r)),
          (INCOMPLETE, structure_missing)], holds]"

definition check_names :: "string list" where
  "check_names = [''Acceptance Criteria'', ''Metrics'', ''Scope'', ''Dependencies'', ''Implementation Readiness'', ''Clarity'']"

definition required_actions :: "validation_report \<Rightarrow> string list" where
  "required_actions r = map fst (filter (\<lambda>(n, c). c \<noteq> Valid) (zip check_names (report_checks r)))"

definition issue_validation ::
  "nat \<Rightarrow> checklist_answers \<Rightarrow> tool_outcomes \<Rightarrow> bool \<Rightarrow> validation_report \<times> readiness list" where
  "issue_validation threshold a t structure_missing =
     (let r = clarity_assessment (ambiguity_detected t)
                (dependency_status_check (critical_dependency_unavailable t)
                  (scope_assessment threshold (scope_estimate t) (checklist_evaluation a)))
      in (r, readiness_rules r structure_missing))"

subsection \<open>The issue structure\<close>

text \<open>
  The \<open>Issue structure\<close> block (lines 128--142) line by line, and the
  ATX headings of CommonMark: one to six \<open>#\<close>, then a space or the end of
  the line; the heading's text has its surrounding spaces stripped.
\<close>

definition issue_template_lines :: "string list" where
  "issue_template_lines =
     [''# Title'', ''## Problem'', ''### (Short)Description'', [], ''### User Story'', [],
      ''### Acceptance Criteria'', [], ''## Technical '', ''### Considerations'', ''### Dependencies'',
      ''### Out of Scope'', ''### Test Plan'']"

definition strip_spaces :: "string \<Rightarrow> string" where
  "strip_spaces s = rev (dropWhile (\<lambda>c. c = CHR '' '') (rev (dropWhile (\<lambda>c. c = CHR '' '') s)))"

definition parse_heading :: "string \<Rightarrow> (nat \<times> string) option" where
  "parse_heading l =
     (let k = length (takeWhile (\<lambda>c. c = CHR ''#'') l); rest = dropWhile (\<lambda>c. c = CHR ''#'') l in
      if 1 \<le> k \<and> k \<le> 6 \<and> (rest = [] \<or> hd rest = CHR '' '') then Some (k, strip_spaces rest) else None)"

definition headings_of :: "string list \<Rightarrow> (nat \<times> string) list" where
  "headings_of ls = List.map_filter parse_heading ls"

definition issue_sections :: "(nat \<times> string) list" where
  "issue_sections =
     [(1, ''Title''), (2, ''Problem''), (3, ''(Short)Description''), (3, ''User Story''),
      (3, ''Acceptance Criteria''), (2, ''Technical''), (3, ''Considerations''), (3, ''Dependencies''),
      (3, ''Out of Scope''), (3, ''Test Plan'')]"

definition structure_missing :: "string list \<Rightarrow> bool" where
  "structure_missing ls = list_ex (\<lambda>sec. sec \<notin> set (headings_of ls)) issue_sections"

text \<open>The \<open>Source mapping\<close> table (lines 144--151): section, source, \<open>Allow TBD\<close>.\<close>

definition source_mapping :: "(string \<times> string \<times> bool) list" where
  "source_mapping =
     [(''Problem'', ''Product Context'', False), (''User Story'', ''Product Context Tool'', True),
      (''Acceptance Criteria'', ''Product Context Tool'', True), (''Technical Notes'', ''Best Practices tool'', False),
      (''Test Plan'', ''Best Practices Prompt'', True)]"

definition tbd_violations :: "(string \<Rightarrow> string list) \<Rightarrow> string list" where
  "tbd_violations content = [sec. (sec, src, allow) \<leftarrow> source_mapping, \<not> allow \<and> content sec = [''TBD'']]"

subsection \<open>Examples\<close>

text \<open>Checklist answers and tool outputs: everything in order, and the same with a dependency not ready.\<close>

definition good_answers :: checklist_answers where
  "good_answers =
     \<lparr>criteria_testable = True, metrics_defined = True, scope_too_large = False,
      dependencies_ready = True, implementation_ready = True, understandable = True\<rparr>"

definition blocked_answers :: checklist_answers where
  "blocked_answers = good_answers\<lparr>dependencies_ready := False\<rparr>"

definition quiet_tools :: tool_outcomes where
  "quiet_tools = \<lparr>scope_estimate = 3, critical_dependency_unavailable = False, ambiguity_detected = False\<rparr>"

subsection \<open>Properties of the validation\<close>

lemma check_cases_le: "Valid \<le> c" "c \<le> Blocked"
  by (cases c; simp add: less_eq_check_def)+

lemma worst_check_eq:
  "worst_check r = max (acceptance_criteria r) (max (metrics r) (max (scope r) (max (dependencies r)
                     (max (implementation_readiness r) (clarity r)))))"
  by (simp add: worst_check_def report_checks_def max.commute max.left_commute check_cases_le max_absorb2)

lemma worst_check_mono:
  assumes "report_le r r'"
  shows "worst_check r \<le> worst_check r'"
proof -
  have "acceptance_criteria r \<le> acceptance_criteria r'" "metrics r \<le> metrics r'" "scope r \<le> scope r'"
    "dependencies r \<le> dependencies r'" "implementation_readiness r \<le> implementation_readiness r'"
    "clarity r \<le> clarity r'"
    using assms by (simp_all add: report_le_def report_checks_def)
  then show ?thesis unfolding worst_check_eq by (intro max.mono)
qed

lemma class_of_check_mono: "c \<le> c' \<Longrightarrow> class_of_check c \<le> class_of_check c'"
  by (cases c; cases c') (simp_all add: less_eq_check_def less_eq_readiness_def)

lemma report_wf_steps:
  "report_wf (checklist_evaluation a)"
  "report_wf r \<Longrightarrow> report_wf (scope_assessment th e r)"
  "report_wf r \<Longrightarrow> report_wf (dependency_status_check u r)"
  "report_wf r \<Longrightarrow> report_wf (clarity_assessment b r)"
  by (simp_all add: report_wf_def checklist_evaluation_def refine_if_def scope_assessment_def
                    dependency_status_check_def clarity_assessment_def)

lemma issue_validation_wf: "report_wf (fst (issue_validation th a t m))"
  by (simp add: issue_validation_def Let_def report_wf_steps)

text \<open>The three rules on the checks, by the worst check.\<close>

lemma check_rules_worst:
  "[c. (c, holds) \<leftarrow>
      [(READY, list_all (\<lambda>c. c = Valid) (report_checks r)),
       (BLOCKED, Blocked \<in> set (report_checks r)),
       (NEEDS_REFINEMENT, NeedsRefinement \<in> set (report_checks r) \<and> Blocked \<notin> set (report_checks r))], holds]
   = [class_of_check (worst_check r)]"
  by (cases "acceptance_criteria r"; cases "metrics r"; cases "scope r"; cases "dependencies r";
      cases "implementation_readiness r"; cases "clarity r")
     (simp_all add: report_checks_def worst_check_eq max_def less_eq_check_def)

lemma readiness_rules_split:
  "readiness_rules r m = class_of_check (worst_check r) # (if m then [INCOMPLETE] else [])"
  using check_rules_worst [of r] by (simp add: readiness_rules_def)

lemma class_of_check_not_incomplete: "class_of_check c \<noteq> INCOMPLETE"
  by (cases c) simp_all

text \<open>
  C25. The readiness rules of step 7 on the checks are exhaustive and
  exclusive: for every report exactly one of \<open>READY\<close>, \<open>BLOCKED\<close> and
  \<open>NEEDS_REFINEMENT\<close> applies, the status of the worst check; the rule
  \<open>INCOMPLETE\<close> applies exactly when major structural elements are missing,
  and then together with that status, so the text leaves the final status of
  an incomplete issue undetermined.
\<close>

theorem readiness_rules_decide:
  "filter (\<lambda>c. c \<noteq> INCOMPLETE) (readiness_rules r m) = [class_of_check (worst_check r)]
   \<and> (INCOMPLETE \<in> set (readiness_rules r m) \<longleftrightarrow> m)
   \<and> length (readiness_rules r m) = (if m then 2 else 1)"
  by (simp add: readiness_rules_split class_of_check_not_incomplete class_of_check_not_incomplete [THEN not_sym])

text \<open>
  A report whose every check is at least as severe as another's never gets a
  better status from the rules on the checks.
\<close>

lemma readiness_rules_monotone:
  assumes "report_le r r'"
    and "c \<in> set (readiness_rules r m)" "c \<noteq> INCOMPLETE"
    and "c' \<in> set (readiness_rules r' m')" "c' \<noteq> INCOMPLETE"
  shows "c \<le> c'"
  using assms class_of_check_mono [OF worst_check_mono [OF assms(1)]]
  by (auto simp: readiness_rules_split split: if_splits)

text \<open>An issue is \<open>READY\<close> exactly when the report requires no action.\<close>

lemma ready_iff_no_actions: "READY \<in> set (readiness_rules r m) \<longleftrightarrow> required_actions r = []"
  by (cases "acceptance_criteria r"; cases "metrics r"; cases "scope r"; cases "dependencies r";
      cases "implementation_readiness r"; cases "clarity r")
     (simp_all add: readiness_rules_def required_actions_def report_checks_def check_names_def)

lemma issue_validation_report:
  "fst (issue_validation th a t m) =
     \<lparr>acceptance_criteria = refine_if (criteria_testable a),
      metrics = refine_if (metrics_defined a),
      scope = (if th < scope_estimate t then NeedsRefinement else refine_if (\<not> scope_too_large a)),
      dependencies = (if dependencies_ready a \<and> \<not> critical_dependency_unavailable t then Valid else Blocked),
      implementation_readiness = refine_if (implementation_ready a),
      clarity = (if ambiguity_detected t then NeedsRefinement else refine_if (understandable a))\<rparr>"
  by (simp add: issue_validation_def Let_def checklist_evaluation_def scope_assessment_def
                dependency_status_check_def clarity_assessment_def)



subsection \<open>Properties of the issue structure\<close>

lemma headings_of_template: "headings_of issue_template_lines = issue_sections"
  by (simp add: headings_of_def map_filter_def issue_template_lines_def issue_sections_def parse_heading_def
                strip_spaces_def)

lemma template_complete: "\<not> structure_missing issue_template_lines"
  by (simp add: structure_missing_def headings_of_template list_ex_iff)

text \<open>
  The source mapping names a section the issue structure does not have
  (\<open>Technical Notes\<close>), and maps neither the title nor the description,
  considerations, dependencies and out-of-scope sections.
\<close>

lemma source_mapping_sections:
  "[sec. (sec, src, allow) \<leftarrow> source_mapping, sec \<notin> snd ` set issue_sections] = [''Technical Notes'']"
  "[sec. (k, sec) \<leftarrow> issue_sections, sec \<notin> fst ` set source_mapping]
     = [''Title'', ''(Short)Description'', ''Technical'', ''Considerations'', ''Dependencies'', ''Out of Scope'']"
  by (simp_all add: source_mapping_def issue_sections_def)

end
