(* ===== verification/Shell.thy ===== *)
theory Shell
  imports JsString
begin

text \<open>
  The shell commands of the READMEs: the quick start of the n8n setup
  (\<open>src/unnamed/part_004\<close> lines 8--22 and 48--50, repeated in
  \<open>src/unnamed/part_003\<close> lines 277--291 and 317--319) and the \<open>curl\<close>
  example of the server's README (\<open>src/boilerplates/mcp/eslint.config.ts\<close>
  lines 92--105).  A simple command is executed as POSIX prescribes
  (Shell Command Language, 2.9.1): its words are expanded in the shell's
  environment; then the shell performs the redirections, with its own user;
  then the variable assignments before the command are expanded and passed to
  the program's environment only; then the program runs.  Files carry an owner
  and whether others may write them, and the super-user and the owner may
  always write, as in the Unix model of the distribution.  \<open>sudo\<close> runs the
  rest of its arguments as the super-user; \<open>echo\<close>, \<open>tee -a\<close> and \<open>cp\<close> act
  on the files; any other program (\<open>curl\<close>, \<open>docker\<close>) is recorded with its
  arguments and environment.
\<close>

subsection \<open>Commands\<close>

text \<open>A part of a word: literal text, \<open>$V\<close>, or \<open>${V:-default}\<close>; quotes are already removed.\<close>

datatype word_part = Lit string | Param string | ParamDefault string string

type_synonym word = "word_part list"

datatype redirection = AppendTo word | WriteTo word

record simple_command =
  sc_assigns :: "(string \<times> word) list"
  sc_words :: "word list"
  sc_redirs :: "redirection list"

datatype command = Simple simple_command | Pipeline simple_command simple_command

subsection \<open>The state of a shell\<close>

record disk_file =
  df_content :: string
  df_owner :: nat
  df_others_write :: bool

type_synonym shell_env = "string \<rightharpoonup> string"

record shell =
  sh_env :: shell_env
  sh_uid :: nat
  sh_files :: "string \<rightharpoonup> disk_file"
  sh_terminal :: string
  sh_runs :: "(shell_env \<times> string list) list"

datatype shell_error = PermissionDenied string | NoSuchFile string | CommandFailed string

definition may_write :: "nat \<Rightarrow> disk_file \<Rightarrow> bool" where
  "may_write uid f = (uid = 0 \<or> uid = df_owner f \<or> df_others_write f)"

subsection \<open>Expansion\<close>

fun expand_part :: "shell_env \<Rightarrow> word_part \<Rightarrow> string" where
  "expand_part e (Lit s) = s"
| "expand_part e (Param v) = (case e v of Some x \<Rightarrow> x | None \<Rightarrow> [])"
| "expand_part e (ParamDefault v d) = (case e v of Some x \<Rightarrow> if x = [] then d else x | None \<Rightarrow> d)"

definition expand_word :: "shell_env \<Rightarrow> word \<Rightarrow> string" where
  "expand_word e w = concat (map (expand_part e) w)"

subsection \<open>Files and programs\<close>

text \<open>Opening a file for writing: an existing file needs write permission; a new one belongs to the user.\<close>

definition open_write :: "nat \<Rightarrow> string \<Rightarrow> bool \<Rightarrow> (string \<rightharpoonup> disk_file) \<Rightarrow> shell_error + (string \<rightharpoonup> disk_file)" where
  "open_write uid p app fs =
     (case fs p of
        Some f \<Rightarrow> if may_write uid f then Inr (if app then fs else fs(p \<mapsto> f\<lparr>df_content := []\<rparr>))
                  else Inl (PermissionDenied p)
      | None \<Rightarrow> Inr (fs(p \<mapsto> \<lparr>df_content = [], df_owner = uid, df_others_write = False\<rparr>)))"

definition append_file :: "string \<Rightarrow> string \<Rightarrow> (string \<rightharpoonup> disk_file) \<Rightarrow> (string \<rightharpoonup> disk_file)" where
  "append_file p s fs = (case fs p of Some f \<Rightarrow> fs(p \<mapsto> f\<lparr>df_content := df_content f @ s\<rparr>) | None \<Rightarrow> fs)"

text \<open>A program run by a user with an environment, arguments and input: its output and the new state.\<close>

fun run_program :: "nat \<Rightarrow> shell_env \<Rightarrow> string list \<Rightarrow> string \<Rightarrow> shell \<Rightarrow> shell_error + string \<times> shell" where
  "run_program uid e [] inp sh = Inr ([], sh)"
| "run_program uid e (prog # args) inp sh =
     (if prog = ''sudo'' then run_program 0 e args inp sh
      else if prog = ''echo'' then Inr (join_with '' '' args @ ''\<newline>'', sh)
      else if prog = ''tee'' \<and> length args = 2 \<and> args ! 0 = ''-a'' then
        (case open_write uid (args ! 1) True (sh_files sh) of
           Inl err \<Rightarrow> Inl err
         | Inr fs \<Rightarrow> Inr (inp, sh\<lparr>sh_files := append_file (args ! 1) inp fs\<rparr>))
      else if prog = ''cp'' \<and> length args = 2 then
        (case sh_files sh (args ! 0) of
           None \<Rightarrow> Inl (NoSuchFile (args ! 0))
         | Some src \<Rightarrow>
             (case open_write uid (args ! 1) False (sh_files sh) of
                Inl err \<Rightarrow> Inl err
              | Inr fs \<Rightarrow> Inr ([], sh\<lparr>sh_files := append_file (args ! 1) (df_content src) fs\<rparr>)))
      else Inr ([], sh\<lparr>sh_runs := sh_runs sh @ [(e, prog # args)]\<rparr>))"

subsection \<open>Executing commands\<close>

text \<open>
  The redirections, in order; the program's output goes to the last one, or
  else to the next command of the pipeline or to the terminal.
\<close>

fun perform_redirs :: "nat \<Rightarrow> (bool \<times> string) list \<Rightarrow> (string \<rightharpoonup> disk_file) \<Rightarrow> shell_error + (string \<rightharpoonup> disk_file)" where
  "perform_redirs uid [] fs = Inr fs"
| "perform_redirs uid ((app, p) # rs) fs =
     (case open_write uid p app fs of Inl err \<Rightarrow> Inl err | Inr fs' \<Rightarrow> perform_redirs uid rs fs')"

definition redir_target :: "shell_env \<Rightarrow> redirection \<Rightarrow> bool \<times> string" where
  "redir_target e r = (case r of AppendTo w \<Rightarrow> (True, expand_word e w) | WriteTo w \<Rightarrow> (False, expand_word e w))"

definition run_simple :: "simple_command \<Rightarrow> string \<Rightarrow> shell \<Rightarrow> shell_error + string \<times> shell" where
  "run_simple c inp sh =
     (let e = sh_env sh;
          argv = map (expand_word e) (sc_words c);
          targets = map (redir_target e) (sc_redirs c)
      in case perform_redirs (sh_uid sh) targets (sh_files sh) of
           Inl err \<Rightarrow> Inl err
         | Inr fs \<Rightarrow>
             (let child = fold (\<lambda>(v, w) m. m(v \<mapsto> expand_word e w)) (sc_assigns c) e in
              case run_program (sh_uid sh) child argv inp (sh\<lparr>sh_files := fs\<rparr>) of
                Inl err \<Rightarrow> Inl err
              | Inr (out, sh') \<Rightarrow>
                  if targets = [] then Inr (out, sh')
                  else Inr ([], sh'\<lparr>sh_files := append_file (snd (last targets)) out (sh_files sh')\<rparr>)))"

fun run_command :: "command \<Rightarrow> shell \<Rightarrow> shell_error + shell" where
  "run_command (Simple c) sh =
     (case run_simple c [] sh of
        Inl err \<Rightarrow> Inl err
      | Inr (out, sh') \<Rightarrow> Inr (sh'\<lparr>sh_terminal := sh_terminal sh' @ out\<rparr>))"
| "run_command (Pipeline c1 c2) sh =
     (case run_simple c1 [] sh of
        Inl err \<Rightarrow> Inl err
      | Inr (out1, sh1) \<Rightarrow>
          (case run_simple c2 out1 sh1 of
             Inl err \<Rightarrow> Inl err
           | Inr (out2, sh2) \<Rightarrow> Inr (sh2\<lparr>sh_terminal := sh_terminal sh2 @ out2\<rparr>)))"

subsection \<open>The commands of the READMEs\<close>

definition cmd :: "string list \<Rightarrow> simple_command" where
  "cmd ws = \<lparr>sc_assigns = [], sc_words = map (\<lambda>w. [Lit w]) ws, sc_redirs = []\<rparr>"

text \<open>\<open>cp .env.example .env\<close>.\<close>

definition copy_env_example :: command where
  "copy_env_example = Simple (cmd [''cp'', ''.env.example'', ''.env''])"

text \<open>\<open>sudo echo "127.0.0.1 n8n.example.com" >> /etc/hosts\<close>.\<close>

definition add_hosts_entry :: command where
  "add_hosts_entry =
     Simple ((cmd [''sudo'', ''echo'', ''127.0.0.1 n8n.example.com''])\<lparr>sc_redirs := [AppendTo [Lit ''/etc/hosts'']]\<rparr>)"

definition compose_up :: command where
  "compose_up = Simple (cmd [''docker'', ''compose'', ''up'', ''-d''])"

definition compose_down :: command where
  "compose_down = Simple (cmd [''docker'', ''compose'', ''down''])"

definition readme_request_body :: string where
  "readme_request_body =
     ''{\<newline>    \"jsonrpc\": \"2.0\",\<newline>    \"id\": 3,\<newline>    \"method\": \"tools/call\",\<newline>''
     @ ''    \"params\": {\<newline>      \"name\": \"get_boilerplate_structure\",\<newline>''
     @ ''      \"arguments\": {\<newline>        \"platform\": \"backend\"\<newline>      }\<newline>    }\<newline>  }''"

text \<open>\<open>PORT=3030 curl -X POST http://localhost:${PORT:-3000}/mcp -H ... -H ... -d '...'\<close>.\<close>

definition readme_curl :: command where
  "readme_curl =
     Simple \<lparr>sc_assigns = [(''PORT'', [Lit ''3030''])],
             sc_words = [[Lit ''curl''], [Lit ''-X''], [Lit ''POST''],
                         [Lit ''http://localhost:'', ParamDefault ''PORT'' ''3000'', Lit ''/mcp''],
                         [Lit ''-H''], [Lit ''Content-Type: application/json''],
                         [Lit ''-H''], [Lit ''Accept: application/json, text/event-stream''],
                         [Lit ''-d''], [Lit readme_request_body]],
             sc_redirs = []\<rparr>"

text \<open>The service check of the n8n README (\<open>src/unnamed/part_003\<close> lines 326--349).\<close>

definition service_check_body :: string where
  "service_check_body =
     ''{\<newline>      \"method\": \"initialize\",\<newline>      \"params\": {\<newline>''
     @ ''        \"protocolVersion\": \"2025-06-18\",\<newline>''
     @ ''        \"capabilities\": {\<newline>          \"extensions\": {\<newline>''
     @ ''            \"io.modelcontextprotocol/ui\": {\<newline>''
     @ ''              \"mimeTypes\": [\"text/html;profile=mcp-app\"]\<newline>''
     @ ''            }\<newline>          }\<newline>        },\<newline>''
     @ ''        \"clientInfo\": {\<newline>          \"name\": \"claude-ai\",\<newline>''
     @ ''          \"version\": \"0.1.0\"\<newline>        }\<newline>      },\<newline>''
     @ ''      \"jsonrpc\": \"2.0\",\<newline>      \"id\": 0\<newline>   }''"

definition service_check_curl :: command where
  "service_check_curl =
     Simple \<lparr>sc_assigns = [],
             sc_words = [[Lit ''curl''], [Lit ''-i''],
                         [Lit ''-H''], [Lit ''Authorization: Bearer '', Param ''N8N_MCP_AUTH_TOKEN''],
                         [Lit ''-H''], [Lit ''Content-Type: application/json''],
                         [Lit ''-H''], [Lit ''Accept: application/json, text/event-stream''],
                         [Lit ''-d''], [Lit service_check_body], [Lit ''http://localhost:3000/mcp'']],
             sc_redirs = []\<rparr>"

text \<open>Running the workflow through its webhook (lines 355--362).\<close>

definition workflow_body :: string where
  "workflow_body =
     ''{\<newline>    \"platform\": \"backend\",\<newline>    \"type\": \"feature\",\<newline>''
     @ ''    \"title\": \"Add password reset functionality\",\<newline>''
     @ ''    \"description\": \"Implement a complete password reset flow with email verification. Users should be able to request a password reset link via email, click the link to verify their identity, and set a new password. The reset link should expire after 1 hour.\"\<newline>''
     @ ''  }''"

definition run_workflow_curl :: command where
  "run_workflow_curl =
     Simple (cmd [''curl'', ''-X'', ''POST'', ''https://dev.bifemecanico.com/webhook-test/best-practices'',
                  ''-H'', ''Content-Type: application/json'', ''-d'', workflow_body])"

subsection \<open>Examples\<close>

text \<open>
  The usual way to append as the super-user, with \<open>tee\<close> opening the file,
  and a machine where \<open>/etc/hosts\<close> belongs to root and the shell's user is
  not root.
\<close>

definition hosts_via_tee :: command where
  "hosts_via_tee =
     Pipeline (cmd [''echo'', ''127.0.0.1 n8n.example.com'']) (cmd [''sudo'', ''tee'', ''-a'', ''/etc/hosts''])"

definition demo_hosts :: disk_file where
  "demo_hosts = \<lparr>df_content = ''127.0.0.1 localhost\<newline>'', df_owner = 0, df_others_write = False\<rparr>"

definition demo_shell :: shell where
  "demo_shell =
     \<lparr>sh_env = Map.empty, sh_uid = 1000, sh_files = [''/etc/hosts'' \<mapsto> demo_hosts],
      sh_terminal = [], sh_runs = []\<rparr>"

subsection \<open>Properties of the commands\<close>

lemma run_simple_cmd:
  "run_simple (cmd ws) inp sh = run_program (sh_uid sh) (sh_env sh) ws inp sh"
  by (simp add: run_simple_def cmd_def Let_def expand_word_def comp_def split: sum.split)

text \<open>
  C23. The quick start's \<open>sudo echo "127.0.0.1 n8n.example.com" >> /etc/hosts\<close>
  fails for every user but root when \<open>/etc/hosts\<close> belongs to root and is
  not writable by others: the redirection is performed by the user's shell
  before \<open>sudo\<close> runs, so the file is opened without privileges and the
  command is not run.
\<close>

theorem add_hosts_entry_denied:
  assumes "sh_uid sh \<noteq> 0" and "sh_files sh ''/etc/hosts'' = Some f"
    and "df_owner f = 0" and "\<not> df_others_write f"
  shows "run_command add_hosts_entry sh = Inl (PermissionDenied ''/etc/hosts'')"
  using assms
  by (simp add: add_hosts_entry_def cmd_def run_simple_def Let_def redir_target_def expand_word_def
                open_write_def may_write_def)

theorem add_hosts_entry_denied_witness:
  "sh_uid demo_shell \<noteq> 0 \<and> sh_files demo_shell ''/etc/hosts'' = Some demo_hosts
   \<and> df_owner demo_hosts = 0 \<and> \<not> df_others_write demo_hosts
   \<and> run_command add_hosts_entry demo_shell = Inl (PermissionDenied ''/etc/hosts'')"
proof -
  have h: "sh_uid demo_shell \<noteq> 0" "sh_files demo_shell ''/etc/hosts'' = Some demo_hosts"
    "df_owner demo_hosts = 0" "\<not> df_others_write demo_hosts"
    by (simp_all add: demo_shell_def demo_hosts_def)
  show ?thesis using h add_hosts_entry_denied [OF h] by simp
qed

text \<open>With \<open>tee\<close> opening the file as root, the entry is appended.\<close>

lemma hosts_via_tee_appends:
  assumes "sh_files sh ''/etc/hosts'' = Some f"
  shows "run_command hosts_via_tee sh =
           Inr (sh\<lparr>sh_files := (sh_files sh)(''/etc/hosts'' \<mapsto> f\<lparr>df_content := df_content f @ ''127.0.0.1 n8n.example.com\<newline>''\<rparr>),
                  sh_terminal := sh_terminal sh @ ''127.0.0.1 n8n.example.com\<newline>''\<rparr>)"
  using assms
  by (simp add: hosts_via_tee_def run_simple_cmd open_write_def may_write_def append_file_def)

text \<open>
  C24. The README's \<open>PORT=3030 curl ... http://localhost:${PORT:-3000}/mcp\<close>
  expands the URL in the caller's environment, before the assignment: curl
  receives \<open>PORT=3030\<close> in its own environment, but the URL names the
  caller's \<open>PORT\<close>, or 3000 when it is unset or empty, never the 3030 the
  command line suggests.
\<close>

theorem readme_curl_port:
  "run_command readme_curl sh =
     Inr (sh\<lparr>sh_runs := sh_runs sh @
            [((sh_env sh)(''PORT'' \<mapsto> ''3030''),
              [''curl'', ''-X'', ''POST'',
               ''http://localhost:'' @ (case sh_env sh ''PORT'' of None \<Rightarrow> ''3000'' | Some p \<Rightarrow> if p = [] then ''3000'' else p) @ ''/mcp'',
               ''-H'', ''Content-Type: application/json'', ''-H'', ''Accept: application/json, text/event-stream'',
               ''-d'', readme_request_body])]\<rparr>)"
  by (simp add: readme_curl_def run_simple_def Let_def expand_word_def split: option.splits)

text \<open>With \<open>PORT\<close> unset, the request goes to port 3000.\<close>

lemma readme_curl_unset_port:
  "sh_env sh ''PORT'' = None \<Longrightarrow>
   map snd (sh_runs (projr (run_command readme_curl sh))) ! length (sh_runs sh) ! 3 = ''http://localhost:3000/mcp''"
  by (simp add: readme_curl_port nth_append)

lemma copy_env_example_creates:
  "sh_files sh ''.env.example'' = Some src \<Longrightarrow> sh_files sh ''.env'' = None \<Longrightarrow>
   \<exists>sh'. run_command copy_env_example sh = Inr sh'
         \<and> sh_files sh' ''.env'' = Some \<lparr>df_content = df_content src, df_owner = sh_uid sh, df_others_write = False\<rparr>"
  by (simp add: copy_env_example_def run_simple_cmd open_write_def append_file_def)

text \<open>
  The service check does not insist on its token: with
  \<open>N8N_MCP_AUTH_TOKEN\<close> unset, curl sends the header
  \<open>Authorization: Bearer\<close> with an empty credential.
\<close>

lemma service_check_unset_token:
  "sh_env sh ''N8N_MCP_AUTH_TOKEN'' = None \<Longrightarrow>
   run_command service_check_curl sh =
     Inr (sh\<lparr>sh_runs := sh_runs sh @
            [(sh_env sh, [''curl'', ''-i'', ''-H'', ''Authorization: Bearer '', ''-H'', ''Content-Type: application/json'',
                          ''-H'', ''Accept: application/json, text/event-stream'', ''-d'', service_check_body,
                          ''http://localhost:3000/mcp''])]\<rparr>)"
  by (simp add: service_check_curl_def run_simple_def Let_def expand_word_def)

end
