(* ===== verification/McpCatalogue.thy ===== *)
theory McpCatalogue
  imports McpServer
begin

text \<open>
  The catalogue of the context servers the team plans (\<open>src/unnamed/part_000\<close>)
  and the servers the planning playbooks call on (\<open>src/unnamed/part_001\<close>
  lines 38--52 and 153--162), as data, set against the tools the boilerplate
  context server registers (\<open>getMcpServer\<close>).  A tool is its name and the
  names of its parameters.
\<close>

datatype access_kind = ReadHeavy | WriteHeavy

datatype risk_level = RiskLow | RiskHigh

record mcp_entry =
  mcp_title :: string
  mcp_context :: string
  mcp_kind :: access_kind
  mcp_risk :: risk_level
  mcp_quality :: string
  mcp_resources :: "string list"
  mcp_tools :: "(string \<times> string list) list"
  mcp_prompts :: "string list"

definition best_practices_mcp :: mcp_entry where
  "best_practices_mcp =
     \<lparr>mcp_title = ''Best Practices'', mcp_context = ''Technical Knowledge'', mcp_kind = ReadHeavy,
      mcp_risk = RiskLow, mcp_quality = ''High'',
      mcp_resources = [''coding_standards.md'', ''architecture_overview.md'', ''repo_structure.json'',
                       ''template.react_component.tsx'', ''template.service.ts'', ''testing_guidelines.md'',
                       ''security_guidelines.md'', ''eslint_ruleset''],
      mcp_tools = [(''search_codebase'', [''query'']), (''summarize_module'', [''path'']),
                   (''check_pattern_compliance'', [''code_snippet'']), (''suggest_refactor'', [''diff'']),
                   (''generate_from_template'', [''template_name'', ''inputs''])],
      mcp_prompts = [''/new-feature-skeleton'', ''/refactor-plan'', ''/code-review-checklist'', ''/test-plan'']\<rparr>"

definition product_context_mcp :: mcp_entry where
  "product_context_mcp =
     \<lparr>mcp_title = ''Product Context'', mcp_context = ''Business/Domain Knowledge'', mcp_kind = ReadHeavy,
      mcp_risk = RiskLow, mcp_quality = ''Semi-curated'',
      mcp_resources = [''product_vision.md'', ''roadmap_2026.json'', ''feature_definitions/*'', ''design_tokens.json'',
                       ''figma_component_map.json'', ''glossary.md'', ''customer_personas.json'', ''analytics_metrics.md''],
      mcp_tools = [(''summarize_feature'', [''feature_id'']), (''generate_user_story'', [''raw_notes'']),
                   (''derive_acceptance_criteria'', [''feature_id'']), (''check_roadmap_alignment'', [''feature_id'']),
                   (''map_feature_to_ui'', [''feature_id''])],
      mcp_prompts = [''/draft-prd'', ''/refine-requirement'', ''/impact-analysis'', ''/feature-brief'']\<rparr>"

definition orchestration_mcp :: mcp_entry where
  "orchestration_mcp =
     \<lparr>mcp_title = ''Orchestration'', mcp_context = ''Side-effects executions'', mcp_kind = WriteHeavy,
      mcp_risk = RiskHigh, mcp_quality = ''N/A'',
      mcp_resources = [''connected_accounts.json'', ''available_workflows.json'', ''service_capabilities.json''],
      mcp_tools = [(''github.create_issue'', [''data'']), (''github.update_issue'', [''issue_id'', ''updates'']),
                   (''github.create_branch'', [''name'']), (''github.commit_file'', [''path'', ''content'']),
                   (''github.open_pr'', [''data'']), (''notion.create_page'', [''database_id'', ''content'']),
                   (''notion.update_page'', [''page_id'', ''content'']), (''notion.query_database'', [''query'']),
                   (''gdrive.create_doc'', [''title'', ''content'']), (''gdrive.update_doc'', [''doc_id'', ''content'']),
                   (''figma.get_file_metadata'', [''file_id'']), (''figma.comment_on_node'', [''node_id'', ''comment'']),
                   (''create_refinement_packet'', [''feature_id'']), (''publish_plan_md'', [''issue_id'', ''content'']),
                   (''schedule_meeting'', [''title'', ''attendees''])],
      mcp_prompts = [''/create-github-issue'', ''/publish-prd-to-notion'', ''/generate-plan-and-open-pr'',
                     ''/run-refinement-session'']\<rparr>"

definition mcp_catalogue :: "mcp_entry list" where
  "mcp_catalogue = [best_practices_mcp, product_context_mcp, orchestration_mcp]"

text \<open>The Best Practices server the Issue Validation playbook calls on (part_001 lines 38--52).\<close>

definition validation_best_practices :: "string list \<times> string list \<times> string list" where
  "validation_best_practices =
     ([''validate_acceptance_criteria'', ''scope_size_estimator'', ''dependency_readiness_check'', ''readability_assessment''],
      [''issue_template.md'', ''testing_guidelines.md'', ''architecture_overview.md''],
      [''/issue-readiness-check'', ''/clarity-simulation''])"

text \<open>The two context lists of the planning playbook (lines 153--162), both headed \<open>Product Context MCP\<close>.\<close>

definition planning_contexts :: "(string \<times> string list) list" where
  "planning_contexts =
     [(''Product Context MCP'', [''product_vision.md'', ''Relevant roadmap_2026'', ''Related feature_definitions'']),
      (''Product Context MCP'', [''issue_template.md'', ''architecture_overview.md'', ''coding_standards.md''])]"

text \<open>The tools \<open>getMcpServer\<close> registers, in order.\<close>

definition implemented_tools :: "string list" where
  "implemented_tools = [''get_boilerplate_structure'', ''search_best_practices'', ''get_all_contexts'']"

subsection \<open>The catalogue against the server\<close>

text \<open>The server dispatches exactly the tools it registers; any other name is unknown.\<close>

lemma handle_unknown_tool_iff:
  "snd (handle cfg w (CallTool n args)) = UnknownTool n \<longleftrightarrow> n \<notin> set implemented_tools"
  by (auto simp: implemented_tools_def tool_response_def split: option.splits sum.splits)

text \<open>
  None of the tools the catalogue's Best Practices server or the validation
  playbook's Best Practices server offers is a tool of the boilerplate context
  server: a call to any of them is answered as an unknown tool.
\<close>

lemma playbook_tools_unknown:
  "list_all (\<lambda>n. snd (handle cfg w (CallTool n args)) = UnknownTool n)
     (map fst (mcp_tools best_practices_mcp) @ fst validation_best_practices)"
  by (simp add: handle_unknown_tool_iff best_practices_mcp_def validation_best_practices_def implemented_tools_def)

text \<open>
  The second list of the planning playbook is headed \<open>Product Context MCP\<close>
  but names resources of the catalogue's Best Practices server, and an issue
  template no server of the catalogue offers.
\<close>

lemma planning_second_context:
  "filter (\<lambda>r. r \<in> set (mcp_resources best_practices_mcp)) (snd (planning_contexts ! 1))
     = [''architecture_overview.md'', ''coding_standards.md'']"
  "list_all (\<lambda>e. ''issue_template.md'' \<notin> set (mcp_resources e)) mcp_catalogue"
  "fst (planning_contexts ! 0) = fst (planning_contexts ! 1)"
  by (simp_all add: planning_contexts_def best_practices_mcp_def mcp_catalogue_def product_context_mcp_def
                    orchestration_mcp_def)

end
