(* ===== verification/Spec2Isabelle.thy ===== *)
theory Spec2Isabelle
  imports App RepoConcurrency GuideExpress GuideMobile EslintConfig IssueWorkflow Shell McpCatalogue
begin

text \<open>
  \<^bold>\<open>A verification development of the boilerplate context server.\<close>

  The program is a small HTTP server (\<open>src/boilerplates/mcp\<close>; its sources
  are staged in \<open>src/unnamed/part_005\<close> for \<open>utils/repository.ts\<close>,
  \<open>schemas.ts\<close> and \<open>app.ts\<close>, and in \<open>src/boilerplates/mcp/eslint.config.ts\<close>
  lines 106--249 for \<open>mcpServer.ts\<close>).  At start-up (\<open>index.ts\<close>) it checks
  its configuration (\<open>config.ts\<close>), clones or pulls a repository of
  boilerplates (\<open>ensureRepo\<close>) and listens.  Each \<open>POST /mcp\<close> is a JSON-RPC
  call to the MCP server: reading a platform's guideline file \<open>AGENTS.md\<close> as a
  resource (which refreshes the clone first), or one of three tools: the file
  listing of the platform's boilerplate, a line search in its guidelines, and
  all guidelines at once.  The guideline documents themselves
  (\<open>part_002\<close>, \<open>part_003\<close>) contain TypeScript samples, also modelled.
  The team's playbooks (\<open>part_000\<close>, \<open>part_001\<close>) describe the context
  servers it plans and the issue workflows that call on this server; the
  READMEs (\<open>part_003\<close>, \<open>part_004\<close>, \<open>eslint.config.ts\<close> lines 89--105)
  give the shell commands that set it up and call it.

  \<^bold>\<open>Theories and what they model.\<close>
  \<^item> \<open>Prelude\<close>: shared vocabulary (\<open>json\<close>, the samples' \<open>user\<close>), the
    lemma collections \<open>js_simps\<close> and \<open>fs_simps\<close>, and list facts shared by
    the components (windows of a list, indexed iteration).
  \<^item> \<open>JsString\<close>: the JavaScript built-ins the code calls (\<open>startsWith\<close>,
    \<open>includes\<close>, \<open>toLowerCase\<close>, \<open>toUpperCase\<close>, \<open>split\<close>, \<open>join\<close>,
    \<open>slice\<close>, decimal printing, \<open>parseInt\<close>) on character lists, with ASCII
    case mapping.  Lemmas: \<open>includes\<close> is the sublist relation, \<open>join\<close>
    inverts \<open>split\<close>, \<open>parseInt\<close> reads back a printed number.
  \<^item> \<open>NodePath\<close>: \<open>path.join\<close>, \<open>path.normalize\<close> and resolution against the
    working directory, on segment lists.  Lemmas: joins of clean names resolve
    to the concatenation of their segments; an absolute argument after the
    first does not restart a join.
  \<^item> \<open>FileSystem\<close>: the file tree (files and directories) and the calls
    \<open>fs.readdir\<close>, \<open>fs.readFile\<close>, \<open>fs.access\<close> with Node's error codes;
    \<open>fs_put\<close> is the effect of a clone or pull.  Lemmas: lookup after put,
    put idempotent, well-formedness kept.
  \<^item> \<open>Config\<close>: \<open>config.ts\<close>, the check of \<open>startServer\<close> and the platform
    validation of \<open>schemas.ts\<close>.  Claim C17 (a decimal \<open>PORT\<close> configures
    that port).
  \<^item> \<open>Repository\<close>: \<open>repoTools\<close> (\<open>part_005\<close> lines 7--85):
    \<open>ensureRepo\<close> on a \<open>world\<close> (file tree, working directory, recorded
    origins, reachable remotes), \<open>getDirectoryStructure\<close> with its
    accumulating \<open>traverse\<close>, \<open>readAgentsMd\<close>.  Claims C1--C9: what a
    successful \<open>ensureRepo\<close> leaves, idempotence, a failed pull is fatal, the
    URL is ignored once cloned, the walk equals a pure preorder listing
    (by induction with the accumulator generalised) and is sound and complete
    for the visible paths, and where the walk and the guideline file lie with
    an absolute and with a relative \<open>REPO_DIR\<close>.
  \<^item> \<open>Search\<close>: the body of \<open>search_best_practices\<close>.  Claims C12--C14: the
    \<open>forEach\<close> loop equals a filter over line indices, the context window is
    exactly the lines within two of the match, and an empty query matches
    every line.
  \<^item> \<open>McpServer\<close>: \<open>getMcpServer\<close>: resources, tools, argument validation,
    dispatch (\<open>handle\<close>).  Claims C10 (one unreadable guideline fails
    \<open>get_all_contexts\<close>, as \<open>Promise.all\<close> does) and C11 (the \<open>platform\<close>
    argument round trip).
  \<^item> \<open>App\<close>: the routes of \<open>createApp\<close> (\<open>part_005\<close> lines 103--172) with
    Express's matching, \<open>HEAD\<close> and default 404; the MCP transport's
    JSON-RPC handling (\<open>mcp_serve\<close>, modelled from the SDK's documented
    behaviour); \<open>startServer\<close> of \<open>index.ts\<close>.
  \<^item> \<open>RepoConcurrency\<close>: concurrent \<open>ensureRepo\<close> calls as an inductive step
    relation over their \<open>await\<close> points, with the shared git instance's limit
    of one process (clones), the fresh instances of pulls, and git processes
    that may hang, since no \<open>timeout\<close> is set.  Claims C18 (two pulls at
    once), C19 (the double clone of two first calls, an explicit trace) and
    C20 (a hung clone starves the queued one: an invariant of every state
    reachable from the hang, by induction on the reflexive-transitive closure).
  \<^item> \<open>EslintConfig\<close>: \<open>eslint.config.ts\<close> lines 1--88 (the exported
    \<open>defineConfig\<close> call, its rules block and global ignores) with ESLint's
    flat-config semantics: minimatch globs, global ignores of files and
    directories, in-order merging of rules.  The shared configurations it
    spreads are parameters.  Claims C21 (the block's rules win on every linted
    file) and C22 (nothing below \<open>dist\<close>, \<open>node_modules\<close>, \<open>.tmp\<close> is
    linted).
  \<^item> \<open>GuideExpress\<close>: the backend guideline's samples (\<open>part_003\<close> lines
    65--170): the \<open>POST /users\<close> route with its validation middleware and
    controller, the sample \<open>createUser\<close> and its unit tests, the Swagger
    documentation of the route.  Lemmas only.
  \<^item> \<open>GuideMobile\<close>: the mobile guideline's samples (\<open>part_002\<close>):
    \<open>UserCard\<close>, the theme, \<open>UserDetailScreen\<close>, \<open>useLocation\<close>, the
    platform-specific and accessible buttons, the Storybook stories, the
    \<open>UserCard\<close> unit tests and the Detox end-to-end test, run against an app
    given by its screens.  Lemmas only.
  \<^item> \<open>IssueWorkflow\<close>: the Issue Validation workflow of \<open>part_001\<close>:
    checklist answers and tool outputs (inputs) give a typed report
    (\<open>check\<close> ordered by severity through a \<open>linorder\<close> instance) and the
    four readiness rules, kept without an order as the text gives them; the
    issue structure with CommonMark's headings and its source mapping.
    Claims C25 (the rules on the checks select exactly one status, the worst
    check's, and \<open>INCOMPLETE\<close> comes beside it) and C26 (when the whole
    workflow classifies \<open>READY\<close> and \<open>BLOCKED\<close>).
  \<^item> \<open>Shell\<close>: the README commands under POSIX 2.9.1 (expansion, then
    redirections by the shell's user, then assignments to the program's
    environment) with Unix owner permissions, \<open>sudo\<close>, \<open>echo\<close>,
    \<open>tee -a\<close>, \<open>cp\<close>.  Claims C23 (\<open>sudo echo ... >> /etc/hosts\<close> is denied)
    and C24 (the README \<open>curl\<close> ignores its \<open>PORT=3030\<close>).
  \<^item> \<open>McpCatalogue\<close>: the planned context servers of \<open>part_000\<close> and
    the servers the playbooks call on, as data; lemmas: the server
    dispatches exactly its three registered tools, and none of the tools the
    playbooks expect from the Best Practices server.
  \<^item> This theory: properties across components, claims C15 and C16: the
    listening server serves a synchronised working copy, and only a
    \<open>resources/read\<close> call changes the state; and the README's \<open>curl\<close>
    example end to end.

  \<^bold>\<open>Modelling choices.\<close>  Every \<open>throw\<close> and rejected promise is an \<open>Inl\<close>;
  paths are resolved to segment lists, as the file system reads them;
  directory entries keep \<open>readdir\<close> order.  git is modelled by its effect: a
  clone puts the remote's tree at the directory and records the origin, a pull
  puts the origin's current tree there (untracked files are dropped, and no
  merge or divergence failure is modelled); in the concurrent model a git
  process takes effect when it ends, or hangs.  Parameters stand for code the
  repository does not contain (the answers and tools of the playbooks,
  \<open>userSchema\<close> and \<open>userService\<close> of the samples, the stories'
  \<open>defaultTheme\<close>, what the undefined components of \<open>UserDetailScreen\<close>
  render, the app under the Detox test, the shared ESLint configurations).
  Where the code relies on a library's documented behaviour (the MCP SDK's
  JSON-RPC handling, Detox, ESLint's flat configuration, minimatch, CommonMark
  headings, the POSIX shell), that behaviour is modelled and marked as such in
  the manifest.  All functions are total and structural or by \<open>fun\<close> with its
  termination proof, so no fuel is needed; the one process that need not end,
  concurrent calls with a hung git process, is a relation, and the claim about
  it is a statement about every reachable state.  The examples evaluate by
  \<open>simp\<close> and \<open>code_simp\<close>.  Reachability is the reflexive-transitive
  closure of the step relation.

  \<^bold>\<open>Not modelled.\<close>  Of the playbooks, the prose (descriptions,
  checklists, delivery formats), the markdown plan templates and the
  Planning/Refinement Session workflow (an ordered list of steps performed by
  the language model with the user, calling services outside the repository,
  with no guards or failure handling in the text) carry no behaviour to
  model; the judgements of the language model and of the user are inputs;
  docker, Traefik, n8n and the webhook are programs outside the repository,
  recorded only as invocations.  Of the ESLint configuration, the plugins,
  parser, language options and resolver settings are kept only as keys (they
  do not decide which rules apply), and the shared configurations are
  packages outside the repository.  The MCP SDK's session handling, HTTP
  headers (\<open>Accept\<close>, \<open>Content-Type\<close>), body parsing and \<open>OPTIONS\<close>
  requests, the console logging and the \<open>SIGINT\<close> handler are not modelled.
  Symbolic links are not modelled (Node's \<open>fs\<close> calls follow them); a
  failure of \<open>fs.access\<close> other than a missing path is not modelled; case
  mapping is ASCII only; a clone's content is the remote's tree, without
  history, and the directory a clone creates at its start appears in the
  concurrent model only when it ends.  The guidelines' markdown plans
  (\<open>part_002\<close> lines 621--662, \<open>part_003\<close> lines 238--268) and the
  \<open>npm\<close> commands of their checklists are prose.  The JSON bodies of the
  README's \<open>curl\<close> commands are kept as text: parsing them is Express's, not
  this code's.
\<close>

subsection \<open>Examples\<close>

text \<open>The configuration and requests of the examples below.\<close>

definition demo_env :: env where
  "demo_env = [''REPO_URL'' \<mapsto> demo_url, ''REPO_DIR'' \<mapsto> ''repo'', ''PORT'' \<mapsto> ''80'']"

definition read_backend_request :: http_request where
  "read_backend_request =
     \<lparr>req_method = POST, req_path = ''/mcp'',
      req_body = JObj [(''jsonrpc'', JStr ''2.0''), (''id'', JNum 1), (''method'', JStr ''resources/read''),
                       (''params'', JObj [(''uri'', JStr ''boilerplate://backend/agents.md'')])]\<rparr>"

definition structure_request :: http_request where
  "structure_request =
     \<lparr>req_method = POST, req_path = ''/mcp'',
      req_body = JObj [(''jsonrpc'', JStr ''2.0''), (''id'', JNum 3), (''method'', JStr ''tools/call''),
                       (''params'', JObj [(''name'', JStr ''get_boilerplate_structure''),
                                         (''arguments'', JObj [(''platform'', JStr ''backend'')])])]\<rparr>"

lemma demo_env_config:
  "config_of_env demo_env = \<lparr>port = Some 80, repoUrl = demo_url, repoDir = ''repo'', boilerplateDir = [], platforms = PLATFORMS_ARRAY\<rparr>"
proof -
  have "parse_int ''80'' = Some 80" by code_simp
  then show ?thesis by (simp add: config_of_env_def demo_env_def env_or_empty_def)
qed

subsection \<open>Properties across components\<close>

text \<open>
  C15. A server that listens serves a synchronised working copy: start-up
  runs \<open>ensureRepo\<close> before \<open>app.listen\<close>, so when \<open>startServer\<close> reaches
  \<open>Listening\<close>, the configured directory is a working copy whose origin is
  reachable and whose tree is that origin's content.
\<close>

theorem startServer_synced:
  assumes "startServer e w = Listening p w'"
  shows "\<exists>u t. origins w' (resolve_segs (cwd w') (repoDir (config_of_env e))) = Some u
           \<and> remotes w' u = Some t
           \<and> lookup (fsroot w') (resolve_segs (cwd w') (repoDir (config_of_env e))) = Some t"
proof -
  have "ensureRepo (repoUrl (config_of_env e)) (repoDir (config_of_env e)) w = Inr w'"
    using assms by (auto simp: startServer_def Let_def repoTools_init_def split: sum.splits option.splits if_splits)
  from ensureRepo_Inr [OF this] show ?thesis by (auto dest: lookup_fs_put)
qed

theorem startServer_synced_witness:
  "\<exists>w'. startServer demo_env demo_world = Listening 80 w'
     \<and> (\<exists>u t. origins w' (resolve_segs (cwd w') ''repo'') = Some u \<and> remotes w' u = Some t
              \<and> lookup (fsroot w') (resolve_segs (cwd w') ''repo'') = Some t)"
proof -
  obtain w' where e: "ensureRepo demo_url ''repo'' demo_world = Inr w'" using demo_ensure by blast
  have "demo_url \<noteq> []" by (simp add: demo_url_def)
  then have l: "startServer demo_env demo_world = Listening 80 w'"
    using e by (simp add: startServer_def demo_env_config start_check_def repoTools_init_def valid_port_def)
  show ?thesis using startServer_synced [OF l] l by (auto simp: demo_env_config)
qed


text \<open>
  C16. Across the HTTP layer, the MCP transport and the server, the only request
  that can change the state (clone or pull) is a \<open>POST /mcp\<close> whose JSON-RPC
  call is \<open>resources/read\<close>: health checks, refused verbs, malformed calls and
  every tool call leave it as it was.
\<close>

theorem app_state_changes_only_by_resource_read:
  assumes "fst (createApp (mcp_serve cfg) w req) \<noteq> w"
  shows "req_method req = POST \<and> path_matches ''/mcp'' (req_path req)
         \<and> (\<exists>u. rpc_request (req_body req) = Inr (ReadResource u))"
proof -
  have post: "req_method req = POST \<and> path_matches ''/mcp'' (req_path req)"
    using assms by (auto simp: createApp_def split: if_splits)
  then have "fst (mcp_serve cfg w (req_body req)) \<noteq> w"
    using assms by (auto simp: createApp_def post_mcp_def split: prod.splits mcp_outcome.splits)
  then obtain r where r: "rpc_request (req_body req) = Inr r" and ch: "fst (handle cfg w r) \<noteq> w"
    by (auto simp: mcp_serve_def split: sum.splits prod.splits)
  have "\<exists>u. r = ReadResource u"
    using ch by (cases r) (auto split: option.splits prod.splits)
  then show ?thesis using post r by blast
qed

theorem app_state_changes_only_by_resource_read_witness:
  "fst (createApp (mcp_serve demo_cfg) demo_world read_backend_request) \<noteq> demo_world
   \<and> rpc_request (req_body read_backend_request) = Inr (ReadResource ''boilerplate://backend/agents.md'')"
proof -
  obtain w' where e: "ensureRepo demo_url ''repo'' demo_world = Inr w'" using demo_ensure by blast
  have "fs_access (fsroot w') (cwd w') ''repo''" using e by (rule ensureRepo_exists_after)
  moreover have "\<not> fs_access (fsroot demo_world) (cwd demo_world) ''repo''"
    by (simp add: demo_defs fs_access_def resolve_segs_def is_absolute_def)
  ultimately have ne: "w' \<noteq> demo_world" by auto
  have u: "''boilerplate://backend/agents.md'' = resource_uri BACKEND" by (simp add: resource_uri_def)
  have rq: "rpc_request (req_body read_backend_request) = Inr (ReadResource ''boilerplate://backend/agents.md'')"
    by (simp add: read_backend_request_def rpc_request_def json_field_def)
  have pm: "path_matches ''/mcp'' ''/mcp''" by (simp add: path_matches_def) code_simp
  have "fst (createApp (mcp_serve demo_cfg) demo_world read_backend_request) = w'"
    using rq pm e
    by (simp add: createApp_def post_mcp_def mcp_serve_def read_backend_request_def read_resource_def
                  demo_cfg_def resource_uri_def split: sum.splits)
  then have "fst (createApp (mcp_serve demo_cfg) demo_world read_backend_request) \<noteq> demo_world"
    using ne by simp
  moreover from this have "req_method read_backend_request = POST \<and> path_matches ''/mcp'' (req_path read_backend_request)
         \<and> (\<exists>u. rpc_request (req_body read_backend_request) = Inr (ReadResource u))"
    by (rule app_state_changes_only_by_resource_read)
  ultimately show ?thesis using rq by simp
qed

text \<open>
  The request of the README's \<open>curl\<close> example
  (\<open>eslint.config.ts\<close> lines 91--105: \<open>tools/call\<close> of
  \<open>get_boilerplate_structure\<close> for \<open>backend\<close>), sent to a server whose
  working copy holds the example repository, is answered 200 with the listing
  of the backend boilerplate; hidden files and \<open>node_modules\<close> are left out.
\<close>

theorem curl_structure_example:
  "createApp (mcp_serve demo_cfg) demo_synced structure_request =
     (demo_synced, Reply 200 (JsonBody (rpc_result (JNum 3)
        (JObj [(''content'', text_content
           ''File structure for backend boilerplate:\<newline>\<newline>AGENTS.md\<newline>src/\<newline>src/index.ts'')]))))"
proof -
  have pm: "path_matches ''/mcp'' ''/mcp''" by (simp add: path_matches_def) code_simp
  have ap: "arg_platform demo_cfg [(''platform'', ''backend'')] = Some BACKEND"
    by (simp add: arg_platform_def parse_platform_def demo_cfg_def)
  have "getDirectoryStructure demo_synced (repoDir demo_cfg) (boilerplateDir demo_cfg) BACKEND
          = Inr [''AGENTS.md'', ''src/'', ''src/index.ts'']"
    using demo_structure by (simp add: demo_cfg_def)
  then show ?thesis
    using pm ap
    by (simp add: createApp_def post_mcp_def mcp_serve_def structure_request_def rpc_request_def
                  json_field_def string_args_def rpc_id_def get_boilerplate_structure_def tool_response_def)
qed

end
